theory Spec2Isabelle
  imports Main "HOL-Library.Word" "HOL-Library.Signed_Division"
begin

section \<open>Frame resources and dirty constants of LitColumnsApp\<close>

text \<open>
  The two applications of the repository (Assignment 1 and Lab 5, both in a file
  LitColumnsApp.cpp) share one frame protocol: \<open>Update\<close> cycles through a ring of
  \<open>gNumFrameResources\<close> frame resources, waits for the fence of the chosen one, and
  refreshes the constant buffers of the dirty render items and materials; \<open>Draw\<close>
  resets the command allocator of that frame resource, records and submits the draw
  calls and advances the fence.

  Floating point values are kept abstract (the type variable \<open>'a\<close>): the protocol only
  stores and copies them. The pass constants, which \<open>UpdateMainPassCB\<close> computes from
  the camera and the timer, are a value of the type variable \<open>'p\<close> handed to \<open>Update\<close>.
\<close>

subsection \<open>Data\<close>

definition gNumFrameResources :: int where
  "gNumFrameResources = 3"

datatype 'a XMFLOAT4 = XMFLOAT4 'a 'a 'a 'a

datatype 'a XMFLOAT4X4 =
  XMFLOAT4X4 "'a XMFLOAT4" "'a XMFLOAT4" "'a XMFLOAT4" "'a XMFLOAT4"

definition Identity4x4 :: "'a::{zero,one} XMFLOAT4X4" where
  "Identity4x4 = XMFLOAT4X4 (XMFLOAT4 1 0 0 0) (XMFLOAT4 0 1 0 0)
                            (XMFLOAT4 0 0 1 0) (XMFLOAT4 0 0 0 1)"

fun XMMatrixTranspose :: "'a XMFLOAT4X4 \<Rightarrow> 'a XMFLOAT4X4" where
  "XMMatrixTranspose (XMFLOAT4X4 (XMFLOAT4 a11 a12 a13 a14) (XMFLOAT4 a21 a22 a23 a24)
                                 (XMFLOAT4 a31 a32 a33 a34) (XMFLOAT4 a41 a42 a43 a44)) =
     XMFLOAT4X4 (XMFLOAT4 a11 a21 a31 a41) (XMFLOAT4 a12 a22 a32 a42)
                (XMFLOAT4 a13 a23 a33 a43) (XMFLOAT4 a14 a24 a34 a44)"

datatype topology = TRIANGLELIST | POINTLIST

text \<open>
  \<open>struct RenderItem\<close>. The pointers \<open>Mat\<close> and \<open>Geo\<close> are the key of the object in
  \<open>mMaterials\<close> and \<open>mGeometries\<close> (\<open>None\<close> is \<open>nullptr\<close>). The three draw arguments
  \<open>IndexCount\<close>, \<open>StartIndexLocation\<close> and \<open>BaseVertexLocation\<close> are always copied
  together from one entry of \<open>Geo->DrawArgs\<close>: the field \<open>DrawArgs\<close> is the name of
  that entry (\<open>None\<close> for the three zeros of the default).
\<close>

record 'a RenderItem =
  World :: "'a XMFLOAT4X4"
  TexTransform :: "'a XMFLOAT4X4"
  NumFramesDirty :: int
  ObjCBIndex :: "32 word"
  Mat :: "string option"
  Geo :: "string option"
  PrimitiveType :: topology
  DrawArgs :: "string option"

definition RenderItem_default :: "'a::{zero,one} RenderItem" where
  "RenderItem_default =
     \<lparr>World = Identity4x4, TexTransform = Identity4x4,
      NumFramesDirty = gNumFrameResources, ObjCBIndex = - 1,
      Mat = None, Geo = None, PrimitiveType = TRIANGLELIST, DrawArgs = None\<rparr>"

text \<open>
  \<open>struct Material\<close> is declared outside the source files at hand; its fields are
  the ones LitColumnsApp.cpp reads and writes.
\<close>

record 'a Material =
  Name :: string
  MatCBIndex :: int
  DiffuseSrvHeapIndex :: int
  NumFramesDirty :: int
  DiffuseAlbedo :: "'a XMFLOAT4"
  FresnelR0 :: "'a list"
  Roughness :: 'a
  MatTransform :: "'a XMFLOAT4X4"

datatype 'a ObjectConstants = ObjectConstants "'a XMFLOAT4X4" "'a XMFLOAT4X4"

datatype 'a MaterialConstants =
  MaterialConstants "'a XMFLOAT4" "'a list" 'a "'a XMFLOAT4X4"

datatype error = NullPointer | VectorOutOfRange | PreconditionViolation

subsection \<open>Upload buffers and frame resources\<close>

text \<open>
  An upload buffer is its array of elements; an element that was never written is
  \<open>None\<close>.
\<close>

type_synonym 'r UploadBuffer = "'r option list"

text \<open>
  Modelled from the spec: \<open>UploadBuffer::CopyData\<close> (UploadBuffer.h is not among the
  source files). \<open>copyData(index, record)\<close> requires \<open>0 <= index < capacity\<close> and
  writes the record at that index; an index out of range is a precondition violation
  that fails fast.
\<close>

definition CopyData :: "int \<Rightarrow> 'r \<Rightarrow> 'r UploadBuffer \<Rightarrow> error + 'r UploadBuffer" where
  "CopyData elementIndex data buf =
     (if 0 \<le> elementIndex \<and> elementIndex < int (length buf)
      then Inr (buf[nat elementIndex := Some data])
      else Inl PreconditionViolation)"

text \<open>
  The commands that \<open>Draw\<close> records into the memory of a command allocator and that
  depend on the frame resource: binding the pass constant buffer of a frame resource
  and one indexed draw per render item, with the indices of its object and material
  constants. Viewport, clears, barriers and pipeline state do not touch the state
  modelled here.
\<close>

datatype command = CmdBindPassCB nat | CmdDrawIndexedInstanced "32 word" int

record ('a, 'p) FrameResource =
  CmdListAlloc :: "command list"
  PassCB :: "'p UploadBuffer"
  MaterialCB :: "'a MaterialConstants UploadBuffer"
  ObjectCB :: "'a ObjectConstants UploadBuffer"
  Fence :: "64 word"

text \<open>
  Modelled from the spec: the constructor of \<open>FrameResource\<close> (FrameResource.h is not
  among the source files). \<open>create(device, passCapacity, objectCapacity,
  materialCapacity)\<close> builds one command allocator and three upload buffers of these
  capacities; \<open>lastSubmittedFence\<close> is 0, never submitted.
\<close>

definition FrameResource_new :: "nat \<Rightarrow> nat \<Rightarrow> nat \<Rightarrow> ('a, 'p) FrameResource" where
  "FrameResource_new passCount objectCount materialCount =
     \<lparr>CmdListAlloc = [], PassCB = replicate passCount None,
      MaterialCB = replicate materialCount None,
      ObjectCB = replicate objectCount None, Fence = 0\<rparr>"

subsection \<open>The application state\<close>

text \<open>
  What the program does to the outside, in the order it does it: waiting for a fence
  value, copying into the constant buffers of frame resource \<open>k\<close>, resetting the
  command allocator of frame resource \<open>k\<close>, submitting the command list recorded in
  the allocator of frame resource \<open>k\<close>, presenting, and signalling a fence value.
\<close>

datatype event =
  EvWait "64 word"
  | EvCopyObject nat int
  | EvCopyMaterial nat int
  | EvCopyPass nat
  | EvResetAllocator nat
  | EvExecute nat "command list"
  | EvPresent
  | EvSignal "64 word"

text \<open>
  The members of \<open>LitColumnsApp\<close> (and of its base class) that the frame protocol
  uses. \<open>mCurrFrameResource\<close> points into \<open>mFrameResources\<close>: it is the index of the
  element pointed to, \<open>None\<close> for \<open>nullptr\<close>. \<open>mRitemLayer\<close> holds the lists of
  render items that \<open>Draw\<close> passes to \<open>DrawRenderItems\<close>, in the order of these calls,
  each render item as its position in \<open>mAllRitems\<close>: Assignment 1 has the one list
  \<open>mOpaqueRitems\<close>, Lab 5 the four layers of \<open>mRitemLayer\<close>. \<open>mMaterials\<close> is the
  unordered map, as the list of its entries in the order of iteration; the mapped
  \<open>unique_ptr\<close> may be null. \<open>clock\<close> and \<open>trace\<close> are not members: the clock counts
  the instants at which the host observes the device, the trace records the events.
\<close>

record ('a, 'p) App =
  mAllRitems :: "'a RenderItem list"
  mRitemLayer :: "nat list list"
  mMaterials :: "(string \<times> 'a Material option) list"
  mFrameResources :: "('a, 'p) FrameResource list"
  mCurrFrameResource :: "nat option"
  mCurrFrameResourceIndex :: int
  mCurrentFence :: "64 word"
  mCurrBackBuffer :: int
  clock :: nat
  trace :: "event list"

subsection \<open>Refreshing the constant buffers\<close>

text \<open>A range-based \<open>for\<close> over the positions of a vector, stopping at the first failure.\<close>

fun for_each :: "(nat \<Rightarrow> 's \<Rightarrow> error + 's) \<Rightarrow> nat list \<Rightarrow> 's \<Rightarrow> error + 's" where
  "for_each body [] s = Inr s"
| "for_each body (i # is) s =
     (case body i s of Inl err \<Rightarrow> Inl err | Inr s' \<Rightarrow> for_each body is s')"

text \<open>
  The body of the loop of \<open>UpdateObjectCBs\<close> for the render item at position \<open>i\<close>,
  with \<open>currObjectCB\<close> the object buffer of frame resource \<open>k\<close>. \<open>objConstants\<close>
  is the local variable of that name, \<open>matConstants\<close> the one of \<open>UpdateMaterialCBs\<close>.
\<close>

definition objConstants :: "'a RenderItem \<Rightarrow> 'a ObjectConstants" where
  "objConstants e =
     ObjectConstants (XMMatrixTranspose (World e)) (XMMatrixTranspose (TexTransform e))"

definition UpdateObjectCBs_body :: "nat \<Rightarrow> nat \<Rightarrow> ('a, 'p) App \<Rightarrow> error + ('a, 'p) App" where
  "UpdateObjectCBs_body k i s =
     (let e = mAllRitems s ! i; fr = mFrameResources s ! k in
      if 0 < RenderItem.NumFramesDirty e then
        (case CopyData (uint (ObjCBIndex e)) (objConstants e) (ObjectCB fr) of
           Inl err \<Rightarrow> Inl err
         | Inr cb \<Rightarrow>
             Inr (s\<lparr>mFrameResources := (mFrameResources s)[k := fr\<lparr>ObjectCB := cb\<rparr>],
                    mAllRitems := (mAllRitems s)
                      [i := e\<lparr>RenderItem.NumFramesDirty := RenderItem.NumFramesDirty e - 1\<rparr>],
                    trace := trace s @ [EvCopyObject k (uint (ObjCBIndex e))]\<rparr>))
      else Inr s)"

definition UpdateObjectCBs :: "('a, 'p) App \<Rightarrow> error + ('a, 'p) App" where
  "UpdateObjectCBs s =
     (case mCurrFrameResource s of
        None \<Rightarrow> Inl NullPointer
      | Some k \<Rightarrow>
          if k < length (mFrameResources s)
          then for_each (UpdateObjectCBs_body k) [0..<length (mAllRitems s)] s
          else Inl VectorOutOfRange)"

text \<open>
  The body of the loop of \<open>UpdateMaterialCBs\<close> for the entry of \<open>mMaterials\<close> at
  position \<open>i\<close>.
\<close>

definition matConstants :: "'a Material \<Rightarrow> 'a MaterialConstants" where
  "matConstants mat =
     MaterialConstants (DiffuseAlbedo mat) (FresnelR0 mat) (Roughness mat)
                       (XMMatrixTranspose (MatTransform mat))"

definition UpdateMaterialCBs_body :: "nat \<Rightarrow> nat \<Rightarrow> ('a, 'p) App \<Rightarrow> error + ('a, 'p) App" where
  "UpdateMaterialCBs_body k i s =
     (let fr = mFrameResources s ! k in
      case snd (mMaterials s ! i) of
        None \<Rightarrow> Inl NullPointer
      | Some mat \<Rightarrow>
          if 0 < NumFramesDirty mat then
            (case CopyData (MatCBIndex mat) (matConstants mat) (MaterialCB fr) of
               Inl err \<Rightarrow> Inl err
             | Inr cb \<Rightarrow>
                 Inr (s\<lparr>mFrameResources := (mFrameResources s)[k := fr\<lparr>MaterialCB := cb\<rparr>],
                        mMaterials := (mMaterials s)
                          [i := (fst (mMaterials s ! i),
                                 Some (mat\<lparr>NumFramesDirty := NumFramesDirty mat - 1\<rparr>))],
                        trace := trace s @ [EvCopyMaterial k (MatCBIndex mat)]\<rparr>))
          else Inr s)"

definition UpdateMaterialCBs :: "('a, 'p) App \<Rightarrow> error + ('a, 'p) App" where
  "UpdateMaterialCBs s =
     (case mCurrFrameResource s of
        None \<Rightarrow> Inl NullPointer
      | Some k \<Rightarrow>
          if k < length (mFrameResources s)
          then for_each (UpdateMaterialCBs_body k) [0..<length (mMaterials s)] s
          else Inl VectorOutOfRange)"

text \<open>
  \<open>UpdateMainPassCB\<close>: the pass constants \<open>pass\<close>, computed from the camera and the
  timer, are copied to element 0 of the pass buffer of the current frame resource.
\<close>

definition UpdateMainPassCB :: "'p \<Rightarrow> ('a, 'p) App \<Rightarrow> error + ('a, 'p) App" where
  "UpdateMainPassCB pass s =
     (case mCurrFrameResource s of
        None \<Rightarrow> Inl NullPointer
      | Some k \<Rightarrow>
          if k < length (mFrameResources s) then
            (let fr = mFrameResources s ! k in
             case CopyData 0 pass (PassCB fr) of
               Inl err \<Rightarrow> Inl err
             | Inr cb \<Rightarrow>
                 Inr (s\<lparr>mFrameResources := (mFrameResources s)[k := fr\<lparr>PassCB := cb\<rparr>],
                        trace := trace s @ [EvCopyPass k]\<rparr>))
          else Inl VectorOutOfRange)"

subsection \<open>Update\<close>

text \<open>
  Waiting for the event that the device sets when its completed fence value reaches
  \<open>f\<close> (\<open>SetEventOnCompletion\<close>, then \<open>WaitForSingleObject\<close> without a timeout).
  \<open>gpu t\<close> is the completed value that the device shows at instant \<open>t\<close>; the wait ends
  at the first instant from \<open>t\<close> on at which the completed value has reached \<open>f\<close>, and
  never ends when there is none.
\<close>

partial_function (option) WaitForFence :: "(nat \<Rightarrow> 64 word) \<Rightarrow> 64 word \<Rightarrow> nat \<Rightarrow> nat option" where
  "WaitForFence gpu f t = (if f \<le> gpu t then Some t else WaitForFence gpu f (Suc t))"

text \<open>\<open>AnimateMaterials\<close> of Assignment 1 has an empty body; \<open>Update\<close> of Lab 5 does not call it.\<close>

definition AnimateMaterials :: "('a, 'p) App \<Rightarrow> ('a, 'p) App" where
  "AnimateMaterials s = s"

text \<open>
  \<open>AnimateMaterials\<close> of Lab 5 scrolls the texture transform of the material
  \<open>water\<close> and marks the material dirty. \<open>mMaterials["water"]\<close> adds a null entry
  when the key is missing, and the null pointer is then dereferenced. The new
  transform is floating point arithmetic on the old one and the timer: the function
  \<open>scroll\<close>.
\<close>

definition AnimateMaterials_Lab5 ::
  "('a XMFLOAT4X4 \<Rightarrow> 'a XMFLOAT4X4) \<Rightarrow> ('a, 'p) App \<Rightarrow> error + ('a, 'p) App" where
  "AnimateMaterials_Lab5 scroll s =
     (case find (\<lambda>i. fst (mMaterials s ! i) = ''water'') [0..<length (mMaterials s)] of
        None \<Rightarrow> Inl NullPointer
      | Some i \<Rightarrow>
          (case snd (mMaterials s ! i) of
             None \<Rightarrow> Inl NullPointer
           | Some waterMat \<Rightarrow>
               Inr (s\<lparr>mMaterials := (mMaterials s)
                        [i := (''water'',
                               Some (waterMat\<lparr>MatTransform := scroll (MatTransform waterMat),
                                               NumFramesDirty := gNumFrameResources\<rparr>))]\<rparr>)))"

text \<open>
  The first part of \<open>Update\<close>: the index of the current frame resource advances, the
  pointer follows, and the host waits when the frame resource has a fence value that
  the device has not completed. \<open>%\<close> truncates towards zero. Each call of \<open>Update\<close>
  observes the device at a new instant.
\<close>

definition Update_cycle :: "(nat \<Rightarrow> 64 word) \<Rightarrow> ('a, 'p) App \<Rightarrow> (error + ('a, 'p) App) option" where
  "Update_cycle gpu s =
     (let i = (mCurrFrameResourceIndex s + 1) smod gNumFrameResources in
      if 0 \<le> i \<and> i < int (length (mFrameResources s)) then
        (let s1 = s\<lparr>mCurrFrameResourceIndex := i, mCurrFrameResource := Some (nat i),
                    clock := Suc (clock s)\<rparr>;
             f = Fence (mFrameResources s1 ! nat i) in
         if f \<noteq> 0 \<and> gpu (clock s1) < f then
           (case WaitForFence gpu f (clock s1) of
              None \<Rightarrow> None
            | Some t \<Rightarrow> Some (Inr (s1\<lparr>clock := t, trace := trace s1 @ [EvWait f]\<rparr>)))
         else Some (Inr s1))
      else Some (Inl VectorOutOfRange))"

definition Update_refresh :: "'p \<Rightarrow> ('a, 'p) App \<Rightarrow> error + ('a, 'p) App" where
  "Update_refresh pass s =
     (case UpdateObjectCBs (AnimateMaterials s) of
        Inl err \<Rightarrow> Inl err
      | Inr s1 \<Rightarrow>
          (case UpdateMaterialCBs s1 of
             Inl err \<Rightarrow> Inl err
           | Inr s2 \<Rightarrow> UpdateMainPassCB pass s2))"

definition Update :: "(nat \<Rightarrow> 64 word) \<Rightarrow> 'p \<Rightarrow> ('a, 'p) App \<Rightarrow> (error + ('a, 'p) App) option" where
  "Update gpu pass s =
     (case Update_cycle gpu s of
        None \<Rightarrow> None
      | Some (Inl err) \<Rightarrow> Some (Inl err)
      | Some (Inr s1) \<Rightarrow> Some (Update_refresh pass s1))"

subsection \<open>Draw\<close>

text \<open>
  \<open>DrawRenderItems\<close> records one indexed draw per render item of the list, bound to
  the object constants at \<open>ObjCBIndex\<close> and to the material constants at the
  \<open>MatCBIndex\<close> of its material.
\<close>

fun DrawRenderItems :: "('a, 'p) App \<Rightarrow> nat list \<Rightarrow> error + command list" where
  "DrawRenderItems s [] = Inr []"
| "DrawRenderItems s (i # ritems) =
     (if i < length (mAllRitems s) then
        (let ri = mAllRitems s ! i in
         case Geo ri of
           None \<Rightarrow> Inl NullPointer
         | Some g \<Rightarrow>
             (case Mat ri of
                None \<Rightarrow> Inl NullPointer
              | Some n \<Rightarrow>
                  (case map_of (mMaterials s) n of
                     Some (Some m) \<Rightarrow>
                       (case DrawRenderItems s ritems of
                          Inl err \<Rightarrow> Inl err
                        | Inr cs \<Rightarrow> Inr (CmdDrawIndexedInstanced (ObjCBIndex ri) (MatCBIndex m) # cs))
                   | _ \<Rightarrow> Inl NullPointer)))
      else Inl VectorOutOfRange)"

fun DrawLayers :: "('a, 'p) App \<Rightarrow> nat list list \<Rightarrow> error + command list" where
  "DrawLayers s [] = Inr []"
| "DrawLayers s (l # ls) =
     (case DrawRenderItems s l of
        Inl err \<Rightarrow> Inl err
      | Inr cs \<Rightarrow> (case DrawLayers s ls of Inl err \<Rightarrow> Inl err | Inr cs' \<Rightarrow> Inr (cs @ cs')))"

text \<open>\<open>SwapChainBufferCount\<close> is a constant of the base class \<open>D3DApp\<close>.\<close>

definition SwapChainBufferCount :: int where
  "SwapChainBufferCount = 2"

text \<open>
  \<open>Draw\<close>: the command allocator of the current frame resource is reset, the commands
  are recorded into it and submitted, the back buffer is presented, and the fence
  advances: \<open>mCurrFrameResource->Fence = ++mCurrentFence\<close>, then \<open>Signal\<close>.
\<close>

definition Draw :: "('a, 'p) App \<Rightarrow> error + ('a, 'p) App" where
  "Draw s =
     (case mCurrFrameResource s of
        None \<Rightarrow> Inl NullPointer
      | Some k \<Rightarrow>
          if k < length (mFrameResources s) then
            (case DrawLayers s (mRitemLayer s) of
               Inl err \<Rightarrow> Inl err
             | Inr cs \<Rightarrow>
                 (let cmds = CmdBindPassCB k # cs;
                      f = mCurrentFence s + 1;
                      fr = mFrameResources s ! k in
                  Inr (s\<lparr>mFrameResources :=
                           (mFrameResources s)[k := fr\<lparr>CmdListAlloc := cmds, Fence := f\<rparr>],
                         mCurrentFence := f,
                         mCurrBackBuffer := (mCurrBackBuffer s + 1) smod SwapChainBufferCount,
                         trace := trace s @
                           [EvResetAllocator k, EvExecute k cmds, EvPresent, EvSignal f]\<rparr>)))
          else Inl VectorOutOfRange)"

subsection \<open>Frames\<close>

text \<open>
  One frame of the message loop of \<open>D3DApp\<close>: \<open>Update\<close>, then \<open>Draw\<close>. \<open>run_frames\<close>
  renders one frame for each element of the list of pass constants.
\<close>

definition frame :: "(nat \<Rightarrow> 64 word) \<Rightarrow> 'p \<Rightarrow> ('a, 'p) App \<Rightarrow> (error + ('a, 'p) App) option" where
  "frame gpu pass s =
     (case Update gpu pass s of
        None \<Rightarrow> None
      | Some (Inl err) \<Rightarrow> Some (Inl err)
      | Some (Inr s1) \<Rightarrow> Some (Draw s1))"

fun run_frames ::
  "(nat \<Rightarrow> 64 word) \<Rightarrow> 'p list \<Rightarrow> ('a, 'p) App \<Rightarrow> (error + ('a, 'p) App) option" where
  "run_frames gpu [] s = Some (Inr s)"
| "run_frames gpu (pass # passes) s =
     (case frame gpu pass s of
        None \<Rightarrow> None
      | Some (Inl err) \<Rightarrow> Some (Inl err)
      | Some (Inr s1) \<Rightarrow> run_frames gpu passes s1)"

subsection \<open>The effect of the refresh loops, in closed form\<close>

text \<open>
  What one pass of \<open>UpdateObjectCBs\<close> and of \<open>UpdateMaterialCBs\<close> over the first \<open>n\<close>
  entries does: every dirty entry is written to the buffer of frame resource \<open>k\<close>, in
  the order of the list, and its counter goes down by one. \<open>well_formed\<close> collects
  what the loops and \<open>Draw\<close> rely on: the ring has \<open>gNumFrameResources\<close> frame
  resources whose buffers have one element per render item, one per material and one
  for the pass; every index of a constant buffer is within its buffer; the pointers
  of the render items are not null.
\<close>

definition dec_item :: "'a RenderItem \<Rightarrow> 'a RenderItem" where
  "dec_item e = (if 0 < RenderItem.NumFramesDirty e
                 then e\<lparr>RenderItem.NumFramesDirty := RenderItem.NumFramesDirty e - 1\<rparr> else e)"

definition dirty_items :: "'a RenderItem list \<Rightarrow> 'a RenderItem list" where
  "dirty_items es = filter (\<lambda>e. 0 < RenderItem.NumFramesDirty e) es"

definition write_item :: "'a ObjectConstants UploadBuffer \<Rightarrow> 'a RenderItem \<Rightarrow> 'a ObjectConstants UploadBuffer" where
  "write_item buf e = buf[nat (uint (ObjCBIndex e)) := Some (objConstants e)]"

definition objects_after :: "nat \<Rightarrow> nat \<Rightarrow> ('a, 'p) App \<Rightarrow> ('a, 'p) App" where
  "objects_after k n s =
     s\<lparr>mFrameResources := (mFrameResources s)
          [k := (mFrameResources s ! k)\<lparr>ObjectCB :=
             foldl write_item (ObjectCB (mFrameResources s ! k)) (dirty_items (take n (mAllRitems s)))\<rparr>],
       mAllRitems := map dec_item (take n (mAllRitems s)) @ drop n (mAllRitems s),
       trace := trace s @ map (\<lambda>e. EvCopyObject k (uint (ObjCBIndex e))) (dirty_items (take n (mAllRitems s)))\<rparr>"

definition dec_mat :: "string \<times> 'a Material option \<Rightarrow> string \<times> 'a Material option" where
  "dec_mat x = (fst x, map_option (\<lambda>mat. if 0 < NumFramesDirty mat
                 then mat\<lparr>NumFramesDirty := NumFramesDirty mat - 1\<rparr> else mat) (snd x))"

definition dirty_mats :: "(string \<times> 'a Material option) list \<Rightarrow> 'a Material list" where
  "dirty_mats ms = filter (\<lambda>mat. 0 < NumFramesDirty mat) (map (the \<circ> snd) ms)"

definition write_mat :: "'a MaterialConstants UploadBuffer \<Rightarrow> 'a Material \<Rightarrow> 'a MaterialConstants UploadBuffer" where
  "write_mat buf mat = buf[nat (MatCBIndex mat) := Some (matConstants mat)]"

definition materials_after :: "nat \<Rightarrow> nat \<Rightarrow> ('a, 'p) App \<Rightarrow> ('a, 'p) App" where
  "materials_after k n s =
     s\<lparr>mFrameResources := (mFrameResources s)
          [k := (mFrameResources s ! k)\<lparr>MaterialCB :=
             foldl write_mat (MaterialCB (mFrameResources s ! k)) (dirty_mats (take n (mMaterials s)))\<rparr>],
       mMaterials := map dec_mat (take n (mMaterials s)) @ drop n (mMaterials s),
       trace := trace s @ map (\<lambda>mat. EvCopyMaterial k (MatCBIndex mat)) (dirty_mats (take n (mMaterials s)))\<rparr>"

definition well_formed :: "('a, 'p) App \<Rightarrow> bool" where
  "well_formed s \<longleftrightarrow>
     int (length (mFrameResources s)) = gNumFrameResources \<and>
     0 \<le> mCurrFrameResourceIndex s \<and> mCurrFrameResourceIndex s < gNumFrameResources \<and>
     (\<forall>fr \<in> set (mFrameResources s).
        length (ObjectCB fr) = length (mAllRitems s) \<and>
        length (MaterialCB fr) = length (mMaterials s) \<and>
        length (PassCB fr) = 1) \<and>
     (\<forall>e \<in> set (mAllRitems s).
        uint (ObjCBIndex e) < int (length (mAllRitems s)) \<and> Geo e \<noteq> None \<and>
        (case Mat e of None \<Rightarrow> False
         | Some n \<Rightarrow> (case map_of (mMaterials s) n of Some (Some m) \<Rightarrow> True | _ \<Rightarrow> False))) \<and>
     (\<forall>x \<in> set (mMaterials s).
        case snd x of None \<Rightarrow> False
        | Some m \<Rightarrow> 0 \<le> MatCBIndex m \<and> MatCBIndex m < int (length (mMaterials s))) \<and>
     (\<forall>l \<in> set (mRitemLayer s). \<forall>i \<in> set l. i < length (mAllRitems s))"

definition draw_cmd :: "('a, 'p) App \<Rightarrow> nat \<Rightarrow> command" where
  "draw_cmd s i =
     CmdDrawIndexedInstanced (ObjCBIndex (mAllRitems s ! i))
       (MatCBIndex (the (the (map_of (mMaterials s) (the (Mat (mAllRitems s ! i)))))))"

definition refreshed :: "nat \<Rightarrow> 'p \<Rightarrow> ('a, 'p) App \<Rightarrow> ('a, 'p) App" where
  "refreshed k pass s =
     s\<lparr>mFrameResources := (mFrameResources s)
          [k := (mFrameResources s ! k)
             \<lparr>ObjectCB := foldl write_item (ObjectCB (mFrameResources s ! k))
                            (dirty_items (mAllRitems s)),
              MaterialCB := foldl write_mat (MaterialCB (mFrameResources s ! k))
                              (dirty_mats (mMaterials s)),
              PassCB := (PassCB (mFrameResources s ! k))[0 := Some pass]\<rparr>],
       mAllRitems := map dec_item (mAllRitems s),
       mMaterials := map dec_mat (mMaterials s),
       trace := trace s @
         map (\<lambda>e. EvCopyObject k (uint (ObjCBIndex e))) (dirty_items (mAllRitems s)) @
         map (\<lambda>mat. EvCopyMaterial k (MatCBIndex mat)) (dirty_mats (mMaterials s)) @
         [EvCopyPass k]\<rparr>"

definition submitted :: "nat \<Rightarrow> ('a, 'p) App \<Rightarrow> ('a, 'p) App" where
  "submitted k s =
     s\<lparr>mFrameResources := (mFrameResources s)
          [k := (mFrameResources s ! k)
             \<lparr>CmdListAlloc := CmdBindPassCB k # concat (map (map (draw_cmd s)) (mRitemLayer s)),
              Fence := mCurrentFence s + 1\<rparr>],
       mCurrentFence := mCurrentFence s + 1,
       mCurrBackBuffer := (mCurrBackBuffer s + 1) smod SwapChainBufferCount,
       trace := trace s @
         [EvResetAllocator k,
          EvExecute k (CmdBindPassCB k # concat (map (map (draw_cmd s)) (mRitemLayer s))),
          EvPresent, EvSignal (mCurrentFence s + 1)]\<rparr>"

definition next_index :: "('a, 'p) App \<Rightarrow> int" where
  "next_index s = (mCurrFrameResourceIndex s + 1) smod gNumFrameResources"

definition cycled :: "nat \<Rightarrow> event list \<Rightarrow> ('a, 'p) App \<Rightarrow> ('a, 'p) App" where
  "cycled t ws s =
     s\<lparr>mCurrFrameResourceIndex := next_index s,
       mCurrFrameResource := Some (nat (next_index s)),
       clock := t, trace := trace s @ ws\<rparr>"

definition after_frame :: "nat \<Rightarrow> event list \<Rightarrow> 'p \<Rightarrow> ('a, 'p) App \<Rightarrow> ('a, 'p) App" where
  "after_frame t ws pass s =
     submitted (nat (next_index s)) (refreshed (nat (next_index s)) pass (cycled t ws s))"

definition next_fence :: "('a, 'p) App \<Rightarrow> 64 word" where
  "next_fence s = Fence (mFrameResources s ! nat (next_index s))"

text \<open>
  A small scene for the examples: two render items of one material, the first with
  dirty counter \<open>n\<close>, the second clean, and a ring of three frame resources.
\<close>

definition ex_item :: "int \<Rightarrow> 32 word \<Rightarrow> int RenderItem" where
  "ex_item n i =
     RenderItem_default\<lparr>RenderItem.NumFramesDirty := n, ObjCBIndex := i,
       Mat := Some ''stone0'', Geo := Some ''shapeGeo'', DrawArgs := Some ''box''\<rparr>"

definition ex_mat :: "int \<Rightarrow> int Material" where
  "ex_mat n =
     \<lparr>Name = ''stone0'', MatCBIndex = 0, DiffuseSrvHeapIndex = 1, NumFramesDirty = n,
      DiffuseAlbedo = XMFLOAT4 1 1 1 1, FresnelR0 = [0, 0, 0], Roughness = 0,
      MatTransform = Identity4x4\<rparr>"

definition ex_app :: "int \<Rightarrow> 64 word \<Rightarrow> (int, nat) App" where
  "ex_app n c =
     \<lparr>mAllRitems = [ex_item n 0, ex_item 0 1], mRitemLayer = [[0, 1]],
      mMaterials = [(''stone0'', Some (ex_mat n))],
      mFrameResources =
        [FrameResource_new 1 2 1, FrameResource_new 1 2 1, FrameResource_new 1 2 1],
      mCurrFrameResource = Some 1, mCurrFrameResourceIndex = 1,
      mCurrentFence = c, mCurrBackBuffer = 0, clock = 0, trace = []\<rparr>"

text \<open>
  The small scene in the middle of a run: the three frame resources were submitted
  with the fence values 3, 1 and 2, the last one was frame resource 0, and the host
  last observed the device at instant 5.
\<close>

definition ex_busy :: "(int, nat) App" where
  "ex_busy =
     (ex_app 0 3)\<lparr>mFrameResources :=
        [(FrameResource_new 1 2 1)\<lparr>Fence := 3\<rparr>, (FrameResource_new 1 2 1)\<lparr>Fence := 1\<rparr>,
         (FrameResource_new 1 2 1)\<lparr>Fence := 2\<rparr>],
       mCurrFrameResourceIndex := 0, mCurrFrameResource := Some 0, clock := 5\<rparr>"

fun is_wait :: "event \<Rightarrow> bool" where
  "is_wait (EvWait f) = True"
| "is_wait _ = False"

text \<open>
  The state after \<open>Initialize\<close>, before the first frame: no frame resource has a fence
  value, the index is 0 and nothing has happened yet.
\<close>

definition initial :: "('a, 'p) App \<Rightarrow> bool" where
  "initial s \<longleftrightarrow>
     well_formed s \<and> mCurrFrameResourceIndex s = 0 \<and>
     list_all (\<lambda>fr. Fence fr = 0) (mFrameResources s) \<and> trace s = []"

text \<open>The fence values signalled and the frame resources submitted, in order.\<close>

fun signalled :: "event list \<Rightarrow> 64 word list" where
  "signalled [] = []"
| "signalled (EvSignal f # evs) = f # signalled evs"
| "signalled (_ # evs) = signalled evs"

fun executed :: "event list \<Rightarrow> nat list" where
  "executed [] = []"
| "executed (EvExecute k cmds # evs) = k # executed evs"
| "executed (_ # evs) = executed evs"

text \<open>
  The fence value of frame resource \<open>j\<close> after \<open>n\<close> frames from an initial state with
  fence counter \<open>c\<close>: frame \<open>m\<close> uses frame resource \<open>m mod 3\<close> and signals \<open>c + m\<close>.
\<close>

fun slot_fence :: "64 word \<Rightarrow> nat \<Rightarrow> nat \<Rightarrow> 64 word" where
  "slot_fence c 0 j = 0"
| "slot_fence c (Suc n) j = (if Suc n mod 3 = j then c + of_nat (Suc n) else slot_fence c n j)"

text \<open>The small scene before its first frame, with the fence counter at 5.\<close>

definition ex_init :: "(int, nat) App" where
  "ex_init = (ex_app 3 5)\<lparr>mCurrFrameResourceIndex := 0, mCurrFrameResource := None\<rparr>"

text \<open>
  The events that write a constant buffer of a frame resource, and the reset of its
  command allocator.
\<close>

fun is_copy :: "event \<Rightarrow> bool" where
  "is_copy (EvCopyObject k i) = True"
| "is_copy (EvCopyMaterial k i) = True"
| "is_copy (EvCopyPass k) = True"
| "is_copy _ = False"

fun is_reset :: "event \<Rightarrow> bool" where
  "is_reset (EvResetAllocator k) = True"
| "is_reset _ = False"

text \<open>
  The order of the steps as the specification words it, read on the events of one frame:
  the allocator of the acquired frame resource is reset, and no constant buffer is
  written before that reset.
\<close>

definition reset_precedes_refresh :: "event list \<Rightarrow> bool" where
  "reset_precedes_refresh es \<longleftrightarrow>
     list_ex is_reset es \<and> list_all (\<lambda>e. \<not> is_copy e) (takeWhile (\<lambda>e. \<not> is_reset e) es)"

text \<open>The events that a frame adds to the trace.\<close>

definition frame_events :: "('a, 'p) App \<Rightarrow> ('a, 'p) App \<Rightarrow> event list" where
  "frame_events s s' = drop (length (trace s)) (trace s')"

text \<open>
  The number of copies of object constants into cell \<open>c\<close> of the object buffer of
  frame resource \<open>k\<close> among the events \<open>es\<close>.
\<close>

definition copies :: "nat \<Rightarrow> 32 word \<Rightarrow> event list \<Rightarrow> nat" where
  "copies k c es = count_list es (EvCopyObject k (uint c))"

subsection \<open>Building the scene\<close>

text \<open>
  The floating point data of a scene. The source computes the \<open>World\<close> and
  \<open>TexTransform\<close> matrices of the render items with DirectXMath
  (\<open>XMMatrixScaling(...)*XMMatrixTranslation(...)\<close>) and gives the materials colours
  as float literals; this arithmetic is not evaluated here. \<open>WorldOf fl v i\<close> is the
  matrix that the source stores into \<open>World\<close> of the render item of the variable \<open>v\<close>
  in iteration \<open>i\<close> of the enclosing loop (0 outside of a loop, \<open>row * 6 + col\<close> in
  the nested loop of Lab 5), \<open>TexTransformOf\<close> likewise, and \<open>DiffuseAlbedoOf\<close>,
  \<open>FresnelR0Of\<close> and \<open>RoughnessOf\<close> are the values assigned to the material of a
  name.
\<close>

record 'a float_data =
  WorldOf :: "string \<Rightarrow> nat \<Rightarrow> 'a XMFLOAT4X4"
  TexTransformOf :: "string \<Rightarrow> nat \<Rightarrow> 'a XMFLOAT4X4"
  DiffuseAlbedoOf :: "string \<Rightarrow> 'a XMFLOAT4"
  FresnelR0Of :: "string \<Rightarrow> 'a list"
  RoughnessOf :: "string \<Rightarrow> 'a"

text \<open>
  \<open>mMaterials[k] = v\<close> on the unordered map: the entry of the key is replaced, or a new
  entry is made. \<open>mMaterials[k]\<close> read (as in \<open>mMaterials["stone0"].get()\<close>) makes
  an entry with a null pointer if the key has none. The order of the entries, which
  is the order of iteration, is unspecified for an unordered map; here a new entry
  goes to the end.
\<close>

fun subscript_assign :: "string \<Rightarrow> 'v \<Rightarrow> (string \<times> 'v) list \<Rightarrow> (string \<times> 'v) list" where
  "subscript_assign k v [] = [(k, v)]"
| "subscript_assign k v (x # m) =
     (if fst x = k then (k, v) # m else x # subscript_assign k v m)"

definition subscript_mMaterials :: "string \<Rightarrow> ('a, 'p) App \<Rightarrow> ('a, 'p) App" where
  "subscript_mMaterials k s =
     (case map_of (mMaterials s) k of
        None \<Rightarrow> s\<lparr>mMaterials := mMaterials s @ [(k, None)]\<rparr>
      | Some v \<Rightarrow> s)"

definition push_back_mAllRitems :: "'a RenderItem \<Rightarrow> ('a, 'p) App \<Rightarrow> ('a, 'p) App" where
  "push_back_mAllRitems e s = s\<lparr>mAllRitems := mAllRitems s @ [e]\<rparr>"

text \<open>
  \<open>mRitemLayer[l].push_back(e.get())\<close> for a render item \<open>e\<close> that is not yet in
  \<open>mAllRitems\<close>. The pointer is the position that the render item gets in
  \<open>mAllRitems\<close>: the length of \<open>mAllRitems\<close> plus the number \<open>k\<close> of render items that
  the source moves into \<open>mAllRitems\<close> before it (in the loops the render items of an
  iteration are moved there together, at the end of the iteration). The layers of
  Lab 5 are numbered in the order in which \<open>Draw\<close> draws them.
\<close>

definition push_back_mRitemLayer :: "nat \<Rightarrow> nat \<Rightarrow> ('a, 'p) App \<Rightarrow> ('a, 'p) App" where
  "push_back_mRitemLayer l k s =
     s\<lparr>mRitemLayer := (mRitemLayer s)[l := mRitemLayer s ! l @ [length (mAllRitems s) + k]]\<rparr>"

definition Opaque :: nat where
  "Opaque = 0"

definition AlphaTested :: nat where
  "AlphaTested = 1"

definition AlphaTestedTreeSprites :: nat where
  "AlphaTestedTreeSprites = 2"

definition Transparent :: nat where
  "Transparent = 3"

text \<open>
  The state of a \<open>LitColumnsApp\<close> object when \<open>Initialize\<close> starts to build the scene:
  the containers are empty, \<open>mCurrFrameResource\<close> is null and
  \<open>mCurrFrameResourceIndex\<close> is 0, by the member initialisers; there are \<open>n\<close> (empty)
  lists of render items to draw. The fence counter and the back buffer index are
  members of the base class \<open>D3DApp\<close>, which is not among the source files.
\<close>

definition LitColumnsApp_new :: "nat \<Rightarrow> ('a, 'p) App" where
  "LitColumnsApp_new n =
     \<lparr>mAllRitems = [], mRitemLayer = replicate n [], mMaterials = [],
      mFrameResources = [], mCurrFrameResource = None, mCurrFrameResourceIndex = 0,
      mCurrentFence = 0, mCurrBackBuffer = 0, clock = 0, trace = []\<rparr>"

text \<open>
  \<open>BuildFrameResources\<close>, the same in both applications: \<open>gNumFrameResources\<close> frame
  resources with one pass constant, and as many object and material constants as
  there are render items and materials (the sizes are cast to \<open>UINT\<close>).
\<close>

definition BuildFrameResources :: "('a, 'p) App \<Rightarrow> ('a, 'p) App" where
  "BuildFrameResources s =
     foldl (\<lambda>s i. s\<lparr>mFrameResources := mFrameResources s @
                [FrameResource_new 1 (unat (word_of_nat (length (mAllRitems s)) :: 32 word))
                   (unat (word_of_nat (length (mMaterials s)) :: 32 word))]\<rparr>)
       s [0..<nat gNumFrameResources]"

text \<open>
  What holds of the scene while \<open>BuildRenderItems\<close> runs, with \<open>ms\<close> the materials
  and \<open>n\<close> the number of render items built so far: a render item has its position
  as index into the object constant buffer, its dirty counter is
  \<open>gNumFrameResources\<close>, its geometry is set and its material is one of \<open>ms\<close>; the
  lists of render items to draw hold positions below \<open>n\<close>; no frame resource is built
  yet.
\<close>

definition item_ok :: "(string \<times> 'a Material option) list \<Rightarrow> 'a RenderItem \<Rightarrow> bool" where
  "item_ok ms e \<longleftrightarrow>
     RenderItem.NumFramesDirty e = gNumFrameResources \<and> Geo e \<noteq> None \<and>
     (case Mat e of None \<Rightarrow> False
      | Some k \<Rightarrow> (case map_of ms k of Some (Some m) \<Rightarrow> True | _ \<Rightarrow> False))"

definition layers_below :: "nat \<Rightarrow> nat list list \<Rightarrow> bool" where
  "layers_below n ls \<longleftrightarrow> list_all (list_all (\<lambda>i. i < n)) ls"

definition building ::
  "(string \<times> 'a Material option) list \<Rightarrow> nat \<Rightarrow> nat \<Rightarrow> ('a, 'p) App \<Rightarrow> bool" where
  "building ms l n s \<longleftrightarrow>
     mMaterials s = ms \<and>
     map ObjCBIndex (mAllRitems s) = map word_of_nat [0..<n] \<and>
     list_all (item_ok ms) (mAllRitems s) \<and>
     length (mRitemLayer s) = l \<and> layers_below n (mRitemLayer s) \<and>
     mFrameResources s = [] \<and> mCurrFrameResourceIndex s = 0 \<and> trace s = []"

text \<open>
  The materials of a scene: none is null, each has its index within the material
  constant buffer, and all have the dirty counter of the material \<open>m0\<close>.
\<close>

definition materials_ok :: "'a Material \<Rightarrow> (string \<times> 'a Material option) list \<Rightarrow> bool" where
  "materials_ok m0 ms \<longleftrightarrow>
     list_all (\<lambda>x. case snd x of None \<Rightarrow> False
        | Some m \<Rightarrow> 0 \<le> MatCBIndex m \<and> MatCBIndex m < int (length ms) \<and>
            NumFramesDirty m = NumFramesDirty m0) ms"

text \<open>
  All render items have the same dirty counter, and all materials: nothing in the
  two applications sets the counter of a single render item or material (the call of
  \<open>AnimateMaterials\<close> in \<open>Update\<close> of Lab 5 is commented out).
\<close>

definition uniform :: "('a, 'p) App \<Rightarrow> bool" where
  "uniform s \<longleftrightarrow>
     list_all (\<lambda>e. RenderItem.NumFramesDirty e = RenderItem.NumFramesDirty (hd (mAllRitems s)))
       (mAllRitems s) \<and>
     list_all (\<lambda>x. map_option NumFramesDirty (snd x) =
                   map_option NumFramesDirty (snd (hd (mMaterials s))))
       (mMaterials s)"

text \<open>
  Assignment 1: \<open>BuildMaterials\<close>. \<open>m0\<close> is the material that
  \<open>std::make_unique<Material>()\<close> makes (the constructor and the default member
  initialisers of \<open>Material\<close> are not among the source files).
\<close>

definition BuildMaterials ::
  "'a Material \<Rightarrow> 'a float_data \<Rightarrow> ('a, 'p) App \<Rightarrow>
     ('a, 'p) App" where
  "BuildMaterials m0 fl s =
     (let bricks0 = m0\<lparr>Name := ''bricks0'', MatCBIndex := 0, DiffuseSrvHeapIndex := 0,
            DiffuseAlbedo := DiffuseAlbedoOf fl ''bricks0'', FresnelR0 := FresnelR0Of fl ''bricks0'',
            Roughness := RoughnessOf fl ''bricks0''\<rparr>;
          stone0 = m0\<lparr>Name := ''stone0'', MatCBIndex := 1, DiffuseSrvHeapIndex := 1,
            DiffuseAlbedo := DiffuseAlbedoOf fl ''stone0'', FresnelR0 := FresnelR0Of fl ''stone0'',
            Roughness := RoughnessOf fl ''stone0''\<rparr>;
          tile0 = m0\<lparr>Name := ''tile0'', MatCBIndex := 2, DiffuseSrvHeapIndex := 2,
            DiffuseAlbedo := DiffuseAlbedoOf fl ''tile0'', FresnelR0 := FresnelR0Of fl ''tile0'',
            Roughness := RoughnessOf fl ''tile0''\<rparr>;
          diamondMat = m0\<lparr>Name := ''diamondMat'', MatCBIndex := 3, DiffuseSrvHeapIndex := 3,
            DiffuseAlbedo := DiffuseAlbedoOf fl ''diamondMat'', FresnelR0 := FresnelR0Of fl ''diamondMat'',
            Roughness := RoughnessOf fl ''diamondMat''\<rparr>;
          diamondMatRed = m0\<lparr>Name := ''diamondMatRed'', MatCBIndex := 4, DiffuseSrvHeapIndex := 4,
            DiffuseAlbedo := DiffuseAlbedoOf fl ''diamondMatRed'', FresnelR0 := FresnelR0Of fl ''diamondMatRed'',
            Roughness := RoughnessOf fl ''diamondMatRed''\<rparr>;
          skullMat = m0\<lparr>Name := ''skullMat'', MatCBIndex := 5, DiffuseSrvHeapIndex := 5,
            DiffuseAlbedo := DiffuseAlbedoOf fl ''skullMat'', FresnelR0 := FresnelR0Of fl ''skullMat'',
            Roughness := RoughnessOf fl ''skullMat''\<rparr>;
          ms = mMaterials s;
          ms = subscript_assign ''bricks0'' (Some bricks0) ms;
          ms = subscript_assign ''stone0'' (Some stone0) ms;
          ms = subscript_assign ''tile0'' (Some tile0) ms;
          ms = subscript_assign ''diamondMat'' (Some diamondMat) ms;
          ms = subscript_assign ''diamondMatRed'' (Some diamondMatRed) ms;
          ms = subscript_assign ''skullMat'' (Some skullMat) ms
      in s\<lparr>mMaterials := ms\<rparr>)"

text \<open>
  Assignment 1: \<open>BuildRenderItems\<close>, in four parts: the twelve render items before
  the first loop, the bodies of the two loops, and the function itself. In a loop
  body the pair \<open>(objCBIndex, s)\<close> is the local variable \<open>objCBIndex\<close> and the
  application state. A render item is written with the fields that the source
  assigns; the others keep the values of the default member initialisers. At the end
  \<open>mOpaqueRitems\<close>, the one list of render items that \<open>Draw\<close> draws, gets all of them.
\<close>

definition BuildRenderItems_singles ::
  "'a::{zero,one} float_data \<Rightarrow> ('a::{zero,one}, 'p) App \<Rightarrow>
     ('a::{zero,one}, 'p) App" where
  "BuildRenderItems_singles fl s =
     (let boxRitem = RenderItem_default
            \<lparr>World := WorldOf fl ''boxRitem'' 0,
             TexTransform := TexTransformOf fl ''boxRitem'' 0, ObjCBIndex := 0,
             Mat := Some ''stone0'', Geo := Some ''shapeGeo'',
             PrimitiveType := TRIANGLELIST, DrawArgs := Some ''box''\<rparr>;
          s = subscript_mMaterials ''stone0'' s;
          s = push_back_mAllRitems boxRitem s;
          centerCylinderRitem = RenderItem_default
            \<lparr>World := WorldOf fl ''centerCylinderRitem'' 0,
             TexTransform := TexTransformOf fl ''centerCylinderRitem'' 0, ObjCBIndex := 1,
             Mat := Some ''stone0'', Geo := Some ''shapeGeo'',
             PrimitiveType := TRIANGLELIST, DrawArgs := Some ''cylinder''\<rparr>;
          s = subscript_mMaterials ''stone0'' s;
          s = push_back_mAllRitems centerCylinderRitem s;
          diamondRitem = RenderItem_default
            \<lparr>World := WorldOf fl ''diamondRitem'' 0,
             TexTransform := TexTransformOf fl ''diamondRitem'' 0, ObjCBIndex := 2,
             Mat := Some ''diamondMat'', Geo := Some ''shapeGeo'',
             PrimitiveType := TRIANGLELIST, DrawArgs := Some ''diamond''\<rparr>;
          s = subscript_mMaterials ''diamondMat'' s;
          s = push_back_mAllRitems diamondRitem s;
          diamondLeftRitem = RenderItem_default
            \<lparr>World := WorldOf fl ''diamondLeftRitem'' 0,
             TexTransform := TexTransformOf fl ''diamondLeftRitem'' 0, ObjCBIndex := 3,
             Mat := Some ''diamondMatRed'', Geo := Some ''shapeGeo'',
             PrimitiveType := TRIANGLELIST, DrawArgs := Some ''diamond''\<rparr>;
          s = subscript_mMaterials ''diamondMatRed'' s;
          s = push_back_mAllRitems diamondLeftRitem s;
          coneRitem = RenderItem_default
            \<lparr>World := WorldOf fl ''coneRitem'' 0,
             TexTransform := TexTransformOf fl ''coneRitem'' 0, ObjCBIndex := 4,
             Mat := Some ''diamondMat'', Geo := Some ''shapeGeo'',
             PrimitiveType := TRIANGLELIST, DrawArgs := Some ''cone''\<rparr>;
          s = subscript_mMaterials ''diamondMat'' s;
          s = push_back_mAllRitems coneRitem s;
          flagCylinderRitem = RenderItem_default
            \<lparr>World := WorldOf fl ''flagCylinderRitem'' 0,
             TexTransform := TexTransformOf fl ''flagCylinderRitem'' 0, ObjCBIndex := 5,
             Mat := Some ''bricks0'', Geo := Some ''shapeGeo'',
             PrimitiveType := TRIANGLELIST, DrawArgs := Some ''cylinder''\<rparr>;
          s = subscript_mMaterials ''bricks0'' s;
          s = push_back_mAllRitems flagCylinderRitem s;
          flagBoxRitem = RenderItem_default
            \<lparr>World := WorldOf fl ''flagBoxRitem'' 0,
             TexTransform := TexTransformOf fl ''flagBoxRitem'' 0, ObjCBIndex := 6,
             Mat := Some ''skullMat'', Geo := Some ''shapeGeo'',
             PrimitiveType := TRIANGLELIST, DrawArgs := Some ''box''\<rparr>;
          s = subscript_mMaterials ''skullMat'' s;
          s = push_back_mAllRitems flagBoxRitem s;
          doorRitem = RenderItem_default
            \<lparr>World := WorldOf fl ''doorRitem'' 0,
             TexTransform := TexTransformOf fl ''doorRitem'' 0, ObjCBIndex := 7,
             Mat := Some ''bricks0'', Geo := Some ''shapeGeo'',
             PrimitiveType := TRIANGLELIST, DrawArgs := Some ''cylinder''\<rparr>;
          s = subscript_mMaterials ''bricks0'' s;
          s = push_back_mAllRitems doorRitem s;
          moatRitem = RenderItem_default
            \<lparr>World := WorldOf fl ''moatRitem'' 0,
             TexTransform := TexTransformOf fl ''moatRitem'' 0, ObjCBIndex := 8,
             Mat := Some ''diamondMat'', Geo := Some ''shapeGeo'',
             PrimitiveType := TRIANGLELIST, DrawArgs := Some ''torus''\<rparr>;
          s = subscript_mMaterials ''diamondMat'' s;
          s = push_back_mAllRitems moatRitem s;
          bridgeRitem = RenderItem_default
            \<lparr>World := WorldOf fl ''bridgeRitem'' 0,
             TexTransform := TexTransformOf fl ''bridgeRitem'' 0, ObjCBIndex := 9,
             Mat := Some ''diamondMatRed'', Geo := Some ''shapeGeo'',
             PrimitiveType := TRIANGLELIST, DrawArgs := Some ''box''\<rparr>;
          s = subscript_mMaterials ''diamondMatRed'' s;
          s = push_back_mAllRitems bridgeRitem s;
          gridRitem = RenderItem_default
            \<lparr>World := Identity4x4,
             TexTransform := TexTransformOf fl ''gridRitem'' 0, ObjCBIndex := 10,
             Mat := Some ''tile0'', Geo := Some ''shapeGeo'',
             PrimitiveType := TRIANGLELIST, DrawArgs := Some ''grid''\<rparr>;
          s = subscript_mMaterials ''tile0'' s;
          s = push_back_mAllRitems gridRitem s;
          skullRitem = RenderItem_default
            \<lparr>World := WorldOf fl ''skullRitem'' 0, TexTransform := Identity4x4,
             ObjCBIndex := 11, Mat := Some ''skullMat'', Geo := Some ''skullGeo'',
             PrimitiveType := TRIANGLELIST, DrawArgs := Some ''skull''\<rparr>;
          s = subscript_mMaterials ''skullMat'' s;
          s = push_back_mAllRitems skullRitem s
      in s)"

definition BuildRenderItems_pyramids ::
  "'a float_data \<Rightarrow> nat \<Rightarrow>
     32 word \<times> ('a::{zero,one}, 'p) App \<Rightarrow>
     32 word \<times> ('a::{zero,one}, 'p) App" where
  "BuildRenderItems_pyramids fl i x =
     (let (objCBIndex, s) = x;
          leftPyramidRitem = RenderItem_default
            \<lparr>World := WorldOf fl ''leftPyramidRitem'' i,
             TexTransform := TexTransformOf fl ''leftPyramidRitem'' i,
             ObjCBIndex := objCBIndex, Mat := Some ''bricks0'', Geo := Some ''shapeGeo'',
             PrimitiveType := TRIANGLELIST, DrawArgs := Some ''pyramid''\<rparr>;
          objCBIndex = objCBIndex + 1;
          s = subscript_mMaterials ''bricks0'' s;
          rightPyramidRitem = RenderItem_default
            \<lparr>World := WorldOf fl ''rightPyramidRitem'' i,
             TexTransform := TexTransformOf fl ''rightPyramidRitem'' i,
             ObjCBIndex := objCBIndex, Mat := Some ''bricks0'', Geo := Some ''shapeGeo'',
             PrimitiveType := TRIANGLELIST, DrawArgs := Some ''pyramid''\<rparr>;
          objCBIndex = objCBIndex + 1;
          s = subscript_mMaterials ''bricks0'' s;
          backPyramidRitem = RenderItem_default
            \<lparr>World := WorldOf fl ''backPyramidRitem'' i,
             TexTransform := TexTransformOf fl ''backPyramidRitem'' i,
             ObjCBIndex := objCBIndex, Mat := Some ''bricks0'', Geo := Some ''shapeGeo'',
             PrimitiveType := TRIANGLELIST, DrawArgs := Some ''pyramid''\<rparr>;
          objCBIndex = objCBIndex + 1;
          s = subscript_mMaterials ''bricks0'' s;
          frontPyramidRitem = RenderItem_default
            \<lparr>World := WorldOf fl ''frontPyramidRitem'' i,
             TexTransform := TexTransformOf fl ''frontPyramidRitem'' i,
             ObjCBIndex := objCBIndex, Mat := Some ''bricks0'', Geo := Some ''shapeGeo'',
             PrimitiveType := TRIANGLELIST, DrawArgs := Some ''pyramid''\<rparr>;
          objCBIndex = objCBIndex + 1;
          s = subscript_mMaterials ''bricks0'' s;
          s = push_back_mAllRitems leftPyramidRitem s;
          s = push_back_mAllRitems rightPyramidRitem s;
          s = push_back_mAllRitems backPyramidRitem s;
          s = push_back_mAllRitems frontPyramidRitem s
      in (objCBIndex, s))"

definition BuildRenderItems_towers ::
  "'a float_data \<Rightarrow> nat \<Rightarrow>
     32 word \<times> ('a::{zero,one}, 'p) App \<Rightarrow>
     32 word \<times> ('a::{zero,one}, 'p) App" where
  "BuildRenderItems_towers fl i x =
     (let (objCBIndex, s) = x;
          rightWedge1Ritem = RenderItem_default
            \<lparr>World := WorldOf fl ''rightWedge1Ritem'' i,
             TexTransform := TexTransformOf fl ''rightWedge1Ritem'' i,
             ObjCBIndex := objCBIndex, Mat := Some ''bricks0'', Geo := Some ''shapeGeo'',
             PrimitiveType := TRIANGLELIST, DrawArgs := Some ''wedge''\<rparr>;
          objCBIndex = objCBIndex + 1;
          s = subscript_mMaterials ''bricks0'' s;
          rightWedge2Ritem = RenderItem_default
            \<lparr>World := WorldOf fl ''rightWedge2Ritem'' i,
             TexTransform := TexTransformOf fl ''rightWedge2Ritem'' i,
             ObjCBIndex := objCBIndex, Mat := Some ''bricks0'', Geo := Some ''shapeGeo'',
             PrimitiveType := TRIANGLELIST, DrawArgs := Some ''wedge''\<rparr>;
          objCBIndex = objCBIndex + 1;
          s = subscript_mMaterials ''bricks0'' s;
          rightWedge3Ritem = RenderItem_default
            \<lparr>World := WorldOf fl ''rightWedge3Ritem'' i,
             TexTransform := TexTransformOf fl ''rightWedge3Ritem'' i,
             ObjCBIndex := objCBIndex, Mat := Some ''bricks0'', Geo := Some ''shapeGeo'',
             PrimitiveType := TRIANGLELIST, DrawArgs := Some ''wedge''\<rparr>;
          objCBIndex = objCBIndex + 1;
          s = subscript_mMaterials ''bricks0'' s;
          rightWedge4Ritem = RenderItem_default
            \<lparr>World := WorldOf fl ''rightWedge4Ritem'' i,
             TexTransform := TexTransformOf fl ''rightWedge4Ritem'' i,
             ObjCBIndex := objCBIndex, Mat := Some ''bricks0'', Geo := Some ''shapeGeo'',
             PrimitiveType := TRIANGLELIST, DrawArgs := Some ''wedge''\<rparr>;
          objCBIndex = objCBIndex + 1;
          s = subscript_mMaterials ''bricks0'' s;
          leftWedge1Ritem = RenderItem_default
            \<lparr>World := WorldOf fl ''leftWedge1Ritem'' i,
             TexTransform := TexTransformOf fl ''leftWedge1Ritem'' i,
             ObjCBIndex := objCBIndex, Mat := Some ''bricks0'', Geo := Some ''shapeGeo'',
             PrimitiveType := TRIANGLELIST, DrawArgs := Some ''wedge''\<rparr>;
          objCBIndex = objCBIndex + 1;
          s = subscript_mMaterials ''bricks0'' s;
          leftWedge2Ritem = RenderItem_default
            \<lparr>World := WorldOf fl ''leftWedge2Ritem'' i,
             TexTransform := TexTransformOf fl ''leftWedge2Ritem'' i,
             ObjCBIndex := objCBIndex, Mat := Some ''bricks0'', Geo := Some ''shapeGeo'',
             PrimitiveType := TRIANGLELIST, DrawArgs := Some ''wedge''\<rparr>;
          objCBIndex = objCBIndex + 1;
          s = subscript_mMaterials ''bricks0'' s;
          leftWedge3Ritem = RenderItem_default
            \<lparr>World := WorldOf fl ''leftWedge3Ritem'' i,
             TexTransform := TexTransformOf fl ''leftWedge3Ritem'' i,
             ObjCBIndex := objCBIndex, Mat := Some ''bricks0'', Geo := Some ''shapeGeo'',
             PrimitiveType := TRIANGLELIST, DrawArgs := Some ''wedge''\<rparr>;
          objCBIndex = objCBIndex + 1;
          s = subscript_mMaterials ''bricks0'' s;
          leftWedge4Ritem = RenderItem_default
            \<lparr>World := WorldOf fl ''leftWedge4Ritem'' i,
             TexTransform := TexTransformOf fl ''leftWedge4Ritem'' i,
             ObjCBIndex := objCBIndex, Mat := Some ''bricks0'', Geo := Some ''shapeGeo'',
             PrimitiveType := TRIANGLELIST, DrawArgs := Some ''wedge''\<rparr>;
          objCBIndex = objCBIndex + 1;
          s = subscript_mMaterials ''bricks0'' s;
          leftSpire1Ritem = RenderItem_default
            \<lparr>World := WorldOf fl ''leftSpire1Ritem'' i,
             TexTransform := TexTransformOf fl ''leftSpire1Ritem'' i,
             ObjCBIndex := objCBIndex, Mat := Some ''bricks0'', Geo := Some ''shapeGeo'',
             PrimitiveType := TRIANGLELIST, DrawArgs := Some ''box''\<rparr>;
          objCBIndex = objCBIndex + 1;
          s = subscript_mMaterials ''bricks0'' s;
          leftSpire2Ritem = RenderItem_default
            \<lparr>World := WorldOf fl ''leftSpire2Ritem'' i,
             TexTransform := TexTransformOf fl ''leftSpire2Ritem'' i,
             ObjCBIndex := objCBIndex, Mat := Some ''bricks0'', Geo := Some ''shapeGeo'',
             PrimitiveType := TRIANGLELIST, DrawArgs := Some ''box''\<rparr>;
          objCBIndex = objCBIndex + 1;
          s = subscript_mMaterials ''bricks0'' s;
          leftSpire3Ritem = RenderItem_default
            \<lparr>World := WorldOf fl ''leftSpire3Ritem'' i,
             TexTransform := TexTransformOf fl ''leftSpire3Ritem'' i,
             ObjCBIndex := objCBIndex, Mat := Some ''bricks0'', Geo := Some ''shapeGeo'',
             PrimitiveType := TRIANGLELIST, DrawArgs := Some ''box''\<rparr>;
          objCBIndex = objCBIndex + 1;
          s = subscript_mMaterials ''bricks0'' s;
          leftSpire4Ritem = RenderItem_default
            \<lparr>World := WorldOf fl ''leftSpire4Ritem'' i,
             TexTransform := TexTransformOf fl ''leftSpire4Ritem'' i,
             ObjCBIndex := objCBIndex, Mat := Some ''bricks0'', Geo := Some ''shapeGeo'',
             PrimitiveType := TRIANGLELIST, DrawArgs := Some ''box''\<rparr>;
          objCBIndex = objCBIndex + 1;
          s = subscript_mMaterials ''bricks0'' s;
          leftSpire5Ritem = RenderItem_default
            \<lparr>World := WorldOf fl ''leftSpire5Ritem'' i,
             TexTransform := TexTransformOf fl ''leftSpire5Ritem'' i,
             ObjCBIndex := objCBIndex, Mat := Some ''bricks0'', Geo := Some ''shapeGeo'',
             PrimitiveType := TRIANGLELIST, DrawArgs := Some ''box''\<rparr>;
          objCBIndex = objCBIndex + 1;
          s = subscript_mMaterials ''bricks0'' s;
          leftSpire6Ritem = RenderItem_default
            \<lparr>World := WorldOf fl ''leftSpire6Ritem'' i,
             TexTransform := TexTransformOf fl ''leftSpire6Ritem'' i,
             ObjCBIndex := objCBIndex, Mat := Some ''bricks0'', Geo := Some ''shapeGeo'',
             PrimitiveType := TRIANGLELIST, DrawArgs := Some ''box''\<rparr>;
          objCBIndex = objCBIndex + 1;
          s = subscript_mMaterials ''bricks0'' s;
          leftSpire7Ritem = RenderItem_default
            \<lparr>World := WorldOf fl ''leftSpire7Ritem'' i,
             TexTransform := TexTransformOf fl ''leftSpire7Ritem'' i,
             ObjCBIndex := objCBIndex, Mat := Some ''bricks0'', Geo := Some ''shapeGeo'',
             PrimitiveType := TRIANGLELIST, DrawArgs := Some ''box''\<rparr>;
          objCBIndex = objCBIndex + 1;
          s = subscript_mMaterials ''bricks0'' s;
          leftSpire8Ritem = RenderItem_default
            \<lparr>World := WorldOf fl ''leftSpire8Ritem'' i,
             TexTransform := TexTransformOf fl ''leftSpire8Ritem'' i,
             ObjCBIndex := objCBIndex, Mat := Some ''bricks0'', Geo := Some ''shapeGeo'',
             PrimitiveType := TRIANGLELIST, DrawArgs := Some ''box''\<rparr>;
          objCBIndex = objCBIndex + 1;
          s = subscript_mMaterials ''bricks0'' s;
          rightSpire1Ritem = RenderItem_default
            \<lparr>World := WorldOf fl ''rightSpire1Ritem'' i,
             TexTransform := TexTransformOf fl ''rightSpire1Ritem'' i,
             ObjCBIndex := objCBIndex, Mat := Some ''bricks0'', Geo := Some ''shapeGeo'',
             PrimitiveType := TRIANGLELIST, DrawArgs := Some ''box''\<rparr>;
          objCBIndex = objCBIndex + 1;
          s = subscript_mMaterials ''bricks0'' s;
          rightSpire2Ritem = RenderItem_default
            \<lparr>World := WorldOf fl ''rightSpire2Ritem'' i,
             TexTransform := TexTransformOf fl ''rightSpire2Ritem'' i,
             ObjCBIndex := objCBIndex, Mat := Some ''bricks0'', Geo := Some ''shapeGeo'',
             PrimitiveType := TRIANGLELIST, DrawArgs := Some ''box''\<rparr>;
          objCBIndex = objCBIndex + 1;
          s = subscript_mMaterials ''bricks0'' s;
          rightSpire3Ritem = RenderItem_default
            \<lparr>World := WorldOf fl ''rightSpire3Ritem'' i,
             TexTransform := TexTransformOf fl ''rightSpire3Ritem'' i,
             ObjCBIndex := objCBIndex, Mat := Some ''bricks0'', Geo := Some ''shapeGeo'',
             PrimitiveType := TRIANGLELIST, DrawArgs := Some ''box''\<rparr>;
          objCBIndex = objCBIndex + 1;
          s = subscript_mMaterials ''bricks0'' s;
          rightSpire4Ritem = RenderItem_default
            \<lparr>World := WorldOf fl ''rightSpire4Ritem'' i,
             TexTransform := TexTransformOf fl ''rightSpire4Ritem'' i,
             ObjCBIndex := objCBIndex, Mat := Some ''bricks0'', Geo := Some ''shapeGeo'',
             PrimitiveType := TRIANGLELIST, DrawArgs := Some ''box''\<rparr>;
          objCBIndex = objCBIndex + 1;
          s = subscript_mMaterials ''bricks0'' s;
          rightSpire5Ritem = RenderItem_default
            \<lparr>World := WorldOf fl ''rightSpire5Ritem'' i,
             TexTransform := TexTransformOf fl ''rightSpire5Ritem'' i,
             ObjCBIndex := objCBIndex, Mat := Some ''bricks0'', Geo := Some ''shapeGeo'',
             PrimitiveType := TRIANGLELIST, DrawArgs := Some ''box''\<rparr>;
          objCBIndex = objCBIndex + 1;
          s = subscript_mMaterials ''bricks0'' s;
          rightSpire6Ritem = RenderItem_default
            \<lparr>World := WorldOf fl ''rightSpire6Ritem'' i,
             TexTransform := TexTransformOf fl ''rightSpire6Ritem'' i,
             ObjCBIndex := objCBIndex, Mat := Some ''bricks0'', Geo := Some ''shapeGeo'',
             PrimitiveType := TRIANGLELIST, DrawArgs := Some ''box''\<rparr>;
          objCBIndex = objCBIndex + 1;
          s = subscript_mMaterials ''bricks0'' s;
          rightSpire7Ritem = RenderItem_default
            \<lparr>World := WorldOf fl ''rightSpire7Ritem'' i,
             TexTransform := TexTransformOf fl ''rightSpire7Ritem'' i,
             ObjCBIndex := objCBIndex, Mat := Some ''bricks0'', Geo := Some ''shapeGeo'',
             PrimitiveType := TRIANGLELIST, DrawArgs := Some ''box''\<rparr>;
          objCBIndex = objCBIndex + 1;
          s = subscript_mMaterials ''bricks0'' s;
          rightSpire8Ritem = RenderItem_default
            \<lparr>World := WorldOf fl ''rightSpire8Ritem'' i,
             TexTransform := TexTransformOf fl ''rightSpire8Ritem'' i,
             ObjCBIndex := objCBIndex, Mat := Some ''bricks0'', Geo := Some ''shapeGeo'',
             PrimitiveType := TRIANGLELIST, DrawArgs := Some ''box''\<rparr>;
          objCBIndex = objCBIndex + 1;
          s = subscript_mMaterials ''bricks0'' s;
          leftCylRitem = RenderItem_default
            \<lparr>World := WorldOf fl ''leftCylRitem'' i,
             TexTransform := TexTransformOf fl ''leftCylRitem'' i,
             ObjCBIndex := objCBIndex, Mat := Some ''bricks0'', Geo := Some ''shapeGeo'',
             PrimitiveType := TRIANGLELIST, DrawArgs := Some ''cylinder''\<rparr>;
          objCBIndex = objCBIndex + 1;
          s = subscript_mMaterials ''bricks0'' s;
          rightCylRitem = RenderItem_default
            \<lparr>World := WorldOf fl ''rightCylRitem'' i,
             TexTransform := TexTransformOf fl ''rightCylRitem'' i,
             ObjCBIndex := objCBIndex, Mat := Some ''bricks0'', Geo := Some ''shapeGeo'',
             PrimitiveType := TRIANGLELIST, DrawArgs := Some ''cylinder''\<rparr>;
          objCBIndex = objCBIndex + 1;
          s = subscript_mMaterials ''bricks0'' s;
          s = push_back_mAllRitems rightWedge1Ritem s;
          s = push_back_mAllRitems rightWedge2Ritem s;
          s = push_back_mAllRitems rightWedge3Ritem s;
          s = push_back_mAllRitems rightWedge4Ritem s;
          s = push_back_mAllRitems leftWedge1Ritem s;
          s = push_back_mAllRitems leftWedge2Ritem s;
          s = push_back_mAllRitems leftWedge3Ritem s;
          s = push_back_mAllRitems leftWedge4Ritem s;
          s = push_back_mAllRitems leftSpire1Ritem s;
          s = push_back_mAllRitems leftSpire2Ritem s;
          s = push_back_mAllRitems leftSpire3Ritem s;
          s = push_back_mAllRitems leftSpire4Ritem s;
          s = push_back_mAllRitems leftSpire5Ritem s;
          s = push_back_mAllRitems leftSpire6Ritem s;
          s = push_back_mAllRitems leftSpire7Ritem s;
          s = push_back_mAllRitems leftSpire8Ritem s;
          s = push_back_mAllRitems rightSpire1Ritem s;
          s = push_back_mAllRitems rightSpire2Ritem s;
          s = push_back_mAllRitems rightSpire3Ritem s;
          s = push_back_mAllRitems rightSpire4Ritem s;
          s = push_back_mAllRitems rightSpire5Ritem s;
          s = push_back_mAllRitems rightSpire6Ritem s;
          s = push_back_mAllRitems rightSpire7Ritem s;
          s = push_back_mAllRitems rightSpire8Ritem s;
          s = push_back_mAllRitems leftCylRitem s;
          s = push_back_mAllRitems rightCylRitem s
      in (objCBIndex, s))"

definition BuildRenderItems ::
  "'a::{zero,one} float_data \<Rightarrow> ('a::{zero,one}, 'p) App \<Rightarrow>
     ('a::{zero,one}, 'p) App" where
  "BuildRenderItems fl s =
     (let s = BuildRenderItems_singles fl s;
          objCBIndex = 12;
          (objCBIndex, s) =
            foldl (\<lambda>x i. BuildRenderItems_pyramids fl i x) (objCBIndex, s) [0..<8];
          objCBIndex = 44;
          (objCBIndex, s) =
            foldl (\<lambda>x i. BuildRenderItems_towers fl i x) (objCBIndex, s) [0..<2]
      in s\<lparr>mRitemLayer := [mRitemLayer s ! 0 @ [0..<length (mAllRitems s)]]\<rparr>)"

text \<open>
  Assignment 1: what \<open>Initialize\<close> does to the state modelled here. \<open>c0\<close> is the value
  of the fence counter after \<open>FlushCommandQueue\<close> of the base class, with which
  \<open>Initialize\<close> ends.
\<close>

definition Initialize ::
  "'a Material \<Rightarrow> 'a::{zero,one} float_data \<Rightarrow> 64 word \<Rightarrow> ('a, 'p) App" where
  "Initialize m0 fl c0 =
     (BuildFrameResources (BuildRenderItems fl (BuildMaterials m0 fl (LitColumnsApp_new 1))))
       \<lparr>mCurrentFence := c0\<rparr>"

text \<open>
  Lab 5: \<open>BuildMaterials\<close>, with five materials.
\<close>

definition BuildMaterials_Lab5 ::
  "'a Material \<Rightarrow> 'a float_data \<Rightarrow> ('a, 'p) App \<Rightarrow>
     ('a, 'p) App" where
  "BuildMaterials_Lab5 m0 fl s =
     (let bricks0 = m0\<lparr>Name := ''bricks0'', MatCBIndex := 0, DiffuseSrvHeapIndex := 0,
            DiffuseAlbedo := DiffuseAlbedoOf fl ''bricks0'', FresnelR0 := FresnelR0Of fl ''bricks0'',
            Roughness := RoughnessOf fl ''bricks0''\<rparr>;
          stone0 = m0\<lparr>Name := ''stone0'', MatCBIndex := 1, DiffuseSrvHeapIndex := 1,
            DiffuseAlbedo := DiffuseAlbedoOf fl ''stone0'', FresnelR0 := FresnelR0Of fl ''stone0'',
            Roughness := RoughnessOf fl ''stone0''\<rparr>;
          tile0 = m0\<lparr>Name := ''tile0'', MatCBIndex := 2, DiffuseSrvHeapIndex := 2,
            DiffuseAlbedo := DiffuseAlbedoOf fl ''tile0'', FresnelR0 := FresnelR0Of fl ''tile0'',
            Roughness := RoughnessOf fl ''tile0''\<rparr>;
          grassMat = m0\<lparr>Name := ''grassMat'', MatCBIndex := 3, DiffuseSrvHeapIndex := 3,
            DiffuseAlbedo := DiffuseAlbedoOf fl ''grassMat'', FresnelR0 := FresnelR0Of fl ''grassMat'',
            Roughness := RoughnessOf fl ''grassMat''\<rparr>;
          treeSprites = m0\<lparr>Name := ''treeSprites'', MatCBIndex := 4, DiffuseSrvHeapIndex := 4,
            DiffuseAlbedo := DiffuseAlbedoOf fl ''treeSprites'', FresnelR0 := FresnelR0Of fl ''treeSprites'',
            Roughness := RoughnessOf fl ''treeSprites''\<rparr>;
          ms = mMaterials s;
          ms = subscript_assign ''bricks0'' (Some bricks0) ms;
          ms = subscript_assign ''stone0'' (Some stone0) ms;
          ms = subscript_assign ''tile0'' (Some tile0) ms;
          ms = subscript_assign ''grassMat'' (Some grassMat) ms;
          ms = subscript_assign ''treeSprites'' (Some treeSprites) ms
      in s\<lparr>mMaterials := ms\<rparr>)"

text \<open>
  Lab 5: \<open>BuildRenderItems\<close>, in parts as for Assignment 1: the twelve render items
  before the first loop, the bodies of the four loops that follow, the body of the
  nested loop, and the function itself. Every render item is also pushed on its layer
  of \<open>mRitemLayer\<close>. In the nested loop \<open>rnd n\<close> is what the \<open>n\<close>-th call of \<open>rand()\<close>
  returns, and the triple \<open>(objCBIndex, calls, s)\<close> counts these calls. The last
  render item, \<open>treeSpritesRitem\<close>, gets the index 3, which \<open>centerCylinderRitem\<close> has
  already. The loop that fills \<open>mOpaqueRitems\<close> at the end is left out: \<open>Draw\<close> of Lab 5
  does not use this list.
\<close>

definition BuildRenderItems_Lab5_singles ::
  "'a::{zero,one} float_data \<Rightarrow> ('a::{zero,one}, 'p) App \<Rightarrow>
     ('a::{zero,one}, 'p) App" where
  "BuildRenderItems_Lab5_singles fl s =
     (let boxRitem = RenderItem_default
            \<lparr>World := WorldOf fl ''boxRitem'' 0,
             TexTransform := TexTransformOf fl ''boxRitem'' 0, ObjCBIndex := 0,
             Mat := Some ''bricks0'', Geo := Some ''shapeGeo'',
             PrimitiveType := TRIANGLELIST, DrawArgs := Some ''box''\<rparr>;
          s = subscript_mMaterials ''bricks0'' s;
          s = push_back_mRitemLayer Opaque 0 s;
          s = push_back_mAllRitems boxRitem s;
          moatRitem = RenderItem_default
            \<lparr>World := WorldOf fl ''moatRitem'' 0,
             TexTransform := TexTransformOf fl ''moatRitem'' 0, ObjCBIndex := 1,
             Mat := Some ''tile0'', Geo := Some ''shapeGeo'',
             PrimitiveType := TRIANGLELIST, DrawArgs := Some ''torus''\<rparr>;
          s = subscript_mMaterials ''tile0'' s;
          s = push_back_mRitemLayer AlphaTested 0 s;
          s = push_back_mAllRitems moatRitem s;
          gridRitem = RenderItem_default
            \<lparr>World := WorldOf fl ''gridRitem'' 0,
             TexTransform := TexTransformOf fl ''gridRitem'' 0, ObjCBIndex := 2,
             Mat := Some ''grassMat'', Geo := Some ''shapeGeo'',
             PrimitiveType := TRIANGLELIST, DrawArgs := Some ''grid''\<rparr>;
          s = subscript_mMaterials ''grassMat'' s;
          s = push_back_mRitemLayer Opaque 0 s;
          s = push_back_mAllRitems gridRitem s;
          centerCylinderRitem = RenderItem_default
            \<lparr>World := WorldOf fl ''centerCylinderRitem'' 0,
             TexTransform := TexTransformOf fl ''centerCylinderRitem'' 0, ObjCBIndex := 3,
             Mat := Some ''stone0'', Geo := Some ''shapeGeo'',
             PrimitiveType := TRIANGLELIST, DrawArgs := Some ''cylinder''\<rparr>;
          s = subscript_mMaterials ''stone0'' s;
          s = push_back_mRitemLayer Opaque 0 s;
          s = push_back_mAllRitems centerCylinderRitem s;
          diamondRitem = RenderItem_default
            \<lparr>World := WorldOf fl ''diamondRitem'' 0,
             TexTransform := TexTransformOf fl ''diamondRitem'' 0, ObjCBIndex := 4,
             Mat := Some ''stone0'', Geo := Some ''shapeGeo'',
             PrimitiveType := TRIANGLELIST, DrawArgs := Some ''diamond''\<rparr>;
          s = subscript_mMaterials ''stone0'' s;
          s = push_back_mRitemLayer Opaque 0 s;
          s = push_back_mAllRitems diamondRitem s;
          diamondLeftRitem = RenderItem_default
            \<lparr>World := WorldOf fl ''diamondLeftRitem'' 0,
             TexTransform := TexTransformOf fl ''diamondLeftRitem'' 0, ObjCBIndex := 5,
             Mat := Some ''stone0'', Geo := Some ''shapeGeo'',
             PrimitiveType := TRIANGLELIST, DrawArgs := Some ''diamond''\<rparr>;
          s = subscript_mMaterials ''stone0'' s;
          s = push_back_mRitemLayer Opaque 0 s;
          s = push_back_mAllRitems diamondLeftRitem s;
          coneRitem = RenderItem_default
            \<lparr>World := WorldOf fl ''coneRitem'' 0,
             TexTransform := TexTransformOf fl ''coneRitem'' 0, ObjCBIndex := 6,
             Mat := Some ''stone0'', Geo := Some ''shapeGeo'',
             PrimitiveType := TRIANGLELIST, DrawArgs := Some ''cone''\<rparr>;
          s = subscript_mMaterials ''stone0'' s;
          s = push_back_mRitemLayer Opaque 0 s;
          s = push_back_mAllRitems coneRitem s;
          flagCylinderRitem = RenderItem_default
            \<lparr>World := WorldOf fl ''flagCylinderRitem'' 0,
             TexTransform := TexTransformOf fl ''flagCylinderRitem'' 0, ObjCBIndex := 7,
             Mat := Some ''stone0'', Geo := Some ''shapeGeo'',
             PrimitiveType := TRIANGLELIST, DrawArgs := Some ''cylinder''\<rparr>;
          s = subscript_mMaterials ''stone0'' s;
          s = push_back_mRitemLayer Opaque 0 s;
          s = push_back_mAllRitems flagCylinderRitem s;
          flagBoxRitem = RenderItem_default
            \<lparr>World := WorldOf fl ''flagBoxRitem'' 0,
             TexTransform := TexTransformOf fl ''flagBoxRitem'' 0, ObjCBIndex := 8,
             Mat := Some ''stone0'', Geo := Some ''shapeGeo'',
             PrimitiveType := TRIANGLELIST, DrawArgs := Some ''box''\<rparr>;
          s = subscript_mMaterials ''stone0'' s;
          s = push_back_mRitemLayer Opaque 0 s;
          s = push_back_mAllRitems flagBoxRitem s;
          doorRitem = RenderItem_default
            \<lparr>World := WorldOf fl ''doorRitem'' 0,
             TexTransform := TexTransformOf fl ''doorRitem'' 0, ObjCBIndex := 9,
             Mat := Some ''tile0'', Geo := Some ''shapeGeo'',
             PrimitiveType := TRIANGLELIST, DrawArgs := Some ''cylinder''\<rparr>;
          s = subscript_mMaterials ''tile0'' s;
          s = push_back_mRitemLayer Opaque 0 s;
          s = push_back_mAllRitems doorRitem s;
          bridgeRitem = RenderItem_default
            \<lparr>World := WorldOf fl ''bridgeRitem'' 0,
             TexTransform := TexTransformOf fl ''bridgeRitem'' 0, ObjCBIndex := 10,
             Mat := Some ''bricks0'', Geo := Some ''shapeGeo'',
             PrimitiveType := TRIANGLELIST, DrawArgs := Some ''box''\<rparr>;
          s = subscript_mMaterials ''bricks0'' s;
          s = push_back_mRitemLayer Opaque 0 s;
          s = push_back_mAllRitems bridgeRitem s;
          skullRitem = RenderItem_default
            \<lparr>World := WorldOf fl ''skullRitem'' 0, TexTransform := Identity4x4,
             ObjCBIndex := 11, Mat := Some ''stone0'', Geo := Some ''skullGeo'',
             PrimitiveType := TRIANGLELIST, DrawArgs := Some ''skull''\<rparr>;
          s = subscript_mMaterials ''stone0'' s;
          s = push_back_mRitemLayer Opaque 0 s;
          s = push_back_mAllRitems skullRitem s
      in s)"

definition BuildRenderItems_Lab5_pyramids ::
  "'a float_data \<Rightarrow> nat \<Rightarrow>
     32 word \<times> ('a::{zero,one}, 'p) App \<Rightarrow>
     32 word \<times> ('a::{zero,one}, 'p) App" where
  "BuildRenderItems_Lab5_pyramids fl i x =
     (let (objCBIndex, s) = x;
          leftPyramidRitem = RenderItem_default
            \<lparr>World := WorldOf fl ''leftPyramidRitem'' i,
             TexTransform := TexTransformOf fl ''leftPyramidRitem'' i,
             ObjCBIndex := objCBIndex, Mat := Some ''stone0'', Geo := Some ''shapeGeo'',
             PrimitiveType := TRIANGLELIST, DrawArgs := Some ''pyramid''\<rparr>;
          objCBIndex = objCBIndex + 1;
          s = subscript_mMaterials ''stone0'' s;
          s = push_back_mRitemLayer Opaque 0 s;
          rightPyramidRitem = RenderItem_default
            \<lparr>World := WorldOf fl ''rightPyramidRitem'' i,
             TexTransform := TexTransformOf fl ''rightPyramidRitem'' i,
             ObjCBIndex := objCBIndex, Mat := Some ''stone0'', Geo := Some ''shapeGeo'',
             PrimitiveType := TRIANGLELIST, DrawArgs := Some ''pyramid''\<rparr>;
          objCBIndex = objCBIndex + 1;
          s = subscript_mMaterials ''stone0'' s;
          s = push_back_mRitemLayer Opaque 1 s;
          backPyramidRitem = RenderItem_default
            \<lparr>World := WorldOf fl ''backPyramidRitem'' i,
             TexTransform := TexTransformOf fl ''backPyramidRitem'' i,
             ObjCBIndex := objCBIndex, Mat := Some ''stone0'', Geo := Some ''shapeGeo'',
             PrimitiveType := TRIANGLELIST, DrawArgs := Some ''pyramid''\<rparr>;
          objCBIndex = objCBIndex + 1;
          s = subscript_mMaterials ''stone0'' s;
          s = push_back_mRitemLayer Opaque 2 s;
          frontPyramidRitem = RenderItem_default
            \<lparr>World := WorldOf fl ''frontPyramidRitem'' i,
             TexTransform := TexTransformOf fl ''frontPyramidRitem'' i,
             ObjCBIndex := objCBIndex, Mat := Some ''stone0'', Geo := Some ''shapeGeo'',
             PrimitiveType := TRIANGLELIST, DrawArgs := Some ''pyramid''\<rparr>;
          objCBIndex = objCBIndex + 1;
          s = subscript_mMaterials ''stone0'' s;
          s = push_back_mRitemLayer Opaque 3 s;
          s = push_back_mAllRitems leftPyramidRitem s;
          s = push_back_mAllRitems rightPyramidRitem s;
          s = push_back_mAllRitems backPyramidRitem s;
          s = push_back_mAllRitems frontPyramidRitem s
      in (objCBIndex, s))"

definition BuildRenderItems_Lab5_towers ::
  "'a float_data \<Rightarrow> nat \<Rightarrow>
     32 word \<times> ('a::{zero,one}, 'p) App \<Rightarrow>
     32 word \<times> ('a::{zero,one}, 'p) App" where
  "BuildRenderItems_Lab5_towers fl i x =
     (let (objCBIndex, s) = x;
          rightWedge1Ritem = RenderItem_default
            \<lparr>World := WorldOf fl ''rightWedge1Ritem'' i,
             TexTransform := TexTransformOf fl ''rightWedge1Ritem'' i,
             ObjCBIndex := objCBIndex, Mat := Some ''stone0'', Geo := Some ''shapeGeo'',
             PrimitiveType := TRIANGLELIST, DrawArgs := Some ''wedge''\<rparr>;
          objCBIndex = objCBIndex + 1;
          s = subscript_mMaterials ''stone0'' s;
          s = push_back_mRitemLayer Opaque 0 s;
          rightWedge2Ritem = RenderItem_default
            \<lparr>World := WorldOf fl ''rightWedge2Ritem'' i,
             TexTransform := TexTransformOf fl ''rightWedge2Ritem'' i,
             ObjCBIndex := objCBIndex, Mat := Some ''stone0'', Geo := Some ''shapeGeo'',
             PrimitiveType := TRIANGLELIST, DrawArgs := Some ''wedge''\<rparr>;
          objCBIndex = objCBIndex + 1;
          s = subscript_mMaterials ''stone0'' s;
          s = push_back_mRitemLayer Opaque 1 s;
          rightWedge3Ritem = RenderItem_default
            \<lparr>World := WorldOf fl ''rightWedge3Ritem'' i,
             TexTransform := TexTransformOf fl ''rightWedge3Ritem'' i,
             ObjCBIndex := objCBIndex, Mat := Some ''stone0'', Geo := Some ''shapeGeo'',
             PrimitiveType := TRIANGLELIST, DrawArgs := Some ''wedge''\<rparr>;
          objCBIndex = objCBIndex + 1;
          s = subscript_mMaterials ''stone0'' s;
          s = push_back_mRitemLayer Opaque 2 s;
          rightWedge4Ritem = RenderItem_default
            \<lparr>World := WorldOf fl ''rightWedge4Ritem'' i,
             TexTransform := TexTransformOf fl ''rightWedge4Ritem'' i,
             ObjCBIndex := objCBIndex, Mat := Some ''stone0'', Geo := Some ''shapeGeo'',
             PrimitiveType := TRIANGLELIST, DrawArgs := Some ''wedge''\<rparr>;
          objCBIndex = objCBIndex + 1;
          s = subscript_mMaterials ''stone0'' s;
          s = push_back_mRitemLayer Opaque 3 s;
          leftWedge1Ritem = RenderItem_default
            \<lparr>World := WorldOf fl ''leftWedge1Ritem'' i,
             TexTransform := TexTransformOf fl ''leftWedge1Ritem'' i,
             ObjCBIndex := objCBIndex, Mat := Some ''stone0'', Geo := Some ''shapeGeo'',
             PrimitiveType := TRIANGLELIST, DrawArgs := Some ''wedge''\<rparr>;
          objCBIndex = objCBIndex + 1;
          s = subscript_mMaterials ''stone0'' s;
          s = push_back_mRitemLayer Opaque 4 s;
          leftWedge2Ritem = RenderItem_default
            \<lparr>World := WorldOf fl ''leftWedge2Ritem'' i,
             TexTransform := TexTransformOf fl ''leftWedge2Ritem'' i,
             ObjCBIndex := objCBIndex, Mat := Some ''stone0'', Geo := Some ''shapeGeo'',
             PrimitiveType := TRIANGLELIST, DrawArgs := Some ''wedge''\<rparr>;
          objCBIndex = objCBIndex + 1;
          s = subscript_mMaterials ''stone0'' s;
          s = push_back_mRitemLayer Opaque 5 s;
          leftWedge3Ritem = RenderItem_default
            \<lparr>World := WorldOf fl ''leftWedge3Ritem'' i,
             TexTransform := TexTransformOf fl ''leftWedge3Ritem'' i,
             ObjCBIndex := objCBIndex, Mat := Some ''stone0'', Geo := Some ''shapeGeo'',
             PrimitiveType := TRIANGLELIST, DrawArgs := Some ''wedge''\<rparr>;
          objCBIndex = objCBIndex + 1;
          s = subscript_mMaterials ''stone0'' s;
          s = push_back_mRitemLayer Opaque 6 s;
          leftWedge4Ritem = RenderItem_default
            \<lparr>World := WorldOf fl ''leftWedge4Ritem'' i,
             TexTransform := TexTransformOf fl ''leftWedge4Ritem'' i,
             ObjCBIndex := objCBIndex, Mat := Some ''stone0'', Geo := Some ''shapeGeo'',
             PrimitiveType := TRIANGLELIST, DrawArgs := Some ''wedge''\<rparr>;
          objCBIndex = objCBIndex + 1;
          s = subscript_mMaterials ''stone0'' s;
          s = push_back_mRitemLayer Opaque 7 s;
          leftSpire1Ritem = RenderItem_default
            \<lparr>World := WorldOf fl ''leftSpire1Ritem'' i,
             TexTransform := TexTransformOf fl ''leftSpire1Ritem'' i,
             ObjCBIndex := objCBIndex, Mat := Some ''stone0'', Geo := Some ''shapeGeo'',
             PrimitiveType := TRIANGLELIST, DrawArgs := Some ''box''\<rparr>;
          objCBIndex = objCBIndex + 1;
          s = subscript_mMaterials ''stone0'' s;
          s = push_back_mRitemLayer Opaque 8 s;
          leftSpire2Ritem = RenderItem_default
            \<lparr>World := WorldOf fl ''leftSpire2Ritem'' i,
             TexTransform := TexTransformOf fl ''leftSpire2Ritem'' i,
             ObjCBIndex := objCBIndex, Mat := Some ''stone0'', Geo := Some ''shapeGeo'',
             PrimitiveType := TRIANGLELIST, DrawArgs := Some ''box''\<rparr>;
          objCBIndex = objCBIndex + 1;
          s = subscript_mMaterials ''stone0'' s;
          s = push_back_mRitemLayer Opaque 9 s;
          leftSpire3Ritem = RenderItem_default
            \<lparr>World := WorldOf fl ''leftSpire3Ritem'' i,
             TexTransform := TexTransformOf fl ''leftSpire3Ritem'' i,
             ObjCBIndex := objCBIndex, Mat := Some ''stone0'', Geo := Some ''shapeGeo'',
             PrimitiveType := TRIANGLELIST, DrawArgs := Some ''box''\<rparr>;
          objCBIndex = objCBIndex + 1;
          s = subscript_mMaterials ''stone0'' s;
          s = push_back_mRitemLayer Opaque 10 s;
          leftSpire4Ritem = RenderItem_default
            \<lparr>World := WorldOf fl ''leftSpire4Ritem'' i,
             TexTransform := TexTransformOf fl ''leftSpire4Ritem'' i,
             ObjCBIndex := objCBIndex, Mat := Some ''stone0'', Geo := Some ''shapeGeo'',
             PrimitiveType := TRIANGLELIST, DrawArgs := Some ''box''\<rparr>;
          objCBIndex = objCBIndex + 1;
          s = subscript_mMaterials ''stone0'' s;
          s = push_back_mRitemLayer Opaque 11 s;
          leftSpire5Ritem = RenderItem_default
            \<lparr>World := WorldOf fl ''leftSpire5Ritem'' i,
             TexTransform := TexTransformOf fl ''leftSpire5Ritem'' i,
             ObjCBIndex := objCBIndex, Mat := Some ''stone0'', Geo := Some ''shapeGeo'',
             PrimitiveType := TRIANGLELIST, DrawArgs := Some ''box''\<rparr>;
          objCBIndex = objCBIndex + 1;
          s = subscript_mMaterials ''stone0'' s;
          s = push_back_mRitemLayer Opaque 12 s;
          leftSpire6Ritem = RenderItem_default
            \<lparr>World := WorldOf fl ''leftSpire6Ritem'' i,
             TexTransform := TexTransformOf fl ''leftSpire6Ritem'' i,
             ObjCBIndex := objCBIndex, Mat := Some ''stone0'', Geo := Some ''shapeGeo'',
             PrimitiveType := TRIANGLELIST, DrawArgs := Some ''box''\<rparr>;
          objCBIndex = objCBIndex + 1;
          s = subscript_mMaterials ''stone0'' s;
          s = push_back_mRitemLayer Opaque 13 s;
          leftSpire7Ritem = RenderItem_default
            \<lparr>World := WorldOf fl ''leftSpire7Ritem'' i,
             TexTransform := TexTransformOf fl ''leftSpire7Ritem'' i,
             ObjCBIndex := objCBIndex, Mat := Some ''stone0'', Geo := Some ''shapeGeo'',
             PrimitiveType := TRIANGLELIST, DrawArgs := Some ''box''\<rparr>;
          objCBIndex = objCBIndex + 1;
          s = subscript_mMaterials ''stone0'' s;
          s = push_back_mRitemLayer Opaque 14 s;
          leftSpire8Ritem = RenderItem_default
            \<lparr>World := WorldOf fl ''leftSpire8Ritem'' i,
             TexTransform := TexTransformOf fl ''leftSpire8Ritem'' i,
             ObjCBIndex := objCBIndex, Mat := Some ''stone0'', Geo := Some ''shapeGeo'',
             PrimitiveType := TRIANGLELIST, DrawArgs := Some ''box''\<rparr>;
          objCBIndex = objCBIndex + 1;
          s = subscript_mMaterials ''stone0'' s;
          s = push_back_mRitemLayer Opaque 15 s;
          rightSpire1Ritem = RenderItem_default
            \<lparr>World := WorldOf fl ''rightSpire1Ritem'' i,
             TexTransform := TexTransformOf fl ''rightSpire1Ritem'' i,
             ObjCBIndex := objCBIndex, Mat := Some ''stone0'', Geo := Some ''shapeGeo'',
             PrimitiveType := TRIANGLELIST, DrawArgs := Some ''box''\<rparr>;
          objCBIndex = objCBIndex + 1;
          s = subscript_mMaterials ''stone0'' s;
          s = push_back_mRitemLayer Opaque 16 s;
          rightSpire2Ritem = RenderItem_default
            \<lparr>World := WorldOf fl ''rightSpire2Ritem'' i,
             TexTransform := TexTransformOf fl ''rightSpire2Ritem'' i,
             ObjCBIndex := objCBIndex, Mat := Some ''stone0'', Geo := Some ''shapeGeo'',
             PrimitiveType := TRIANGLELIST, DrawArgs := Some ''box''\<rparr>;
          objCBIndex = objCBIndex + 1;
          s = subscript_mMaterials ''stone0'' s;
          s = push_back_mRitemLayer Opaque 17 s;
          rightSpire3Ritem = RenderItem_default
            \<lparr>World := WorldOf fl ''rightSpire3Ritem'' i,
             TexTransform := TexTransformOf fl ''rightSpire3Ritem'' i,
             ObjCBIndex := objCBIndex, Mat := Some ''stone0'', Geo := Some ''shapeGeo'',
             PrimitiveType := TRIANGLELIST, DrawArgs := Some ''box''\<rparr>;
          objCBIndex = objCBIndex + 1;
          s = subscript_mMaterials ''stone0'' s;
          s = push_back_mRitemLayer Opaque 18 s;
          rightSpire4Ritem = RenderItem_default
            \<lparr>World := WorldOf fl ''rightSpire4Ritem'' i,
             TexTransform := TexTransformOf fl ''rightSpire4Ritem'' i,
             ObjCBIndex := objCBIndex, Mat := Some ''stone0'', Geo := Some ''shapeGeo'',
             PrimitiveType := TRIANGLELIST, DrawArgs := Some ''box''\<rparr>;
          objCBIndex = objCBIndex + 1;
          s = subscript_mMaterials ''stone0'' s;
          s = push_back_mRitemLayer Opaque 19 s;
          rightSpire5Ritem = RenderItem_default
            \<lparr>World := WorldOf fl ''rightSpire5Ritem'' i,
             TexTransform := TexTransformOf fl ''rightSpire5Ritem'' i,
             ObjCBIndex := objCBIndex, Mat := Some ''stone0'', Geo := Some ''shapeGeo'',
             PrimitiveType := TRIANGLELIST, DrawArgs := Some ''box''\<rparr>;
          objCBIndex = objCBIndex + 1;
          s = subscript_mMaterials ''stone0'' s;
          s = push_back_mRitemLayer Opaque 20 s;
          rightSpire6Ritem = RenderItem_default
            \<lparr>World := WorldOf fl ''rightSpire6Ritem'' i,
             TexTransform := TexTransformOf fl ''rightSpire6Ritem'' i,
             ObjCBIndex := objCBIndex, Mat := Some ''stone0'', Geo := Some ''shapeGeo'',
             PrimitiveType := TRIANGLELIST, DrawArgs := Some ''box''\<rparr>;
          objCBIndex = objCBIndex + 1;
          s = subscript_mMaterials ''stone0'' s;
          s = push_back_mRitemLayer Opaque 21 s;
          rightSpire7Ritem = RenderItem_default
            \<lparr>World := WorldOf fl ''rightSpire7Ritem'' i,
             TexTransform := TexTransformOf fl ''rightSpire7Ritem'' i,
             ObjCBIndex := objCBIndex, Mat := Some ''stone0'', Geo := Some ''shapeGeo'',
             PrimitiveType := TRIANGLELIST, DrawArgs := Some ''box''\<rparr>;
          objCBIndex = objCBIndex + 1;
          s = subscript_mMaterials ''stone0'' s;
          s = push_back_mRitemLayer Opaque 22 s;
          rightSpire8Ritem = RenderItem_default
            \<lparr>World := WorldOf fl ''rightSpire8Ritem'' i,
             TexTransform := TexTransformOf fl ''rightSpire8Ritem'' i,
             ObjCBIndex := objCBIndex, Mat := Some ''stone0'', Geo := Some ''shapeGeo'',
             PrimitiveType := TRIANGLELIST, DrawArgs := Some ''box''\<rparr>;
          objCBIndex = objCBIndex + 1;
          s = subscript_mMaterials ''stone0'' s;
          s = push_back_mRitemLayer Opaque 23 s;
          leftCylRitem = RenderItem_default
            \<lparr>World := WorldOf fl ''leftCylRitem'' i,
             TexTransform := TexTransformOf fl ''leftCylRitem'' i,
             ObjCBIndex := objCBIndex, Mat := Some ''stone0'', Geo := Some ''shapeGeo'',
             PrimitiveType := TRIANGLELIST, DrawArgs := Some ''cylinder''\<rparr>;
          objCBIndex = objCBIndex + 1;
          s = subscript_mMaterials ''stone0'' s;
          s = push_back_mRitemLayer Opaque 24 s;
          rightCylRitem = RenderItem_default
            \<lparr>World := WorldOf fl ''rightCylRitem'' i,
             TexTransform := TexTransformOf fl ''rightCylRitem'' i,
             ObjCBIndex := objCBIndex, Mat := Some ''stone0'', Geo := Some ''shapeGeo'',
             PrimitiveType := TRIANGLELIST, DrawArgs := Some ''cylinder''\<rparr>;
          objCBIndex = objCBIndex + 1;
          s = subscript_mMaterials ''stone0'' s;
          s = push_back_mRitemLayer Opaque 25 s;
          s = push_back_mAllRitems rightWedge1Ritem s;
          s = push_back_mAllRitems rightWedge2Ritem s;
          s = push_back_mAllRitems rightWedge3Ritem s;
          s = push_back_mAllRitems rightWedge4Ritem s;
          s = push_back_mAllRitems leftWedge1Ritem s;
          s = push_back_mAllRitems leftWedge2Ritem s;
          s = push_back_mAllRitems leftWedge3Ritem s;
          s = push_back_mAllRitems leftWedge4Ritem s;
          s = push_back_mAllRitems leftSpire1Ritem s;
          s = push_back_mAllRitems leftSpire2Ritem s;
          s = push_back_mAllRitems leftSpire3Ritem s;
          s = push_back_mAllRitems leftSpire4Ritem s;
          s = push_back_mAllRitems leftSpire5Ritem s;
          s = push_back_mAllRitems leftSpire6Ritem s;
          s = push_back_mAllRitems leftSpire7Ritem s;
          s = push_back_mAllRitems leftSpire8Ritem s;
          s = push_back_mAllRitems rightSpire1Ritem s;
          s = push_back_mAllRitems rightSpire2Ritem s;
          s = push_back_mAllRitems rightSpire3Ritem s;
          s = push_back_mAllRitems rightSpire4Ritem s;
          s = push_back_mAllRitems rightSpire5Ritem s;
          s = push_back_mAllRitems rightSpire6Ritem s;
          s = push_back_mAllRitems rightSpire7Ritem s;
          s = push_back_mAllRitems rightSpire8Ritem s;
          s = push_back_mAllRitems leftCylRitem s;
          s = push_back_mAllRitems rightCylRitem s
      in (objCBIndex, s))"

definition BuildRenderItems_Lab5_border1 ::
  "'a float_data \<Rightarrow> nat \<Rightarrow>
     32 word \<times> ('a::{zero,one}, 'p) App \<Rightarrow>
     32 word \<times> ('a::{zero,one}, 'p) App" where
  "BuildRenderItems_Lab5_border1 fl i x =
     (let (objCBIndex, s) = x;
          MazeWallTop = RenderItem_default
            \<lparr>World := WorldOf fl ''MazeWallTop'' i,
             TexTransform := TexTransformOf fl ''MazeWallTop'' i, ObjCBIndex := objCBIndex,
             Mat := Some ''stone0'', Geo := Some ''shapeGeo'',
             PrimitiveType := TRIANGLELIST, DrawArgs := Some ''box''\<rparr>;
          s = subscript_mMaterials ''stone0'' s;
          s = push_back_mRitemLayer Opaque 0 s;
          s = push_back_mAllRitems MazeWallTop s;
          objCBIndex = objCBIndex + 1;
          MazeWallBot = RenderItem_default
            \<lparr>World := WorldOf fl ''MazeWallBot'' i,
             TexTransform := TexTransformOf fl ''MazeWallBot'' i, ObjCBIndex := objCBIndex,
             Mat := Some ''stone0'', Geo := Some ''shapeGeo'',
             PrimitiveType := TRIANGLELIST, DrawArgs := Some ''box''\<rparr>;
          s = subscript_mMaterials ''stone0'' s;
          s = push_back_mRitemLayer Opaque 0 s;
          s = push_back_mAllRitems MazeWallBot s;
          objCBIndex = objCBIndex + 1
      in (objCBIndex, s))"

definition BuildRenderItems_Lab5_border2 ::
  "'a float_data \<Rightarrow> nat \<Rightarrow>
     32 word \<times> ('a::{zero,one}, 'p) App \<Rightarrow>
     32 word \<times> ('a::{zero,one}, 'p) App" where
  "BuildRenderItems_Lab5_border2 fl i x =
     (let (objCBIndex, s) = x;
          MazeWallRight = RenderItem_default
            \<lparr>World := WorldOf fl ''MazeWallRight'' i,
             TexTransform := TexTransformOf fl ''MazeWallRight'' i,
             ObjCBIndex := objCBIndex, Mat := Some ''stone0'', Geo := Some ''shapeGeo'',
             PrimitiveType := TRIANGLELIST, DrawArgs := Some ''box''\<rparr>;
          s = subscript_mMaterials ''stone0'' s;
          s = push_back_mRitemLayer Opaque 0 s;
          s = push_back_mAllRitems MazeWallRight s;
          objCBIndex = objCBIndex + 1;
          MazeWallLeft = RenderItem_default
            \<lparr>World := WorldOf fl ''MazeWallLeft'' i,
             TexTransform := TexTransformOf fl ''MazeWallLeft'' i,
             ObjCBIndex := objCBIndex, Mat := Some ''stone0'', Geo := Some ''shapeGeo'',
             PrimitiveType := TRIANGLELIST, DrawArgs := Some ''box''\<rparr>;
          s = subscript_mMaterials ''stone0'' s;
          s = push_back_mRitemLayer Opaque 0 s;
          s = push_back_mAllRitems MazeWallLeft s;
          objCBIndex = objCBIndex + 1
      in (objCBIndex, s))"

definition BuildRenderItems_Lab5_cell ::
  "'a float_data \<Rightarrow> (nat \<Rightarrow> int) \<Rightarrow> nat \<Rightarrow>
     nat \<Rightarrow> 32 word \<times> nat \<times> ('a::{zero,one}, 'p) App \<Rightarrow>
     32 word \<times> nat \<times> ('a::{zero,one}, 'p) App" where
  "BuildRenderItems_Lab5_cell fl rnd row col x =
     (let (objCBIndex, calls, s) = x;
          num = rnd calls smod 5;
          calls = calls + 1;
          (objCBIndex, s) =
            (if num > 1 then
               (let MazeWallVert = RenderItem_default
                      \<lparr>World := WorldOf fl ''MazeWallVert'' (row * 6 + col),
                       TexTransform := TexTransformOf fl ''MazeWallVert'' (row * 6 + col),
                       ObjCBIndex := objCBIndex, Mat := Some ''stone0'', Geo := Some ''shapeGeo'',
                       PrimitiveType := TRIANGLELIST, DrawArgs := Some ''box''\<rparr>;
                    s = subscript_mMaterials ''stone0'' s;
                    s = push_back_mRitemLayer Opaque 0 s;
                    s = push_back_mAllRitems MazeWallVert s;
                    objCBIndex = objCBIndex + 1
                in (objCBIndex, s))
             else (objCBIndex, s));
          num = rnd calls smod 5;
          calls = calls + 1;
          (objCBIndex, s) =
            (if num > 1 then
               (let MazeWallHor = RenderItem_default
                      \<lparr>World := WorldOf fl ''MazeWallHor'' (row * 6 + col),
                       TexTransform := TexTransformOf fl ''MazeWallHor'' (row * 6 + col),
                       ObjCBIndex := objCBIndex, Mat := Some ''stone0'', Geo := Some ''shapeGeo'',
                       PrimitiveType := TRIANGLELIST, DrawArgs := Some ''box''\<rparr>;
                    s = subscript_mMaterials ''stone0'' s;
                    s = push_back_mRitemLayer Opaque 0 s;
                    s = push_back_mAllRitems MazeWallHor s;
                    objCBIndex = objCBIndex + 1
                in (objCBIndex, s))
             else (objCBIndex, s))
      in (objCBIndex, calls, s))"

definition BuildRenderItems_Lab5 ::
  "'a::{zero,one} float_data \<Rightarrow> (nat \<Rightarrow> int) \<Rightarrow>
     ('a::{zero,one}, 'p) App \<Rightarrow> ('a::{zero,one}, 'p) App" where
  "BuildRenderItems_Lab5 fl rnd s =
     (let s = BuildRenderItems_Lab5_singles fl s;
          objCBIndex = 12;
          (objCBIndex, s) =
            foldl (\<lambda>x i. BuildRenderItems_Lab5_pyramids fl i x) (objCBIndex, s) [0..<8];
          objCBIndex = 44;
          (objCBIndex, s) =
            foldl (\<lambda>x i. BuildRenderItems_Lab5_towers fl i x) (objCBIndex, s) [0..<2];
          objCBIndex = 44 + 52;
          steps = 6;
          (objCBIndex, s) =
            foldl (\<lambda>x i. BuildRenderItems_Lab5_border1 fl i x) (objCBIndex, s) [0..<steps];
          (objCBIndex, s) =
            foldl (\<lambda>x i. BuildRenderItems_Lab5_border2 fl i x) (objCBIndex, s) [0..<steps];
          (objCBIndex, calls, s) =
            foldl (\<lambda>x row.
                foldl (\<lambda>x col. BuildRenderItems_Lab5_cell fl rnd row col x) x [0..<steps])
              (objCBIndex, 0, s) [0..<steps];
          objCBIndex = objCBIndex + 1;
          treeSpritesRitem = RenderItem_default
            \<lparr>World := Identity4x4, ObjCBIndex := 3, Mat := Some ''treeSprites'',
             Geo := Some ''treeSpritesGeo'', PrimitiveType := POINTLIST,
             DrawArgs := Some ''points''\<rparr>;
          s = subscript_mMaterials ''treeSprites'' s;
          s = push_back_mRitemLayer AlphaTestedTreeSprites 0 s;
          s = push_back_mAllRitems treeSpritesRitem s
      in s)"

text \<open>
  Lab 5: what \<open>Initialize\<close> does to the state modelled here, with the four layers of
  \<open>mRitemLayer\<close>.
\<close>

definition Initialize_Lab5 ::
  "'a Material \<Rightarrow> 'a::{zero,one} float_data \<Rightarrow> (nat \<Rightarrow> int) \<Rightarrow> 64 word \<Rightarrow> ('a, 'p) App" where
  "Initialize_Lab5 m0 fl rnd c0 =
     (BuildFrameResources
        (BuildRenderItems_Lab5 fl rnd (BuildMaterials_Lab5 m0 fl (LitColumnsApp_new 4))))
       \<lparr>mCurrentFence := c0\<rparr>"

text \<open>
  Floating point data for the examples, over the integers: the \<open>World\<close> matrix of
  \<open>centerCylinderRitem\<close> is the one of
  \<open>XMMatrixScaling(50, 1, 2)*XMMatrixRotationX(0)*XMMatrixTranslation(0, 50, 0)\<close>,
  as in Lab 5; every other matrix is the identity.
\<close>

definition ex_floats :: "int float_data" where
  "ex_floats =
     \<lparr>WorldOf = (\<lambda>v i. if v = ''centerCylinderRitem''
         then XMFLOAT4X4 (XMFLOAT4 50 0 0 0) (XMFLOAT4 0 1 0 0)
                         (XMFLOAT4 0 0 2 0) (XMFLOAT4 0 50 0 1)
         else Identity4x4),
      TexTransformOf = (\<lambda>v i. Identity4x4),
      DiffuseAlbedoOf = (\<lambda>v. XMFLOAT4 1 1 1 1),
      FresnelR0Of = (\<lambda>v. [0, 0, 0]),
      RoughnessOf = (\<lambda>v. 0)\<rparr>"

text \<open>
  A copy event is in range for buffers of \<open>no\<close> object constants and \<open>nm\<close> material
  constants in each of the \<open>gNumFrameResources\<close> frame resources. The pass constants
  are always copied to index 0 of a buffer of one element.
\<close>

fun copy_in_range :: "nat \<Rightarrow> nat \<Rightarrow> event \<Rightarrow> bool" where
  "copy_in_range no nm (EvCopyObject k i) \<longleftrightarrow> int k < gNumFrameResources \<and> 0 \<le> i \<and> i < int no"
| "copy_in_range no nm (EvCopyMaterial k i) \<longleftrightarrow> int k < gNumFrameResources \<and> 0 \<le> i \<and> i < int nm"
| "copy_in_range no nm (EvCopyPass k) \<longleftrightarrow> int k < gNumFrameResources"
| "copy_in_range no nm _ \<longleftrightarrow> True"


section \<open>Properties\<close>

subsection \<open>Loops\<close>

lemma for_each_append:
  "for_each body (xs @ ys) s =
     (case for_each body xs s of Inl err \<Rightarrow> Inl err | Inr s' \<Rightarrow> for_each body ys s')"
  by (induction xs arbitrary: s) (auto split: sum.splits)

lemma for_each_upt_rule:
  assumes "P 0 s"
    and "\<And>i t. i < n \<Longrightarrow> P i t \<Longrightarrow> \<exists>t'. body i t = Inr t' \<and> P (Suc i) t'"
  shows "\<exists>t. for_each body [0..<n] s = Inr t \<and> P n t"
  using assms(2)
proof (induction n)
  case 0
  then show ?case using assms(1) by simp
next
  case (Suc n)
  then obtain t where t: "for_each body [0..<n] s = Inr t" "P n t"
    by (meson less_Suc_eq)
  from Suc.prems [OF _ t(2)] obtain t' where "body n t = Inr t'" "P (Suc n) t'"
    by blast
  with t show ?case by (simp add: for_each_append)
qed

lemma length_foldl_write_item [simp]: "length (foldl write_item buf es) = length buf"
  by (induction es arbitrary: buf) (auto simp: write_item_def)

lemma objects_after_0: "k < length (mFrameResources s) \<Longrightarrow> objects_after k 0 s = s"
  by (simp add: objects_after_def dirty_items_def)

lemma objects_after_step:
  assumes k: "k < length (mFrameResources s)"
    and n: "n < length (mAllRitems s)"
    and rng: "0 < RenderItem.NumFramesDirty (mAllRitems s ! n) \<Longrightarrow>
               uint (ObjCBIndex (mAllRitems s ! n)) < int (length (ObjectCB (mFrameResources s ! k)))"
  shows "UpdateObjectCBs_body k n (objects_after k n s) = Inr (objects_after k (Suc n) s)"
proof -
  have nth: "(map dec_item (take n (mAllRitems s)) @ drop n (mAllRitems s)) ! n = mAllRitems s ! n"
    using n by (simp add: nth_append)
  have upd: "(map dec_item (take n (mAllRitems s)) @ drop n (mAllRitems s))[n := dec_item (mAllRitems s ! n)]
           = map dec_item (take (Suc n) (mAllRitems s)) @ drop (Suc n) (mAllRitems s)"
    using n by (simp add: list_update_append take_Suc_conv_app_nth Cons_nth_drop_Suc [symmetric])
  show ?thesis
  proof (cases "0 < RenderItem.NumFramesDirty (mAllRitems s ! n)")
    case True
    then show ?thesis
      using k n rng upd nth
      by (simp add: UpdateObjectCBs_body_def objects_after_def Let_def CopyData_def
          take_Suc_conv_app_nth dirty_items_def write_item_def dec_item_def)
  next
    case False
    then show ?thesis
      using k n nth
      by (simp add: UpdateObjectCBs_body_def objects_after_def Let_def
          take_Suc_conv_app_nth dirty_items_def dec_item_def Cons_nth_drop_Suc)
  qed
qed

lemma UpdateObjectCBs_eq:
  assumes cur: "mCurrFrameResource s = Some k"
    and k: "k < length (mFrameResources s)"
    and rng: "\<forall>e \<in> set (mAllRitems s). 0 < RenderItem.NumFramesDirty e \<longrightarrow>
               uint (ObjCBIndex e) < int (length (ObjectCB (mFrameResources s ! k)))"
  shows "UpdateObjectCBs s = Inr (objects_after k (length (mAllRitems s)) s)"
proof -
  have "\<exists>t. for_each (UpdateObjectCBs_body k) [0..<length (mAllRitems s)] s = Inr t
          \<and> t = objects_after k (length (mAllRitems s)) s"
  proof (rule for_each_upt_rule [where P = "\<lambda>i t. t = objects_after k i s"])
    show "s = objects_after k 0 s" using k by (simp add: objects_after_0)
  next
    fix i t assume "i < length (mAllRitems s)" "t = objects_after k i s"
    then show "\<exists>t'. UpdateObjectCBs_body k i t = Inr t' \<and> t' = objects_after k (Suc i) s"
      using objects_after_step [OF k, of i] rng by simp
  qed
  then show ?thesis using cur k by (simp add: UpdateObjectCBs_def)
qed

lemma length_foldl_write_mat [simp]: "length (foldl write_mat buf es) = length buf"
  by (induction es arbitrary: buf) (auto simp: write_mat_def)

lemma materials_after_0: "k < length (mFrameResources s) \<Longrightarrow> materials_after k 0 s = s"
  by (simp add: materials_after_def dirty_mats_def)

lemma materials_after_step:
  assumes k: "k < length (mFrameResources s)"
    and n: "n < length (mMaterials s)"
    and some: "snd (mMaterials s ! n) = Some mat"
    and rng: "0 < NumFramesDirty mat \<Longrightarrow>
               0 \<le> MatCBIndex mat \<and> MatCBIndex mat < int (length (MaterialCB (mFrameResources s ! k)))"
  shows "UpdateMaterialCBs_body k n (materials_after k n s) = Inr (materials_after k (Suc n) s)"
proof -
  have nth: "(map dec_mat (take n (mMaterials s)) @ drop n (mMaterials s)) ! n = mMaterials s ! n"
    using n by (simp add: nth_append)
  show ?thesis
  proof (cases "0 < NumFramesDirty mat")
    case True
    then show ?thesis
      using k n rng nth some
      by (simp add: UpdateMaterialCBs_body_def materials_after_def Let_def CopyData_def
          take_Suc_conv_app_nth dirty_mats_def write_mat_def dec_mat_def
          list_update_append Cons_nth_drop_Suc [symmetric])
  next
    case False
    obtain a where a: "mMaterials s ! n = (a, Some mat)"
      using some by (cases "mMaterials s ! n") simp
    have dn: "(a, Some mat) # drop (Suc n) (mMaterials s) = drop n (mMaterials s)"
      using n a Cons_nth_drop_Suc [of n "mMaterials s"] by simp
    from False show ?thesis
      using k n nth a dn
      by (simp add: UpdateMaterialCBs_body_def materials_after_def Let_def
          take_Suc_conv_app_nth dirty_mats_def dec_mat_def)
  qed
qed

lemma UpdateMaterialCBs_eq:
  assumes cur: "mCurrFrameResource s = Some k"
    and k: "k < length (mFrameResources s)"
    and rng: "\<forall>x \<in> set (mMaterials s). \<exists>mat. snd x = Some mat \<and> (0 < NumFramesDirty mat \<longrightarrow>
               0 \<le> MatCBIndex mat \<and> MatCBIndex mat < int (length (MaterialCB (mFrameResources s ! k))))"
  shows "UpdateMaterialCBs s = Inr (materials_after k (length (mMaterials s)) s)"
proof -
  have "\<exists>t. for_each (UpdateMaterialCBs_body k) [0..<length (mMaterials s)] s = Inr t
          \<and> t = materials_after k (length (mMaterials s)) s"
  proof (rule for_each_upt_rule [where P = "\<lambda>i t. t = materials_after k i s"])
    show "s = materials_after k 0 s" using k by (simp add: materials_after_0)
  next
    fix i t assume i: "i < length (mMaterials s)" and t: "t = materials_after k i s"
    from i rng obtain mat where "snd (mMaterials s ! i) = Some mat"
      "0 < NumFramesDirty mat \<longrightarrow>
               0 \<le> MatCBIndex mat \<and> MatCBIndex mat < int (length (MaterialCB (mFrameResources s ! k)))"
      using nth_mem by blast
    then show "\<exists>t'. UpdateMaterialCBs_body k i t = Inr t' \<and> t' = materials_after k (Suc i) s"
      using materials_after_step [OF k i] t by simp
  qed
  then show ?thesis using cur k by (simp add: UpdateMaterialCBs_def)
qed

lemma DrawRenderItems_ok:
  assumes "well_formed s" "\<forall>i \<in> set l. i < length (mAllRitems s)"
  shows "DrawRenderItems s l = Inr (map (draw_cmd s) l)"
  using assms(2)
proof (induction l)
  case Nil
  then show ?case by simp
next
  case (Cons i l)
  then have i: "i < length (mAllRitems s)" by simp
  then have "mAllRitems s ! i \<in> set (mAllRitems s)" by simp
  with assms(1) have "Geo (mAllRitems s ! i) \<noteq> None"
    "(case Mat (mAllRitems s ! i) of None \<Rightarrow> False
         | Some n \<Rightarrow> (case map_of (mMaterials s) n of Some (Some m) \<Rightarrow> True | _ \<Rightarrow> False))"
    unfolding well_formed_def by blast+
  then show ?case using Cons i
    by (auto simp: draw_cmd_def Let_def split: option.splits)
qed

lemma DrawLayers_ok:
  assumes "well_formed s" "\<forall>l \<in> set ls. \<forall>i \<in> set l. i < length (mAllRitems s)"
  shows "DrawLayers s ls = Inr (concat (map (map (draw_cmd s)) ls))"
  using assms(2)
  by (induction ls) (simp_all add: DrawRenderItems_ok [OF assms(1)])

subsection \<open>Waiting\<close>

lemma WaitForFence_Some:
  "WaitForFence gpu f t = Some t' \<Longrightarrow>
     t \<le> t' \<and> f \<le> gpu t' \<and> (\<forall>u. t \<le> u \<and> u < t' \<longrightarrow> gpu u < f)"
proof (induction rule: WaitForFence.raw_induct [rotated 1, consumes 1])
  case (1 w gpu f t t')
  show ?case
  proof (cases "f \<le> gpu t")
    case True
    with 1(2) have "t' = t" by simp
    moreover have "\<forall>u::nat. t \<le> u \<and> u < t \<longrightarrow> gpu u < f" by (meson leD)
    ultimately show ?thesis using True by simp
  next
    case False
    with 1(2) have step: "w gpu f (Suc t) = Some t'" by simp
    have *: "Suc t \<le> t'" "f \<le> gpu t'" "\<forall>u. Suc t \<le> u \<and> u < t' \<longrightarrow> gpu u < f"
      using 1(1) [OF step] by blast+
    have "gpu u < f" if "t \<le> u" "u < t'" for u
    proof (cases "u = t")
      case True
      with False show ?thesis by simp
    next
      case False
      with that * show ?thesis by simp
    qed
    with * show ?thesis by simp
  qed
qed

lemma WaitForFence_returns:
  "t \<le> t' \<Longrightarrow> f \<le> gpu t' \<Longrightarrow> \<exists>u. WaitForFence gpu f t = Some u"
proof (induction "t' - t" arbitrary: t)
  case 0
  then show ?case by (simp add: WaitForFence.simps)
next
  case (Suc d)
  show ?case
  proof (cases "f \<le> gpu t")
    case True
    then show ?thesis by (simp add: WaitForFence.simps)
  next
    case False
    with Suc(3,4) have "t \<noteq> t'" by auto
    with Suc have "\<exists>u. WaitForFence gpu f (Suc t) = Some u"
      by (intro Suc(1)) auto
    with False show ?thesis by (subst WaitForFence.simps) simp
  qed
qed

lemma WaitForFence_None:
  "WaitForFence gpu f t = None \<longleftrightarrow> (\<forall>u\<ge>t. gpu u < f)"
proof
  assume n: "WaitForFence gpu f t = None"
  show "\<forall>u\<ge>t. gpu u < f"
  proof (intro allI impI)
    fix u assume "t \<le> u"
    show "gpu u < f"
    proof (rule ccontr)
      assume "\<not> gpu u < f"
      then have "f \<le> gpu u" by simp
      from WaitForFence_returns [of t u f gpu] \<open>t \<le> u\<close> this n show False by simp
    qed
  qed
next
  assume a: "\<forall>u\<ge>t. gpu u < f"
  show "WaitForFence gpu f t = None"
  proof (cases "WaitForFence gpu f t")
    case None
    then show ?thesis .
  next
    case (Some t')
    from WaitForFence_Some [OF this] a show ?thesis by (metis not_le)
  qed
qed

subsection \<open>One frame, in closed form\<close>

lemma well_formed_frD:
  assumes "well_formed s" "k < length (mFrameResources s)"
  shows "length (ObjectCB (mFrameResources s ! k)) = length (mAllRitems s)"
    and "length (MaterialCB (mFrameResources s ! k)) = length (mMaterials s)"
    and "length (PassCB (mFrameResources s ! k)) = 1"
  using assms nth_mem unfolding well_formed_def by blast+

lemma well_formed_itemD:
  assumes "well_formed s" "e \<in> set (mAllRitems s)"
  shows "uint (ObjCBIndex e) < int (length (mAllRitems s))"
  using assms unfolding well_formed_def by blast

lemma well_formed_matD:
  assumes "well_formed s" "x \<in> set (mMaterials s)"
  shows "\<exists>m. snd x = Some m \<and> 0 \<le> MatCBIndex m \<and> MatCBIndex m < int (length (mMaterials s))"
proof -
  from assms have "case snd x of None \<Rightarrow> False
        | Some m \<Rightarrow> 0 \<le> MatCBIndex m \<and> MatCBIndex m < int (length (mMaterials s))"
    unfolding well_formed_def by blast
  then show ?thesis by (cases "snd x") auto
qed

lemma Update_refresh_eq:
  assumes wf: "well_formed s" and cur: "mCurrFrameResource s = Some k"
    and k: "k < length (mFrameResources s)"
  shows "Update_refresh pass s = Inr (refreshed k pass s)"
proof -
  let ?s1 = "objects_after k (length (mAllRitems s)) s"
  let ?s2 = "materials_after k (length (mMaterials ?s1)) ?s1"
  have 1: "UpdateObjectCBs s = Inr ?s1"
    using well_formed_itemD [OF wf] well_formed_frD(1) [OF wf k]
    by (intro UpdateObjectCBs_eq [OF cur k]) simp
  have m1: "mMaterials ?s1 = mMaterials s" "mCurrFrameResource ?s1 = Some k"
    "length (mFrameResources ?s1) = length (mFrameResources s)"
    "MaterialCB (mFrameResources ?s1 ! k) = MaterialCB (mFrameResources s ! k)"
    using cur k by (simp_all add: objects_after_def)
  have 2: "UpdateMaterialCBs ?s1 = Inr ?s2"
  proof (rule UpdateMaterialCBs_eq)
    show "mCurrFrameResource ?s1 = Some k" by (rule m1)
    show "k < length (mFrameResources ?s1)" using k m1 by simp
    show "\<forall>x\<in>set (mMaterials ?s1). \<exists>mat. snd x = Some mat \<and>
            (0 < NumFramesDirty mat \<longrightarrow> 0 \<le> MatCBIndex mat \<and>
               MatCBIndex mat < int (length (MaterialCB (mFrameResources ?s1 ! k))))"
      unfolding m1 using well_formed_matD [OF wf] well_formed_frD(2) [OF wf k] by fastforce
  qed
  have "PassCB (mFrameResources s ! k) \<noteq> []"
    using well_formed_frD(3) [OF wf k] by auto
  then have 3: "UpdateMainPassCB pass ?s2 = Inr (refreshed k pass s)"
    using cur k
    by (simp add: UpdateMainPassCB_def materials_after_def objects_after_def refreshed_def
        CopyData_def Let_def)
  show ?thesis
    by (simp add: Update_refresh_def AnimateMaterials_def 1 2 3)
qed

lemma refreshed_simps [simp]:
  "mAllRitems (refreshed k pass s) = map dec_item (mAllRitems s)"
  "mMaterials (refreshed k pass s) = map dec_mat (mMaterials s)"
  "mRitemLayer (refreshed k pass s) = mRitemLayer s"
  "mCurrFrameResource (refreshed k pass s) = mCurrFrameResource s"
  "mCurrFrameResourceIndex (refreshed k pass s) = mCurrFrameResourceIndex s"
  "mCurrentFence (refreshed k pass s) = mCurrentFence s"
  "mCurrBackBuffer (refreshed k pass s) = mCurrBackBuffer s"
  "clock (refreshed k pass s) = clock s"
  "length (mFrameResources (refreshed k pass s)) = length (mFrameResources s)"
  by (simp_all add: refreshed_def)

lemma refreshed_frame_resources:
  "j \<noteq> k \<Longrightarrow> mFrameResources (refreshed k pass s) ! j = mFrameResources s ! j"
  "k < length (mFrameResources s) \<Longrightarrow>
     mFrameResources (refreshed k pass s) ! k =
       (mFrameResources s ! k)
         \<lparr>ObjectCB := foldl write_item (ObjectCB (mFrameResources s ! k))
                        (dirty_items (mAllRitems s)),
          MaterialCB := foldl write_mat (MaterialCB (mFrameResources s ! k))
                          (dirty_mats (mMaterials s)),
          PassCB := (PassCB (mFrameResources s ! k))[0 := Some pass]\<rparr>"
  by (simp_all add: refreshed_def)

lemma dec_item_simps [simp]:
  "World (dec_item e) = World e"
  "TexTransform (dec_item e) = TexTransform e"
  "ObjCBIndex (dec_item e) = ObjCBIndex e"
  "Mat (dec_item e) = Mat e"
  "Geo (dec_item e) = Geo e"
  "PrimitiveType (dec_item e) = PrimitiveType e"
  "DrawArgs (dec_item e) = DrawArgs e"
  "objConstants (dec_item e) = objConstants e"
  "RenderItem.NumFramesDirty (dec_item e) =
     (if 0 < RenderItem.NumFramesDirty e then RenderItem.NumFramesDirty e - 1
      else RenderItem.NumFramesDirty e)"
  by (simp_all add: dec_item_def objConstants_def)

lemma map_of_dec_mat: "map_of (map dec_mat ms) n = map_option (snd \<circ> dec_mat \<circ> Pair n) (map_of ms n)"
  by (induction ms) (auto simp: dec_mat_def)

lemma dec_mat_Some:
  "snd x = Some m \<Longrightarrow> \<exists>m'. snd (dec_mat x) = Some m' \<and> MatCBIndex m' = MatCBIndex m
     \<and> matConstants m' = matConstants m \<and> Name m' = Name m
     \<and> NumFramesDirty m' = (if 0 < NumFramesDirty m then NumFramesDirty m - 1 else NumFramesDirty m)"
  by (simp add: dec_mat_def matConstants_def)

lemma well_formed_refreshed:
  assumes wf: "well_formed s" and k: "k < length (mFrameResources s)"
  shows "well_formed (refreshed k pass s)"
proof -
  have fr: "\<forall>fr \<in> set (mFrameResources (refreshed k pass s)).
        length (ObjectCB fr) = length (mAllRitems s) \<and>
        length (MaterialCB fr) = length (mMaterials s) \<and>
        length (PassCB fr) = 1"
  proof
    fix fr assume "fr \<in> set (mFrameResources (refreshed k pass s))"
    then obtain j where j: "j < length (mFrameResources s)"
      "fr = mFrameResources (refreshed k pass s) ! j"
      by (metis in_set_conv_nth refreshed_simps(9))
    show "length (ObjectCB fr) = length (mAllRitems s) \<and>
        length (MaterialCB fr) = length (mMaterials s) \<and>
        length (PassCB fr) = 1"
      using j well_formed_frD [OF wf j(1)] well_formed_frD [OF wf k]
      by (cases "j = k") (simp_all add: refreshed_frame_resources)
  qed
  have it: "\<forall>e \<in> set (mAllRitems s).
        (case Mat e of None \<Rightarrow> False
         | Some n \<Rightarrow> (case map_of (map dec_mat (mMaterials s)) n of Some (Some m) \<Rightarrow> True | _ \<Rightarrow> False))"
  proof
    fix e assume "e \<in> set (mAllRitems s)"
    with wf have "case Mat e of None \<Rightarrow> False
         | Some n \<Rightarrow> (case map_of (mMaterials s) n of Some (Some m) \<Rightarrow> True | _ \<Rightarrow> False)"
      unfolding well_formed_def by blast
    then show "case Mat e of None \<Rightarrow> False
         | Some n \<Rightarrow> (case map_of (map dec_mat (mMaterials s)) n of Some (Some m) \<Rightarrow> True | _ \<Rightarrow> False)"
      by (auto simp: map_of_dec_mat dec_mat_def split: option.splits)
  qed
  have ma: "\<forall>x \<in> set (mMaterials s).
        case snd (dec_mat x) of None \<Rightarrow> False
        | Some m \<Rightarrow> 0 \<le> MatCBIndex m \<and> MatCBIndex m < int (length (mMaterials s))"
  proof
    fix x assume "x \<in> set (mMaterials s)"
    from well_formed_matD [OF wf this] obtain m where m: "snd x = Some m"
      "0 \<le> MatCBIndex m" "MatCBIndex m < int (length (mMaterials s))" by blast
    from dec_mat_Some [OF m(1)] m(2,3)
    show "case snd (dec_mat x) of None \<Rightarrow> False
        | Some m \<Rightarrow> 0 \<le> MatCBIndex m \<and> MatCBIndex m < int (length (mMaterials s))"
      by auto
  qed
  show ?thesis
    using wf fr it ma unfolding well_formed_def refreshed_simps length_map by simp
qed

lemma next_index_range:
  assumes "well_formed s"
  shows "0 \<le> next_index s" "next_index s < 3" "nat (next_index s) < length (mFrameResources s)"
    "next_index s = (mCurrFrameResourceIndex s + 1) mod 3"
proof -
  from assms have i: "0 \<le> mCurrFrameResourceIndex s" "mCurrFrameResourceIndex s < 3"
    and l: "length (mFrameResources s) = 3"
    by (simp_all add: well_formed_def gNumFrameResources_def)
  show 4: "next_index s = (mCurrFrameResourceIndex s + 1) mod 3"
    using i by (simp add: next_index_def gNumFrameResources_def smod_int_alt_def sgn_if)
  show "0 \<le> next_index s" "next_index s < 3" unfolding 4 by simp_all
  then show "nat (next_index s) < length (mFrameResources s)" using l by simp
qed

lemma cycled_simps [simp]:
  "mAllRitems (cycled t ws s) = mAllRitems s"
  "mMaterials (cycled t ws s) = mMaterials s"
  "mRitemLayer (cycled t ws s) = mRitemLayer s"
  "mFrameResources (cycled t ws s) = mFrameResources s"
  "mCurrFrameResource (cycled t ws s) = Some (nat (next_index s))"
  "mCurrFrameResourceIndex (cycled t ws s) = next_index s"
  "mCurrentFence (cycled t ws s) = mCurrentFence s"
  "mCurrBackBuffer (cycled t ws s) = mCurrBackBuffer s"
  "clock (cycled t ws s) = t"
  "trace (cycled t ws s) = trace s @ ws"
  by (simp_all add: cycled_def)

lemma well_formed_cycled:
  assumes "well_formed s"
  shows "well_formed (cycled t ws s)"
  using assms next_index_range(1,2) [OF assms]
  unfolding well_formed_def cycled_simps by (simp add: gNumFrameResources_def)

lemma Update_cycle_eq:
  assumes wf: "well_formed s"
  shows "Update_cycle gpu s =
    (if next_fence s \<noteq> 0 \<and> gpu (Suc (clock s)) < next_fence s then
       (case WaitForFence gpu (next_fence s) (Suc (clock s)) of
          None \<Rightarrow> None
        | Some t \<Rightarrow> Some (Inr (cycled t [EvWait (next_fence s)] s)))
     else Some (Inr (cycled (Suc (clock s)) [] s)))"
proof -
  have i: "(mCurrFrameResourceIndex s + 1) smod gNumFrameResources = next_index s"
    by (simp add: next_index_def)
  have rng: "0 \<le> next_index s" "next_index s < int (length (mFrameResources s))"
    using next_index_range(1,3) [OF wf] by simp_all
  show ?thesis
    unfolding Update_cycle_def Let_def i using rng
    by (simp add: cycled_def next_fence_def split: option.splits)
qed

lemma Draw_eq:
  assumes wf: "well_formed s" and cur: "mCurrFrameResource s = Some k"
    and k: "k < length (mFrameResources s)"
  shows "Draw s = Inr (submitted k s)"
proof -
  have "DrawLayers s (mRitemLayer s) = Inr (concat (map (map (draw_cmd s)) (mRitemLayer s)))"
    using wf by (intro DrawLayers_ok) (simp_all add: well_formed_def)
  then show ?thesis using cur k by (simp add: Draw_def submitted_def Let_def)
qed

lemma well_formed_submitted:
  assumes wf: "well_formed s" and k: "k < length (mFrameResources s)"
  shows "well_formed (submitted k s)"
proof -
  have fr: "\<forall>fr \<in> set (mFrameResources (submitted k s)).
        length (ObjectCB fr) = length (mAllRitems s) \<and>
        length (MaterialCB fr) = length (mMaterials s) \<and>
        length (PassCB fr) = 1"
  proof
    fix fr assume "fr \<in> set (mFrameResources (submitted k s))"
    then obtain j where j: "j < length (mFrameResources s)"
      "fr = mFrameResources (submitted k s) ! j"
      by (auto simp: in_set_conv_nth submitted_def)
    show "length (ObjectCB fr) = length (mAllRitems s) \<and>
        length (MaterialCB fr) = length (mMaterials s) \<and>
        length (PassCB fr) = 1"
      using j well_formed_frD [OF wf j(1)] well_formed_frD [OF wf k]
      by (cases "j = k") (simp_all add: submitted_def)
  qed
  have eqs: "mAllRitems (submitted k s) = mAllRitems s" "mMaterials (submitted k s) = mMaterials s"
    "mRitemLayer (submitted k s) = mRitemLayer s"
    "mCurrFrameResourceIndex (submitted k s) = mCurrFrameResourceIndex s"
    "length (mFrameResources (submitted k s)) = length (mFrameResources s)"
    by (simp_all add: submitted_def)
  show ?thesis
    using wf fr unfolding well_formed_def eqs by simp
qed

lemma submitted_simps [simp]:
  "mAllRitems (submitted k s) = mAllRitems s"
  "mMaterials (submitted k s) = mMaterials s"
  "mRitemLayer (submitted k s) = mRitemLayer s"
  "mCurrFrameResource (submitted k s) = mCurrFrameResource s"
  "mCurrFrameResourceIndex (submitted k s) = mCurrFrameResourceIndex s"
  "mCurrentFence (submitted k s) = mCurrentFence s + 1"
  "clock (submitted k s) = clock s"
  "length (mFrameResources (submitted k s)) = length (mFrameResources s)"
  by (simp_all add: submitted_def)

lemma frame_eq:
  assumes wf: "well_formed s"
  shows "frame gpu pass s =
    (if next_fence s \<noteq> 0 \<and> gpu (Suc (clock s)) < next_fence s then
       (case WaitForFence gpu (next_fence s) (Suc (clock s)) of
          None \<Rightarrow> None
        | Some t \<Rightarrow> Some (Inr (after_frame t [EvWait (next_fence s)] pass s)))
     else Some (Inr (after_frame (Suc (clock s)) [] pass s)))"
proof -
  have step: "(case Update_refresh pass (cycled t ws s) of
                 Inl err \<Rightarrow> Some (Inl err) | Inr s1 \<Rightarrow> Some (Draw s1))
              = Some (Inr (after_frame t ws pass s))" for t ws
  proof -
    let ?k = "nat (next_index s)"
    have k: "?k < length (mFrameResources s)" by (rule next_index_range(3) [OF wf])
    have wc: "well_formed (cycled t ws s)" by (rule well_formed_cycled [OF wf])
    have 1: "Update_refresh pass (cycled t ws s) = Inr (refreshed ?k pass (cycled t ws s))"
      using k by (intro Update_refresh_eq [OF wc]) simp_all
    have wr: "well_formed (refreshed ?k pass (cycled t ws s))"
      using k by (intro well_formed_refreshed [OF wc]) simp
    have 2: "Draw (refreshed ?k pass (cycled t ws s)) = Inr (after_frame t ws pass s)"
      unfolding after_frame_def using k by (intro Draw_eq [OF wr]) simp_all
    show ?thesis by (simp add: 1 2)
  qed
  show ?thesis
    by (simp add: frame_def Update_def Update_cycle_eq [OF wf] step split: option.splits)
qed

lemma well_formed_after_frame:
  assumes wf: "well_formed s"
  shows "well_formed (after_frame t ws pass s)"
  unfolding after_frame_def
  using next_index_range(3) [OF wf]
  by (intro well_formed_submitted well_formed_refreshed well_formed_cycled wf) simp_all

lemma after_frame_simps [simp]:
  "mAllRitems (after_frame t ws pass s) = map dec_item (mAllRitems s)"
  "mMaterials (after_frame t ws pass s) = map dec_mat (mMaterials s)"
  "mRitemLayer (after_frame t ws pass s) = mRitemLayer s"
  "mCurrFrameResource (after_frame t ws pass s) = Some (nat (next_index s))"
  "mCurrFrameResourceIndex (after_frame t ws pass s) = next_index s"
  "mCurrentFence (after_frame t ws pass s) = mCurrentFence s + 1"
  "clock (after_frame t ws pass s) = t"
  "length (mFrameResources (after_frame t ws pass s)) = length (mFrameResources s)"
  by (simp_all add: after_frame_def)

lemma after_frame_other:
  "j \<noteq> nat (next_index s) \<Longrightarrow>
     mFrameResources (after_frame t ws pass s) ! j = mFrameResources s ! j"
  by (simp add: after_frame_def submitted_def refreshed_def)

lemma after_frame_current:
  assumes "nat (next_index s) < length (mFrameResources s)"
  shows "Fence (mFrameResources (after_frame t ws pass s) ! nat (next_index s)) = mCurrentFence s + 1"
    and "ObjectCB (mFrameResources (after_frame t ws pass s) ! nat (next_index s)) =
          foldl write_item (ObjectCB (mFrameResources s ! nat (next_index s)))
            (dirty_items (mAllRitems s))"
    and "MaterialCB (mFrameResources (after_frame t ws pass s) ! nat (next_index s)) =
          foldl write_mat (MaterialCB (mFrameResources s ! nat (next_index s)))
            (dirty_mats (mMaterials s))"
    and "PassCB (mFrameResources (after_frame t ws pass s) ! nat (next_index s)) =
          (PassCB (mFrameResources s ! nat (next_index s)))[0 := Some pass]"
  using assms by (simp_all add: after_frame_def submitted_def refreshed_def)

lemma after_frame_trace:
  "trace (after_frame t ws pass s) =
     trace s @ ws @
     map (\<lambda>e. EvCopyObject (nat (next_index s)) (uint (ObjCBIndex e))) (dirty_items (mAllRitems s)) @
     map (\<lambda>mat. EvCopyMaterial (nat (next_index s)) (MatCBIndex mat)) (dirty_mats (mMaterials s)) @
     [EvCopyPass (nat (next_index s)), EvResetAllocator (nat (next_index s)),
      EvExecute (nat (next_index s))
        (CmdListAlloc (mFrameResources (after_frame t ws pass s) ! nat (next_index s))),
      EvPresent, EvSignal (mCurrentFence s + 1)]"
  if "nat (next_index s) < length (mFrameResources s)"
  using that by (simp add: after_frame_def submitted_def refreshed_def)

subsection \<open>The frame of a refresh\<close>

lemma well_formed_ex_app: "well_formed (ex_app n c)"
  by (simp add: well_formed_def ex_app_def ex_item_def ex_mat_def RenderItem_default_def
      FrameResource_new_def gNumFrameResources_def)

text \<open>
  C10. One refresh of a dirty render item writes the cell \<open>ObjCBIndex\<close> of the object
  buffer of the current frame resource and takes one off \<open>NumFramesDirty\<close> of that
  render item; nothing else changes: not its matrices, index, material or geometry,
  not another render item, not another cell, not another buffer or frame resource.
\<close>

theorem refresh_changes_one_cell_one_counter:
  assumes i: "i < length (mAllRitems s)" and k: "k < length (mFrameResources s)"
    and dirty: "0 < RenderItem.NumFramesDirty (mAllRitems s ! i)"
    and rng: "uint (ObjCBIndex (mAllRitems s ! i)) < int (length (ObjectCB (mFrameResources s ! k)))"
  shows "\<exists>s'. UpdateObjectCBs_body k i s = Inr s' \<and>
    mAllRitems s' = (mAllRitems s)
      [i := (mAllRitems s ! i)\<lparr>RenderItem.NumFramesDirty :=
               RenderItem.NumFramesDirty (mAllRitems s ! i) - 1\<rparr>] \<and>
    mFrameResources s' = (mFrameResources s)
      [k := (mFrameResources s ! k)\<lparr>ObjectCB := (ObjectCB (mFrameResources s ! k))
               [nat (uint (ObjCBIndex (mAllRitems s ! i))) := Some (objConstants (mAllRitems s ! i))]\<rparr>] \<and>
    RenderItem.NumFramesDirty (mAllRitems s' ! i) = RenderItem.NumFramesDirty (mAllRitems s ! i) - 1 \<and>
    World (mAllRitems s' ! i) = World (mAllRitems s ! i) \<and>
    TexTransform (mAllRitems s' ! i) = TexTransform (mAllRitems s ! i) \<and>
    ObjCBIndex (mAllRitems s' ! i) = ObjCBIndex (mAllRitems s ! i) \<and>
    Mat (mAllRitems s' ! i) = Mat (mAllRitems s ! i) \<and>
    Geo (mAllRitems s' ! i) = Geo (mAllRitems s ! i) \<and>
    (\<forall>j. j \<noteq> i \<longrightarrow> mAllRitems s' ! j = mAllRitems s ! j) \<and>
    (\<forall>c. c \<noteq> nat (uint (ObjCBIndex (mAllRitems s ! i))) \<longrightarrow>
       ObjectCB (mFrameResources s' ! k) ! c = ObjectCB (mFrameResources s ! k) ! c) \<and>
    ObjectCB (mFrameResources s' ! k) ! nat (uint (ObjCBIndex (mAllRitems s ! i))) =
       Some (objConstants (mAllRitems s ! i)) \<and>
    MaterialCB (mFrameResources s' ! k) = MaterialCB (mFrameResources s ! k) \<and>
    PassCB (mFrameResources s' ! k) = PassCB (mFrameResources s ! k) \<and>
    Fence (mFrameResources s' ! k) = Fence (mFrameResources s ! k) \<and>
    CmdListAlloc (mFrameResources s' ! k) = CmdListAlloc (mFrameResources s ! k) \<and>
    (\<forall>j. j \<noteq> k \<longrightarrow> mFrameResources s' ! j = mFrameResources s ! j) \<and>
    mMaterials s' = mMaterials s \<and> mRitemLayer s' = mRitemLayer s \<and>
    mCurrFrameResource s' = mCurrFrameResource s \<and>
    mCurrFrameResourceIndex s' = mCurrFrameResourceIndex s \<and>
    mCurrentFence s' = mCurrentFence s \<and>
    trace s' = trace s @ [EvCopyObject k (uint (ObjCBIndex (mAllRitems s ! i)))]"
proof -
  let ?e = "mAllRitems s ! i"
  let ?c = "nat (uint (ObjCBIndex ?e))"
  let ?s' = "s\<lparr>mFrameResources := (mFrameResources s)
                 [k := (mFrameResources s ! k)\<lparr>ObjectCB :=
                    (ObjectCB (mFrameResources s ! k))[?c := Some (objConstants ?e)]\<rparr>],
              mAllRitems := (mAllRitems s)
                 [i := ?e\<lparr>RenderItem.NumFramesDirty := RenderItem.NumFramesDirty ?e - 1\<rparr>],
              trace := trace s @ [EvCopyObject k (uint (ObjCBIndex ?e))]\<rparr>"
  have c: "?c < length (ObjectCB (mFrameResources s ! k))"
  proof -
    from rng have "int (unat (ObjCBIndex ?e)) < int (length (ObjectCB (mFrameResources s ! k)))"
      by (simp only: uint_nat)
    then have "unat (ObjCBIndex ?e) < length (ObjectCB (mFrameResources s ! k))"
      by (simp only: of_nat_less_iff)
    then show ?thesis by simp
  qed
  have "UpdateObjectCBs_body k i s = Inr ?s'"
    using dirty rng by (simp add: UpdateObjectCBs_body_def Let_def CopyData_def)
  moreover have "\<forall>j. j \<noteq> i \<longrightarrow> mAllRitems ?s' ! j = mAllRitems s ! j" by simp
  moreover have "\<forall>j. j \<noteq> k \<longrightarrow> mFrameResources ?s' ! j = mFrameResources s ! j" by simp
  moreover have "\<forall>c. c \<noteq> ?c \<longrightarrow>
       ObjectCB (mFrameResources ?s' ! k) ! c = ObjectCB (mFrameResources s ! k) ! c"
    using k by simp
  moreover have "ObjectCB (mFrameResources ?s' ! k) ! ?c = Some (objConstants ?e)"
    using k c by simp
  ultimately show ?thesis using i k by (intro exI [of _ ?s']) simp
qed

theorem refresh_changes_one_cell_one_counter_witness:
  "\<exists>s'. UpdateObjectCBs_body 1 0 (ex_app 3 0) = Inr s' \<and>
     mAllRitems s' = [ex_item 2 0, ex_item 0 1] \<and>
     ObjectCB (mFrameResources s' ! 1) = [Some (objConstants (ex_item 3 0)), None] \<and>
     mFrameResources s' ! 0 = FrameResource_new 1 2 1 \<and>
     mFrameResources s' ! 2 = FrameResource_new 1 2 1"
proof -
  have h: "0 < length (mAllRitems (ex_app 3 0))" "1 < length (mFrameResources (ex_app 3 0))"
    "0 < RenderItem.NumFramesDirty (mAllRitems (ex_app 3 0) ! 0)"
    "uint (ObjCBIndex (mAllRitems (ex_app 3 0) ! 0))
       < int (length (ObjectCB (mFrameResources (ex_app 3 0) ! 1)))"
    by (simp_all add: ex_app_def ex_item_def RenderItem_default_def FrameResource_new_def
        gNumFrameResources_def)
  from refresh_changes_one_cell_one_counter [OF h]
  obtain s' where s': "UpdateObjectCBs_body 1 0 (ex_app 3 0) = Inr s'"
    and a: "mAllRitems s' = (mAllRitems (ex_app 3 0))
      [0 := (mAllRitems (ex_app 3 0) ! 0)\<lparr>RenderItem.NumFramesDirty :=
               RenderItem.NumFramesDirty (mAllRitems (ex_app 3 0) ! 0) - 1\<rparr>]"
    and b: "mFrameResources s' = (mFrameResources (ex_app 3 0))
      [1 := (mFrameResources (ex_app 3 0) ! 1)\<lparr>ObjectCB := (ObjectCB (mFrameResources (ex_app 3 0) ! 1))
               [nat (uint (ObjCBIndex (mAllRitems (ex_app 3 0) ! 0))) := Some (objConstants (mAllRitems (ex_app 3 0) ! 0))]\<rparr>]"
    by (elim exE conjE) (rule that; assumption)
  have 1: "mAllRitems s' = [ex_item 2 0, ex_item 0 1]"
    unfolding a by (simp add: ex_app_def ex_item_def RenderItem_default_def gNumFrameResources_def)
  have 2: "mFrameResources s' =
       [FrameResource_new 1 2 1,
        (FrameResource_new 1 2 1)\<lparr>ObjectCB := [Some (objConstants (ex_item 3 0)), None]\<rparr>,
        FrameResource_new 1 2 1]"
    unfolding b
    by (simp add: ex_app_def ex_item_def RenderItem_default_def FrameResource_new_def
        eval_nat_numeral)
  show ?thesis
    using s' 1 2 by (intro exI [of _ s']) simp
qed

subsection \<open>No redundant writes\<close>

lemma uint_less_length: "uint (w :: 32 word) < int n \<Longrightarrow> unat w < n"
proof -
  assume "uint w < int n"
  then have "int (unat w) < int n" by (simp only: uint_nat)
  then show ?thesis by (simp only: of_nat_less_iff)
qed

lemma UpdateObjectCBs_body_clean:
  "RenderItem.NumFramesDirty (mAllRitems t ! i) \<le> 0 \<Longrightarrow> UpdateObjectCBs_body k i t = Inr t"
  by (simp add: UpdateObjectCBs_body_def Let_def)

lemma UpdateMaterialCBs_body_clean:
  "snd (mMaterials t ! i) = Some m \<Longrightarrow> NumFramesDirty m \<le> 0 \<Longrightarrow>
     UpdateMaterialCBs_body k i t = Inr t"
  by (simp add: UpdateMaterialCBs_body_def Let_def)

lemma foldl_write_item_other:
  "\<forall>e \<in> set es. unat (ObjCBIndex e) \<noteq> c \<Longrightarrow> foldl write_item buf es ! c = buf ! c"
  by (induction es arbitrary: buf) (simp_all add: write_item_def)

lemma foldl_write_mat_other:
  "\<forall>m \<in> set ms. nat (MatCBIndex m) \<noteq> c \<Longrightarrow> foldl write_mat buf ms ! c = buf ! c"
  by (induction ms arbitrary: buf) (simp_all add: write_mat_def)

lemma dec_item_clean: "RenderItem.NumFramesDirty e \<le> 0 \<Longrightarrow> dec_item e = e"
  by (simp add: dec_item_def)

lemma dec_mat_clean: "snd x = Some m \<Longrightarrow> NumFramesDirty m \<le> 0 \<Longrightarrow> dec_mat x = x"
  by (cases x) (simp add: dec_mat_def)

text \<open>
  The refresh pass of a frame copies exactly the dirty render items and the dirty
  materials, each once and in the order of the lists, and the pass constants. For an
  entity whose counter is 0 the loop body does nothing, in whatever state it runs;
  the pass leaves the entity as it is, and leaves its cell of the buffer as it is
  whenever no dirty entity has the same index.
\<close>

lemma Update_refresh_clean:
  fixes s :: "('a, 'p) App"
  assumes wf: "well_formed s" and cur: "mCurrFrameResource s = Some k"
    and k: "k < length (mFrameResources s)"
  shows "Update_refresh pass s = Inr (refreshed k pass s) \<and>
    trace (refreshed k pass s) = trace s @
      map (\<lambda>e. EvCopyObject k (uint (ObjCBIndex e)))
        (filter (\<lambda>e. 0 < RenderItem.NumFramesDirty e) (mAllRitems s)) @
      map (\<lambda>m. EvCopyMaterial k (MatCBIndex m))
        (filter (\<lambda>m. 0 < NumFramesDirty m) (map (the \<circ> snd) (mMaterials s))) @
      [EvCopyPass k] \<and>
    (\<forall>i < length (mAllRitems s). RenderItem.NumFramesDirty (mAllRitems s ! i) = 0 \<longrightarrow>
       (\<forall>t :: ('a, 'p) App. RenderItem.NumFramesDirty (mAllRitems t ! i) = 0 \<longrightarrow>
            UpdateObjectCBs_body k i t = Inr t) \<and>
       mAllRitems (refreshed k pass s) ! i = mAllRitems s ! i \<and>
       ((\<forall>e \<in> set (mAllRitems s). ObjCBIndex e = ObjCBIndex (mAllRitems s ! i) \<longrightarrow>
             RenderItem.NumFramesDirty e \<le> 0) \<longrightarrow>
          ObjectCB (mFrameResources (refreshed k pass s) ! k) ! unat (ObjCBIndex (mAllRitems s ! i))
            = ObjectCB (mFrameResources s ! k) ! unat (ObjCBIndex (mAllRitems s ! i)))) \<and>
    (\<forall>i < length (mMaterials s). \<forall>m. snd (mMaterials s ! i) = Some m \<and> NumFramesDirty m = 0 \<longrightarrow>
       (\<forall>t :: ('a, 'p) App. snd (mMaterials t ! i) = Some m \<longrightarrow>
            UpdateMaterialCBs_body k i t = Inr t) \<and>
       mMaterials (refreshed k pass s) ! i = mMaterials s ! i \<and>
       ((\<forall>x \<in> set (mMaterials s). \<forall>m'. snd x = Some m' \<and> MatCBIndex m' = MatCBIndex m \<longrightarrow>
             NumFramesDirty m' \<le> 0) \<longrightarrow>
          MaterialCB (mFrameResources (refreshed k pass s) ! k) ! nat (MatCBIndex m)
            = MaterialCB (mFrameResources s ! k) ! nat (MatCBIndex m)))"
proof (intro conjI allI impI)
  show "Update_refresh pass s = Inr (refreshed k pass s)"
    by (rule Update_refresh_eq [OF wf cur k])
next
  show "trace (refreshed k pass s) = trace s @
      map (\<lambda>e. EvCopyObject k (uint (ObjCBIndex e)))
        (filter (\<lambda>e. 0 < RenderItem.NumFramesDirty e) (mAllRitems s)) @
      map (\<lambda>m. EvCopyMaterial k (MatCBIndex m))
        (filter (\<lambda>m. 0 < NumFramesDirty m) (map (the \<circ> snd) (mMaterials s))) @
      [EvCopyPass k]"
    by (simp add: refreshed_def dirty_items_def dirty_mats_def)
next
  fix i and t :: "('a, 'p) App"
  assume "RenderItem.NumFramesDirty (mAllRitems t ! i) = 0"
  then show "UpdateObjectCBs_body k i t = Inr t"
    by (simp add: UpdateObjectCBs_body_clean)
next
  fix i assume "i < length (mAllRitems s)" "RenderItem.NumFramesDirty (mAllRitems s ! i) = 0"
  then show "mAllRitems (refreshed k pass s) ! i = mAllRitems s ! i"
    by (simp add: dec_item_clean)
next
  fix i
  assume i: "i < length (mAllRitems s)"
    and same: "\<forall>e \<in> set (mAllRitems s). ObjCBIndex e = ObjCBIndex (mAllRitems s ! i) \<longrightarrow>
             RenderItem.NumFramesDirty e \<le> 0"
  have "\<forall>e \<in> set (dirty_items (mAllRitems s)).
          unat (ObjCBIndex e) \<noteq> unat (ObjCBIndex (mAllRitems s ! i))"
    using same by (auto simp: dirty_items_def word_unat_eq_iff)
  then show "ObjectCB (mFrameResources (refreshed k pass s) ! k) ! unat (ObjCBIndex (mAllRitems s ! i))
            = ObjectCB (mFrameResources s ! k) ! unat (ObjCBIndex (mAllRitems s ! i))"
    using k by (simp add: refreshed_frame_resources foldl_write_item_other)
next
  fix i m and t :: "('a, 'p) App"
  assume "snd (mMaterials s ! i) = Some m \<and> NumFramesDirty m = 0"
    "snd (mMaterials t ! i) = Some m"
  then show "UpdateMaterialCBs_body k i t = Inr t"
    by (simp add: UpdateMaterialCBs_body_clean)
next
  fix i m assume "i < length (mMaterials s)" "snd (mMaterials s ! i) = Some m \<and> NumFramesDirty m = 0"
  then show "mMaterials (refreshed k pass s) ! i = mMaterials s ! i"
    by (simp add: dec_mat_clean)
next
  fix i m
  assume i: "i < length (mMaterials s)"
    and m: "snd (mMaterials s ! i) = Some m \<and> NumFramesDirty m = 0"
    and same: "\<forall>x \<in> set (mMaterials s). \<forall>m'. snd x = Some m' \<and> MatCBIndex m' = MatCBIndex m \<longrightarrow>
             NumFramesDirty m' \<le> 0"
  have "\<forall>m' \<in> set (dirty_mats (mMaterials s)). nat (MatCBIndex m') \<noteq> nat (MatCBIndex m)"
  proof
    fix m' assume "m' \<in> set (dirty_mats (mMaterials s))"
    then obtain x where x: "x \<in> set (mMaterials s)" "m' = the (snd x)" "0 < NumFramesDirty m'"
      by (auto simp: dirty_mats_def)
    from well_formed_matD [OF wf x(1)] x(2) have sx: "snd x = Some m'" "0 \<le> MatCBIndex m'" by auto
    from well_formed_matD [OF wf nth_mem [OF i]] m have "0 \<le> MatCBIndex m" by auto
    with same x sx show "nat (MatCBIndex m') \<noteq> nat (MatCBIndex m)" by fastforce
  qed
  then show "MaterialCB (mFrameResources (refreshed k pass s) ! k) ! nat (MatCBIndex m)
            = MaterialCB (mFrameResources s ! k) ! nat (MatCBIndex m)"
    using k by (simp add: refreshed_frame_resources foldl_write_mat_other)
qed

subsection \<open>Runs of frames\<close>

lemma frame_cases:
  assumes wf: "well_formed s" and f: "frame gpu pass s = Some r"
  obtains t ws where "r = Inr (after_frame t ws pass s)" "Suc (clock s) \<le> t"
    "next_fence s = 0 \<or> next_fence s \<le> gpu t"
    "ws = [] \<and> t = Suc (clock s) \<or>
     ws = [EvWait (next_fence s)] \<and> next_fence s \<noteq> 0 \<and> gpu (Suc (clock s)) < next_fence s \<and>
       WaitForFence gpu (next_fence s) (Suc (clock s)) = Some t"
proof (cases "next_fence s \<noteq> 0 \<and> gpu (Suc (clock s)) < next_fence s")
  case True
  with f obtain t where t: "WaitForFence gpu (next_fence s) (Suc (clock s)) = Some t"
    "r = Inr (after_frame t [EvWait (next_fence s)] pass s)"
    by (auto simp: frame_eq [OF wf] split: option.splits)
  from WaitForFence_Some [OF t(1)] have "Suc (clock s) \<le> t" "next_fence s \<le> gpu t" by simp_all
  with t True show ?thesis by (intro that [of t "[EvWait (next_fence s)]"]) simp_all
next
  case False
  with f have r: "r = Inr (after_frame (Suc (clock s)) [] pass s)"
    by (auto simp: frame_eq [OF wf])
  from False have "next_fence s = 0 \<or> next_fence s \<le> gpu (Suc (clock s))" by auto
  with r show ?thesis by (intro that [of "Suc (clock s)" "[]"]) simp_all
qed

lemma frame_no_error: "well_formed s \<Longrightarrow> frame gpu pass s \<noteq> Some (Inl err)"
  by (auto elim: frame_cases)

lemma frame_returns:
  assumes wf: "well_formed s"
    and "next_fence s = 0 \<or> (\<exists>t \<ge> Suc (clock s). next_fence s \<le> gpu t)"
  shows "\<exists>t ws. frame gpu pass s = Some (Inr (after_frame t ws pass s))"
proof (cases "next_fence s \<noteq> 0 \<and> gpu (Suc (clock s)) < next_fence s")
  case True
  with assms(2) obtain t where "t \<ge> Suc (clock s)" "next_fence s \<le> gpu t" by auto
  from WaitForFence_returns [of "Suc (clock s)" t "next_fence s" gpu] this obtain u where
    "WaitForFence gpu (next_fence s) (Suc (clock s)) = Some u" by blast
  with True show ?thesis by (auto simp: frame_eq [OF wf])
next
  case False
  then show ?thesis by (auto simp: frame_eq [OF wf])
qed

lemma run_frames_no_error:
  "well_formed s \<Longrightarrow> run_frames gpu passes s \<noteq> Some (Inl err)"
proof (induction passes arbitrary: s)
  case Nil
  then show ?case by simp
next
  case (Cons p ps)
  show ?case
  proof (cases "frame gpu p s")
    case None
    then show ?thesis by simp
  next
    case (Some r)
    from frame_cases [OF Cons.prems Some] obtain t ws where r: "r = Inr (after_frame t ws p s)"
      by blast
    have "well_formed (after_frame t ws p s)" by (rule well_formed_after_frame [OF Cons.prems])
    from Cons.IH [OF this] show ?thesis by (simp add: Some r)
  qed
qed

lemma run_frames_snoc:
  "run_frames gpu (passes @ [p]) s =
     (case run_frames gpu passes s of
        None \<Rightarrow> None
      | Some (Inl err) \<Rightarrow> Some (Inl err)
      | Some (Inr s1) \<Rightarrow> frame gpu p s1)"
  by (induction passes arbitrary: s) (auto split: option.splits sum.splits)

lemma dec_item_funpow:
  "RenderItem.NumFramesDirty ((dec_item ^^ n) e) =
     (if 0 \<le> RenderItem.NumFramesDirty e then max 0 (RenderItem.NumFramesDirty e - int n)
      else RenderItem.NumFramesDirty e)"
  by (induction n) auto

lemma dec_item_funpow_simps [simp]:
  "World ((dec_item ^^ n) e) = World e"
  "TexTransform ((dec_item ^^ n) e) = TexTransform e"
  "ObjCBIndex ((dec_item ^^ n) e) = ObjCBIndex e"
  "Mat ((dec_item ^^ n) e) = Mat e"
  "Geo ((dec_item ^^ n) e) = Geo e"
  "objConstants ((dec_item ^^ n) e) = objConstants e"
  by (induction n) simp_all

text \<open>What every run of frames from a well-formed state keeps or advances.\<close>

lemma run_frames_state:
  assumes "well_formed s" "run_frames gpu passes s = Some (Inr s')"
  shows "well_formed s'"
    and "mAllRitems s' = map (dec_item ^^ length passes) (mAllRitems s)"
    and "mMaterials s' = map (dec_mat ^^ length passes) (mMaterials s)"
    and "mRitemLayer s' = mRitemLayer s"
    and "mCurrentFence s' = mCurrentFence s + of_nat (length passes)"
    and "mCurrFrameResourceIndex s' = (mCurrFrameResourceIndex s + int (length passes)) mod 3"
    and "length (mFrameResources s') = length (mFrameResources s)"
    and "clock s \<le> clock s'"
  using assms
proof (induction passes arbitrary: s' rule: rev_induct)
  case Nil
  {
    case 1 then show ?case by simp
  next
    case 2 then show ?case by simp
  next
    case 3 then show ?case by simp
  next
    case 4 then show ?case by simp
  next
    case 5 then show ?case by simp
  next
    case 6 then show ?case by (simp add: well_formed_def gNumFrameResources_def)
  next
    case 7 then show ?case by simp
  next
    case 8 then show ?case by simp
  }
next
  case (snoc p ps)
  {
    fix s' assume wf: "well_formed s" and run: "run_frames gpu (ps @ [p]) s = Some (Inr s')"
    from run obtain s1 where s1: "run_frames gpu ps s = Some (Inr s1)" "frame gpu p s1 = Some (Inr s')"
      by (auto simp: run_frames_snoc split: option.splits sum.splits)
    note ih = snoc.IH [OF wf s1(1)]
    from frame_cases [OF ih(1) s1(2)] obtain t ws where
      s': "s' = after_frame t ws p s1" and t: "Suc (clock s1) \<le> t" by blast
    have "well_formed s'" unfolding s' by (rule well_formed_after_frame [OF ih(1)])
    moreover have "mAllRitems s' = map (dec_item ^^ length (ps @ [p])) (mAllRitems s)"
      unfolding s' by (simp add: ih(2))
    moreover have "mMaterials s' = map (dec_mat ^^ length (ps @ [p])) (mMaterials s)"
      unfolding s' by (simp add: ih(3))
    moreover have "mRitemLayer s' = mRitemLayer s" unfolding s' by (simp add: ih(4))
    moreover have "mCurrentFence s' = mCurrentFence s + of_nat (length (ps @ [p]))"
      unfolding s' by (simp add: ih(5))
    moreover have "mCurrFrameResourceIndex s' =
        (mCurrFrameResourceIndex s + int (length (ps @ [p]))) mod 3"
    proof -
      have "mCurrFrameResourceIndex s' = (mCurrFrameResourceIndex s1 + 1) mod 3"
        unfolding s' using next_index_range(4) [OF ih(1)] by simp
      also have "\<dots> = (mCurrFrameResourceIndex s + int (length ps) + 1) mod 3"
        unfolding ih(6) by (simp add: mod_simps)
      finally show ?thesis by (simp add: algebra_simps)
    qed
    moreover have "length (mFrameResources s') = length (mFrameResources s)"
      unfolding s' by (simp add: ih(7))
    moreover have "clock s \<le> clock s'" unfolding s' using t ih(8) by simp
    ultimately have "well_formed s' \<and>
      mAllRitems s' = map (dec_item ^^ length (ps @ [p])) (mAllRitems s) \<and>
      mMaterials s' = map (dec_mat ^^ length (ps @ [p])) (mMaterials s) \<and>
      mRitemLayer s' = mRitemLayer s \<and>
      mCurrentFence s' = mCurrentFence s + of_nat (length (ps @ [p])) \<and>
      mCurrFrameResourceIndex s' = (mCurrFrameResourceIndex s + int (length (ps @ [p]))) mod 3 \<and>
      length (mFrameResources s') = length (mFrameResources s) \<and> clock s \<le> clock s'"
      by blast
  } note step = this
  {
    case 1 from step [OF 1] show ?case by blast
  next
    case 2 from step [OF 2] show ?case by blast
  next
    case 3 from step [OF 3] show ?case by blast
  next
    case 4 from step [OF 4] show ?case by blast
  next
    case 5 from step [OF 5] show ?case by blast
  next
    case 6 from step [OF 6] show ?case by blast
  next
    case 7 from step [OF 7] show ?case by blast
  next
    case 8 from step [OF 8] show ?case by blast
  }
qed

subsection \<open>The dirty counter\<close>

lemmas eval_defs = run_frames.simps frame_def Update_def Update_cycle_def Update_refresh_def
  AnimateMaterials_def UpdateObjectCBs_def UpdateObjectCBs_body_def UpdateMaterialCBs_def
  UpdateMaterialCBs_body_def UpdateMainPassCB_def CopyData_def Draw_def Let_def
  ex_app_def ex_item_def ex_mat_def RenderItem_default_def FrameResource_new_def
  gNumFrameResources_def SwapChainBufferCount_def smod_int_alt_def sgn_if upt_rec
  numeral_2_eq_2 numeral_3_eq_3 WaitForFence.simps

lemma dec_mat_funpow:
  "snd x = Some m \<Longrightarrow>
     \<exists>m'. (dec_mat ^^ n) x = (fst x, Some m') \<and> MatCBIndex m' = MatCBIndex m \<and>
       matConstants m' = matConstants m \<and>
       NumFramesDirty m' =
         (if 0 \<le> NumFramesDirty m then max 0 (NumFramesDirty m - int n) else NumFramesDirty m)"
proof (induction n)
  case 0
  then show ?case by (cases x) simp
next
  case (Suc n)
  then obtain m' where m': "(dec_mat ^^ n) x = (fst x, Some m')" "MatCBIndex m' = MatCBIndex m"
    "matConstants m' = matConstants m"
    "NumFramesDirty m' =
         (if 0 \<le> NumFramesDirty m then max 0 (NumFramesDirty m - int n) else NumFramesDirty m)"
    by blast
  have step: "(dec_mat ^^ Suc n) x = dec_mat (fst x, Some m')" using m'(1) by simp
  have d: "dec_mat (fst x, Some m') =
      (fst x, Some (if 0 < NumFramesDirty m' then m'\<lparr>NumFramesDirty := NumFramesDirty m' - 1\<rparr>
                    else m'))"
    by (simp add: dec_mat_def)
  show ?case unfolding step d using m'(2-4)
    by (cases "0 < NumFramesDirty m'") (auto simp: matConstants_def split: if_splits)
qed

lemma AnimateMaterials_Lab5_marks:
  assumes "AnimateMaterials_Lab5 scroll t = Inr t'"
  shows "\<exists>j m. j < length (mMaterials t) \<and> mMaterials t ! j = (''water'', Some m) \<and>
           mMaterials t' = (mMaterials t)
             [j := (''water'', Some (m\<lparr>MatTransform := scroll (MatTransform m),
                                        NumFramesDirty := gNumFrameResources\<rparr>))]"
proof -
  from assms obtain j where j: "find (\<lambda>i. fst (mMaterials t ! i) = ''water'') [0..<length (mMaterials t)] = Some j"
    by (auto simp: AnimateMaterials_Lab5_def split: option.splits)
  then have jl: "j < length (mMaterials t)" "fst (mMaterials t ! j) = ''water''"
    by (auto simp: find_Some_iff)
  from assms j obtain m where m: "snd (mMaterials t ! j) = Some m"
    by (auto simp: AnimateMaterials_Lab5_def split: option.splits)
  with jl have "mMaterials t ! j = (''water'', Some m)" by (simp add: prod_eq_iff)
  moreover from assms j m have "mMaterials t' = (mMaterials t)
             [j := (''water'', Some (m\<lparr>MatTransform := scroll (MatTransform m),
                                        NumFramesDirty := gNumFrameResources\<rparr>))]"
    by (auto simp: AnimateMaterials_Lab5_def)
  ultimately show ?thesis using jl by blast
qed

text \<open>
  C5. A render item is constructed with \<open>NumFramesDirty = gNumFrameResources\<close>, and the
  one function that changes authoritative constant data after construction,
  \<open>AnimateMaterials\<close> of Lab 5, sets the counter of what it changes to
  \<open>gNumFrameResources\<close>. Every frame takes exactly one off a positive counter (the
  frame in which the constants are copied) and leaves any other counter alone; a
  counter that is not negative never becomes negative; and a counter set to
  \<open>gNumFrameResources\<close> is \<open>gNumFrameResources - n\<close> after \<open>n\<close> frames, so it is 0
  exactly from the third frame on.
\<close>

theorem dirty_counter_counts_down:
  fixes s :: "('a::{zero,one}, 'p) App"
  assumes wf: "well_formed s" and run: "run_frames gpu passes s = Some (Inr s')"
    and i: "i < length (mAllRitems s)"
  shows "RenderItem.NumFramesDirty (RenderItem_default :: 'a RenderItem) = gNumFrameResources \<and>
    (\<forall>scroll (t :: ('a, 'p) App) t'. AnimateMaterials_Lab5 scroll t = Inr t' \<longrightarrow>
       (\<exists>j m. j < length (mMaterials t') \<and> mMaterials t' ! j = (''water'', Some m) \<and>
              NumFramesDirty m = gNumFrameResources)) \<and>
    (\<forall>pass s1. frame gpu pass s = Some (Inr s1) \<longrightarrow>
       RenderItem.NumFramesDirty (mAllRitems s1 ! i) =
         (if 0 < RenderItem.NumFramesDirty (mAllRitems s ! i)
          then RenderItem.NumFramesDirty (mAllRitems s ! i) - 1
          else RenderItem.NumFramesDirty (mAllRitems s ! i)) \<and>
       (0 < RenderItem.NumFramesDirty (mAllRitems s ! i) \<longrightarrow>
          EvCopyObject (nat (next_index s)) (uint (ObjCBIndex (mAllRitems s ! i)))
            \<in> set (drop (length (trace s)) (trace s1)))) \<and>
    (0 \<le> RenderItem.NumFramesDirty (mAllRitems s ! i) \<longrightarrow>
       0 \<le> RenderItem.NumFramesDirty (mAllRitems s' ! i)) \<and>
    (RenderItem.NumFramesDirty (mAllRitems s ! i) = gNumFrameResources \<longrightarrow>
       RenderItem.NumFramesDirty (mAllRitems s' ! i) = max 0 (gNumFrameResources - int (length passes)) \<and>
       (RenderItem.NumFramesDirty (mAllRitems s' ! i) = 0 \<longleftrightarrow> 3 \<le> length passes))"
proof (intro conjI allI impI)
  show "RenderItem.NumFramesDirty (RenderItem_default :: 'a RenderItem) = gNumFrameResources"
    by (simp add: RenderItem_default_def)
next
  fix scroll and t t' :: "('a, 'p) App"
  assume "AnimateMaterials_Lab5 scroll t = Inr t'"
  from AnimateMaterials_Lab5_marks [OF this] show "\<exists>j m. j < length (mMaterials t') \<and>
      mMaterials t' ! j = (''water'', Some m) \<and> NumFramesDirty m = gNumFrameResources"
    by (metis (no_types, lifting) Material.select_convs(4) Material.surjective
        Material.update_convs(4) length_list_update nth_list_update_eq)
next
  fix pass s1 assume f: "frame gpu pass s = Some (Inr s1)"
  from frame_cases [OF wf f] obtain t ws where s1: "s1 = after_frame t ws pass s" by blast
  show "RenderItem.NumFramesDirty (mAllRitems s1 ! i) =
         (if 0 < RenderItem.NumFramesDirty (mAllRitems s ! i)
          then RenderItem.NumFramesDirty (mAllRitems s ! i) - 1
          else RenderItem.NumFramesDirty (mAllRitems s ! i))"
    unfolding s1 using i by simp
next
  fix pass s1 assume f: "frame gpu pass s = Some (Inr s1)"
  from frame_cases [OF wf f] obtain t ws where s1: "s1 = after_frame t ws pass s"
    by blast
  have e: "mAllRitems s ! i \<in> set (mAllRitems s)" using i by simp
  assume "0 < RenderItem.NumFramesDirty (mAllRitems s ! i)"
  with e have "mAllRitems s ! i \<in> set (dirty_items (mAllRitems s))"
    by (simp add: dirty_items_def)
  then show "EvCopyObject (nat (next_index s)) (uint (ObjCBIndex (mAllRitems s ! i)))
            \<in> set (drop (length (trace s)) (trace s1))"
    unfolding s1 after_frame_trace [OF next_index_range(3) [OF wf]] by auto
next
  assume "0 \<le> RenderItem.NumFramesDirty (mAllRitems s ! i)"
  then show "0 \<le> RenderItem.NumFramesDirty (mAllRitems s' ! i)"
    using i by (simp add: run_frames_state(2) [OF wf run] dec_item_funpow)
next
  assume "RenderItem.NumFramesDirty (mAllRitems s ! i) = gNumFrameResources"
  then show "RenderItem.NumFramesDirty (mAllRitems s' ! i) = max 0 (gNumFrameResources - int (length passes))"
    using i by (simp add: run_frames_state(2) [OF wf run] dec_item_funpow gNumFrameResources_def)
next
  assume "RenderItem.NumFramesDirty (mAllRitems s ! i) = gNumFrameResources"
  then show "RenderItem.NumFramesDirty (mAllRitems s' ! i) = 0 \<longleftrightarrow> 3 \<le> length passes"
    using i by (auto simp: run_frames_state(2) [OF wf run] dec_item_funpow gNumFrameResources_def)
qed

theorem dirty_counter_counts_down_witness:
  "well_formed (ex_app 3 0) \<and>
   (\<exists>s'. run_frames (\<lambda>t. 0) [7, 7, 7] (ex_app 3 0) = Some (Inr s') \<and>
      RenderItem.NumFramesDirty (mAllRitems s' ! 0) = 0 \<and>
      RenderItem.NumFramesDirty (mAllRitems s' ! 1) = 0)"
proof -
  have wf: "well_formed (ex_app 3 0)" by (rule well_formed_ex_app)
  obtain s' where run: "run_frames (\<lambda>t. 0) [7, 7, 7] (ex_app 3 0) = Some (Inr s')"
    by (simp add: eval_defs)
  have i: "0 < length (mAllRitems (ex_app 3 0))" "1 < length (mAllRitems (ex_app 3 0))"
    by (simp_all add: ex_app_def)
  have n: "RenderItem.NumFramesDirty (mAllRitems (ex_app 3 0) ! 0) = gNumFrameResources"
    "0 \<le> RenderItem.NumFramesDirty (mAllRitems (ex_app 3 0) ! 1)"
    "RenderItem.NumFramesDirty (mAllRitems (ex_app 3 0) ! 1) = 0"
    by (simp_all add: ex_app_def ex_item_def RenderItem_default_def gNumFrameResources_def)
  from dirty_counter_counts_down [OF wf run i(1)] n(1)
  have "RenderItem.NumFramesDirty (mAllRitems s' ! 0) = 0" by simp
  moreover have "RenderItem.NumFramesDirty (mAllRitems s' ! 1) = 0"
    using i(2) n(3) by (simp add: run_frames_state(2) [OF wf run] dec_item_funpow)
  ultimately show ?thesis using wf run by blast
qed

subsection \<open>Acquiring a frame resource\<close>

lemma after_frame_waits:
  assumes "nat (next_index s) < length (mFrameResources s)"
  shows "filter is_wait (trace (after_frame t ws pass s)) = filter is_wait (trace s @ ws)"
  unfolding after_frame_trace [OF assms] by (simp add: filter_empty_conv)

text \<open>
  C3. The index of the current frame resource advances by one modulo
  \<open>gNumFrameResources\<close>. With \<open>next_fence s\<close> the fence value of the frame resource so
  selected: when it is 0 or the device has completed it, the acquire returns at once,
  without a wait; otherwise it waits, returns if and only if the device ever reaches
  that value, and then returns at the first instant at which the completed value has
  reached it. The rest of the frame neither waits nor fails to return.
\<close>

theorem acquire_waits_exactly_for_fence:
  fixes s :: "('a, 'p) App"
  assumes wf: "well_formed s"
  shows "(\<forall>s1. Update_cycle gpu s = Some (Inr s1) \<longrightarrow>
       mCurrFrameResourceIndex s1 = (mCurrFrameResourceIndex s + 1) mod gNumFrameResources \<and>
       mCurrFrameResource s1 = Some (nat (mCurrFrameResourceIndex s1)) \<and>
       next_fence s = Fence (mFrameResources s ! nat (mCurrFrameResourceIndex s1)) \<and>
       (next_fence s = 0 \<or> next_fence s \<le> gpu (clock s1))) \<and>
    (next_fence s = 0 \<or> next_fence s \<le> gpu (Suc (clock s)) \<longrightarrow>
       (\<exists>s1. Update_cycle gpu s = Some (Inr s1) \<and> trace s1 = trace s \<and>
             clock s1 = Suc (clock s))) \<and>
    (next_fence s \<noteq> 0 \<and> gpu (Suc (clock s)) < next_fence s \<longrightarrow>
       (Update_cycle gpu s = None \<longleftrightarrow> (\<forall>t \<ge> Suc (clock s). gpu t < next_fence s)) \<and>
       (\<forall>s1. Update_cycle gpu s = Some (Inr s1) \<longrightarrow>
          trace s1 = trace s @ [EvWait (next_fence s)] \<and>
          Suc (clock s) < clock s1 \<and> next_fence s \<le> gpu (clock s1) \<and>
          (\<forall>u. Suc (clock s) \<le> u \<and> u < clock s1 \<longrightarrow> gpu u < next_fence s))) \<and>
    (\<forall>pass. (frame gpu pass s = None \<longleftrightarrow> Update_cycle gpu s = None) \<and>
       (\<forall>s1 s2. Update_cycle gpu s = Some (Inr s1) \<and> frame gpu pass s = Some (Inr s2) \<longrightarrow>
          filter is_wait (trace s2) = filter is_wait (trace s1) \<and> clock s2 = clock s1))"
proof -
  note uc = Update_cycle_eq [OF wf, of gpu]
  note ni = next_index_range [OF wf]
  have idx: "next_index s = (mCurrFrameResourceIndex s + 1) mod gNumFrameResources"
    using ni(4) by (simp add: gNumFrameResources_def)
  have 1: "mCurrFrameResourceIndex s1 = (mCurrFrameResourceIndex s + 1) mod gNumFrameResources \<and>
       mCurrFrameResource s1 = Some (nat (mCurrFrameResourceIndex s1)) \<and>
       next_fence s = Fence (mFrameResources s ! nat (mCurrFrameResourceIndex s1)) \<and>
       (next_fence s = 0 \<or> next_fence s \<le> gpu (clock s1))"
    if "Update_cycle gpu s = Some (Inr s1)" for s1
  proof (cases "next_fence s \<noteq> 0 \<and> gpu (Suc (clock s)) < next_fence s")
    case True
    with that obtain t where t: "WaitForFence gpu (next_fence s) (Suc (clock s)) = Some t"
      "s1 = cycled t [EvWait (next_fence s)] s"
      by (auto simp: uc split: option.splits)
    from WaitForFence_Some [OF t(1)] t(2) idx show ?thesis by (simp add: next_fence_def)
  next
    case False
    with that have "s1 = cycled (Suc (clock s)) [] s" by (auto simp: uc)
    with False idx show ?thesis by (auto simp: next_fence_def)
  qed
  have 2: "\<exists>s1. Update_cycle gpu s = Some (Inr s1) \<and> trace s1 = trace s \<and> clock s1 = Suc (clock s)"
    if "next_fence s = 0 \<or> next_fence s \<le> gpu (Suc (clock s))"
  proof -
    from that have "\<not> (next_fence s \<noteq> 0 \<and> gpu (Suc (clock s)) < next_fence s)" by auto
    then have "Update_cycle gpu s = Some (Inr (cycled (Suc (clock s)) [] s))"
      unfolding uc by (simp only: if_False)
    then show ?thesis by simp
  qed
  have 3: "(Update_cycle gpu s = None \<longleftrightarrow> (\<forall>t \<ge> Suc (clock s). gpu t < next_fence s)) \<and>
       (\<forall>s1. Update_cycle gpu s = Some (Inr s1) \<longrightarrow>
          trace s1 = trace s @ [EvWait (next_fence s)] \<and>
          Suc (clock s) < clock s1 \<and> next_fence s \<le> gpu (clock s1) \<and>
          (\<forall>u. Suc (clock s) \<le> u \<and> u < clock s1 \<longrightarrow> gpu u < next_fence s))"
    if w: "next_fence s \<noteq> 0 \<and> gpu (Suc (clock s)) < next_fence s"
  proof (intro conjI allI impI)
    show "Update_cycle gpu s = None \<longleftrightarrow> (\<forall>t \<ge> Suc (clock s). gpu t < next_fence s)"
      using w by (simp add: uc WaitForFence_None [symmetric] split: option.splits)
  next
    fix s1 assume "Update_cycle gpu s = Some (Inr s1)"
    with w obtain t where t: "WaitForFence gpu (next_fence s) (Suc (clock s)) = Some t"
      "s1 = cycled t [EvWait (next_fence s)] s"
      by (auto simp: uc split: option.splits)
    note ws = WaitForFence_Some [OF t(1)]
    show "trace s1 = trace s @ [EvWait (next_fence s)]" by (simp add: t(2))
    show "next_fence s \<le> gpu (clock s1)" using ws by (simp add: t(2))
    show "Suc (clock s) < clock s1"
    proof (rule ccontr)
      assume "\<not> Suc (clock s) < clock s1"
      with ws have "t = Suc (clock s)" by (simp add: t(2))
      with ws w have "next_fence s \<le> gpu (Suc (clock s))" "gpu (Suc (clock s)) < next_fence s"
        by simp_all
      then show False using leD by blast
    qed
    fix u assume "Suc (clock s) \<le> u \<and> u < clock s1"
    with ws show "gpu u < next_fence s" by (simp add: t(2))
  qed
  have 4: "(frame gpu pass s = None \<longleftrightarrow> Update_cycle gpu s = None) \<and>
       (\<forall>s1 s2. Update_cycle gpu s = Some (Inr s1) \<and> frame gpu pass s = Some (Inr s2) \<longrightarrow>
          filter is_wait (trace s2) = filter is_wait (trace s1) \<and> clock s2 = clock s1)" for pass
    by (auto simp: frame_eq [OF wf] uc after_frame_waits [OF ni(3)] split: option.splits)
  from 1 2 3 4 show ?thesis by blast
qed

lemma well_formed_ex_busy: "well_formed ex_busy"
  by (simp add: well_formed_def ex_busy_def ex_app_def ex_item_def ex_mat_def
      RenderItem_default_def FrameResource_new_def gNumFrameResources_def)

theorem acquire_waits_exactly_for_fence_witness:
  "well_formed ex_busy \<and> next_fence ex_busy = 1 \<and>
   (\<exists>s1. Update_cycle (\<lambda>t. if t < 9 then 0 else 1) ex_busy = Some (Inr s1) \<and>
      mCurrFrameResourceIndex s1 = 1 \<and> trace s1 = [EvWait 1] \<and> clock s1 = 9)"
proof -
  let ?gpu = "\<lambda>t::nat. if t < 9 then 0 else 1 :: 64 word"
  have nf: "next_fence ex_busy = 1"
    by (simp add: next_fence_def next_index_def ex_busy_def ex_app_def gNumFrameResources_def
        smod_int_alt_def sgn_if FrameResource_new_def)
  obtain s1 where s1: "Update_cycle ?gpu ex_busy = Some (Inr s1)" and c: "clock s1 = 9"
    by (simp add: Update_cycle_def Let_def ex_busy_def ex_app_def gNumFrameResources_def
        smod_int_alt_def sgn_if FrameResource_new_def WaitForFence.simps)
  have w: "next_fence ex_busy \<noteq> 0 \<and> ?gpu (Suc (clock ex_busy)) < next_fence ex_busy"
    by (simp add: nf) (simp add: ex_busy_def)
  from acquire_waits_exactly_for_fence [OF well_formed_ex_busy, of ?gpu] s1 w
  have "mCurrFrameResourceIndex s1 = (mCurrFrameResourceIndex ex_busy + 1) mod gNumFrameResources"
    "trace s1 = trace ex_busy @ [EvWait (next_fence ex_busy)]"
    by blast+
  then have "mCurrFrameResourceIndex s1 = 1" "trace s1 = [EvWait 1]"
    by (simp_all add: nf) (simp_all add: ex_busy_def ex_app_def gNumFrameResources_def)
  with s1 c nf well_formed_ex_busy show ?thesis by blast
qed

subsection \<open>Fence values along a run from the initial state\<close>

lemma unat_add_of_nat:
  assumes "unat (c :: 64 word) + n < 2 ^ 64"
  shows "unat (c + of_nat n) = unat c + n"
proof -
  from assms have n: "n < 2 ^ 64" by simp
  then have "unat (of_nat n :: 64 word) = n" by (simp add: unat_of_nat)
  with assms have "unat c + unat (of_nat n :: 64 word) < 2 ^ LENGTH(64)" by simp
  then have "unat (c + of_nat n) = unat c + unat (of_nat n :: 64 word)"
    by (simp only: unat_add_lem)
  with \<open>unat (of_nat n :: 64 word) = n\<close> show ?thesis by simp
qed


lemma add_of_nat_less:
  assumes "unat (c :: 64 word) + n < 2 ^ 64" "m < n"
  shows "c + of_nat m < c + of_nat n"
  using assms by (simp add: word_less_nat_alt unat_add_of_nat)

lemma add_of_nat_neq_0:
  assumes "unat (c :: 64 word) + n < 2 ^ 64" "0 < n"
  shows "c + of_nat n \<noteq> 0"
proof
  assume "c + of_nat n = 0"
  then have "unat (c + of_nat n) = 0" by simp
  with assms show False by (simp add: unat_add_of_nat)
qed

lemma slot_fence_next:
  "slot_fence c n (Suc n mod 3) = (if 3 \<le> n then c + of_nat (n - 2) else 0)"
proof (cases "3 \<le> n")
  case True
  then obtain k where n: "n = Suc (Suc (Suc k))" by (metis add_2_eq_Suc' le_Suc_ex numeral_3_eq_3 add_Suc)
  have "Suc (Suc (Suc k)) mod 3 \<noteq> Suc n mod 3" "Suc (Suc k) mod 3 \<noteq> Suc n mod 3"
    "Suc k mod 3 = Suc n mod 3"
    unfolding n by presburger+
  then show ?thesis using True by (simp add: n)
next
  case False
  then consider "n = 0" | "n = 1" | "n = 2" by linarith
  then show ?thesis by cases (simp_all add: numeral_2_eq_2)
qed

lemma slot_fence_zero_iff:
  assumes "unat c + n < 2 ^ 64"
  shows "slot_fence c n j = 0 \<longleftrightarrow> j \<notin> set (map (\<lambda>m. m mod 3) [1..<Suc n])"
  using assms
proof (induction n)
  case 0
  then show ?case by simp
next
  case (Suc n)
  then have ih: "slot_fence c n j = 0 \<longleftrightarrow> j \<notin> set (map (\<lambda>m. m mod 3) [1..<Suc n])" by simp
  show ?case
  proof (cases "Suc n mod 3 = j")
    case True
    with add_of_nat_neq_0 [OF Suc.prems] show ?thesis by auto
  next
    case False
    with ih show ?thesis by auto
  qed
qed

lemma signalled_append [simp]: "signalled (xs @ ys) = signalled xs @ signalled ys"
  by (induction xs rule: signalled.induct) simp_all

lemma executed_append [simp]: "executed (xs @ ys) = executed xs @ executed ys"
  by (induction xs rule: executed.induct) simp_all

lemma signalled_copy_objects [simp]: "signalled (map (\<lambda>e. EvCopyObject k (f e)) es) = []"
  by (induction es) simp_all

lemma signalled_copy_materials [simp]: "signalled (map (\<lambda>m. EvCopyMaterial k (g m)) ms) = []"
  by (induction ms) simp_all

lemma executed_copy_objects [simp]: "executed (map (\<lambda>e. EvCopyObject k (f e)) es) = []"
  by (induction es) simp_all

lemma executed_copy_materials [simp]: "executed (map (\<lambda>m. EvCopyMaterial k (g m)) ms) = []"
  by (induction ms) simp_all

lemma after_frame_signalled:
  assumes "nat (next_index s) < length (mFrameResources s)"
    "ws = [] \<or> ws = [EvWait f]"
  shows "signalled (trace (after_frame t ws pass s)) = signalled (trace s) @ [mCurrentFence s + 1]"
    and "executed (trace (after_frame t ws pass s)) = executed (trace s) @ [nat (next_index s)]"
  unfolding after_frame_trace [OF assms(1)] using assms(2) by auto

lemma next_slot_arith: "nat ((int n mod 3 + 1) mod 3) = Suc n mod 3"
proof -
  have "int (Suc n mod 3) = (int n + 1) mod 3" by (simp add: zmod_int add.commute)
  also have "\<dots> = (int n mod 3 + 1) mod 3" by (simp add: mod_simps)
  finally have "(int n mod 3 + 1) mod 3 = int (Suc n mod 3)" by simp
  then show ?thesis by simp
qed

lemma initial_next_index:
  assumes init: "initial s0" and run: "run_frames gpu passes s0 = Some (Inr s)"
  shows "nat (next_index s) = Suc (length passes) mod 3"
proof -
  from init have wf0: "well_formed s0" and i0: "mCurrFrameResourceIndex s0 = 0"
    by (simp_all add: initial_def)
  note st = run_frames_state [OF wf0 run]
  have "next_index s = (mCurrFrameResourceIndex s + 1) mod 3" by (rule next_index_range(4) [OF st(1)])
  then show ?thesis by (simp add: st(6) i0 next_slot_arith)
qed

lemma initial_run:
  assumes init: "initial s0" and run: "run_frames gpu passes s0 = Some (Inr s)"
  shows "\<forall>j<3. Fence (mFrameResources s ! j) = slot_fence (mCurrentFence s0) (length passes) j"
    and "signalled (trace s) = map (\<lambda>m. mCurrentFence s0 + of_nat m) [1..<Suc (length passes)]"
    and "executed (trace s) = map (\<lambda>m. m mod 3) [1..<Suc (length passes)]"
  using run
proof (induction passes arbitrary: s rule: rev_induct)
  case Nil
  from init have l: "length (mFrameResources s0) = 3" "\<forall>fr \<in> set (mFrameResources s0). Fence fr = 0"
    "trace s0 = []"
    by (simp_all add: initial_def well_formed_def gNumFrameResources_def list_all_iff)
  {
    case 1 with l show ?case by simp
  next
    case 2 with l show ?case by simp
  next
    case 3 with l show ?case by simp
  }
next
  case (snoc p ps)
  from init have wf0: "well_formed s0" by (simp add: initial_def)
  {
    fix s assume run: "run_frames gpu (ps @ [p]) s0 = Some (Inr s)"
    from run obtain s1 where s1: "run_frames gpu ps s0 = Some (Inr s1)" "frame gpu p s1 = Some (Inr s)"
      by (auto simp: run_frames_snoc split: option.splits sum.splits)
    note ih = snoc.IH [OF s1(1)]
    note st = run_frames_state [OF wf0 s1(1)]
    from frame_cases [OF st(1) s1(2)] obtain t ws where
      s: "s = after_frame t ws p s1" and ws: "ws = [] \<or> ws = [EvWait (next_fence s1)]" by blast
    have k: "nat (next_index s1) = Suc (length ps) mod 3" by (rule initial_next_index [OF init s1(1)])
    have kl: "nat (next_index s1) < length (mFrameResources s1)" by (rule next_index_range(3) [OF st(1)])
    have "\<forall>j<3. Fence (mFrameResources s ! j) = slot_fence (mCurrentFence s0) (length (ps @ [p])) j"
    proof (intro allI impI)
      fix j :: nat assume "j < 3"
      show "Fence (mFrameResources s ! j) = slot_fence (mCurrentFence s0) (length (ps @ [p])) j"
      proof (cases "j = nat (next_index s1)")
        case True
        have "Fence (mFrameResources (after_frame t ws p s1) ! nat (next_index s1)) =
            mCurrentFence s1 + 1"
          by (rule after_frame_current(1) [OF kl])
        then show ?thesis unfolding s True using k
          by (simp add: st(5) add.assoc)
      next
        case False
        then show ?thesis unfolding s using k ih(1) \<open>j < 3\<close>
          by (simp add: after_frame_other)
      qed
    qed
    moreover have "signalled (trace s) =
        map (\<lambda>m. mCurrentFence s0 + of_nat m) [1..<Suc (length (ps @ [p]))]"
      unfolding s using after_frame_signalled(1) [OF kl ws]
      by (simp add: ih(2) st(5) add.assoc)
    moreover have "executed (trace s) = map (\<lambda>m. m mod 3) [1..<Suc (length (ps @ [p]))]"
      unfolding s using after_frame_signalled(2) [OF kl ws]
      by (simp add: ih(3) k)
    ultimately have "(\<forall>j<3. Fence (mFrameResources s ! j) =
         slot_fence (mCurrentFence s0) (length (ps @ [p])) j) \<and>
      signalled (trace s) = map (\<lambda>m. mCurrentFence s0 + of_nat m) [1..<Suc (length (ps @ [p]))] \<and>
      executed (trace s) = map (\<lambda>m. m mod 3) [1..<Suc (length (ps @ [p]))]"
      by blast
  } note step = this
  {
    case 1 from step [OF 1] show ?case by blast
  next
    case 2 from step [OF 2] show ?case by blast
  next
    case 3 from step [OF 3] show ?case by blast
  }
qed


subsection \<open>Fence bookkeeping\<close>

lemma initial_ex_init: "initial ex_init"
  by (simp add: initial_def well_formed_def ex_init_def ex_app_def ex_item_def ex_mat_def
      RenderItem_default_def FrameResource_new_def gNumFrameResources_def)

lemma after_frame_last_signal:
  assumes "nat (next_index s) < length (mFrameResources s)"
  shows "\<exists>evs. trace (after_frame t ws pass s) = evs @ [EvSignal (mCurrentFence s + 1)]"
  unfolding after_frame_trace [OF assms]
  by (metis append.assoc append_Cons append_Nil)

text \<open>
  C8. Every frame adds exactly 1 to the fence counter, stores the new value as the
  fence value of the frame resource it used, and signals that value last; the fence
  values of the other frame resources stay. Along a run from the initial state, as
  long as the 64-bit counter has not wrapped around, the \<open>m\<close>-th frame signals the
  initial counter plus \<open>m\<close>, so the signalled values increase strictly, and the fence
  value of a frame resource is 0 exactly when no frame has submitted it.
\<close>

theorem fence_advances_by_one:
  fixes s0 :: "('a, 'p) App"
  assumes init: "initial s0" and run: "run_frames gpu passes s0 = Some (Inr s)"
    and nowrap: "unat (mCurrentFence s0) + length passes < 2 ^ 64"
  shows "(\<forall>pass s'. frame gpu pass s = Some (Inr s') \<longrightarrow>
       mCurrentFence s' = mCurrentFence s + 1 \<and>
       Fence (mFrameResources s' ! nat (mCurrFrameResourceIndex s')) = mCurrentFence s' \<and>
       (\<exists>evs. trace s' = evs @ [EvSignal (mCurrentFence s')]) \<and>
       (\<forall>j. j \<noteq> nat (mCurrFrameResourceIndex s') \<longrightarrow>
            Fence (mFrameResources s' ! j) = Fence (mFrameResources s ! j))) \<and>
    unat (mCurrentFence s) = unat (mCurrentFence s0) + length passes \<and>
    signalled (trace s) = map (\<lambda>m. mCurrentFence s0 + of_nat m) [1..<Suc (length passes)] \<and>
    sorted_wrt (<) (signalled (trace s)) \<and>
    (\<forall>j<3. Fence (mFrameResources s ! j) = 0 \<longleftrightarrow> j \<notin> set (executed (trace s)))"
proof -
  from init have wf0: "well_formed s0" by (simp add: initial_def)
  note st = run_frames_state [OF wf0 run]
  note ir = initial_run [OF init run]
  have 1: "mCurrentFence s' = mCurrentFence s + 1 \<and>
       Fence (mFrameResources s' ! nat (mCurrFrameResourceIndex s')) = mCurrentFence s' \<and>
       (\<exists>evs. trace s' = evs @ [EvSignal (mCurrentFence s')]) \<and>
       (\<forall>j. j \<noteq> nat (mCurrFrameResourceIndex s') \<longrightarrow>
            Fence (mFrameResources s' ! j) = Fence (mFrameResources s ! j))"
    if "frame gpu pass s = Some (Inr s')" for pass s'
  proof -
    from frame_cases [OF st(1) that] obtain t ws where s': "s' = after_frame t ws pass s" by blast
    note kl = next_index_range(3) [OF st(1)]
    show ?thesis unfolding s'
      using after_frame_last_signal [OF kl, of t ws pass]
      by (simp add: after_frame_current(1) [OF kl] after_frame_other)
  qed
  have 2: "unat (mCurrentFence s) = unat (mCurrentFence s0) + length passes"
    unfolding st(5) by (rule unat_add_of_nat [OF nowrap])
  have 4: "sorted_wrt (<) (signalled (trace s))"
  proof -
    have "sorted_wrt (\<lambda>x y. mCurrentFence s0 + of_nat x < mCurrentFence s0 + (of_nat y :: 64 word))
            [1..<Suc (length passes)]"
    proof (rule sorted_wrt_mono_rel [of _ "(<)"])
      fix x y assume "x \<in> set [1..<Suc (length passes)]" "y \<in> set [1..<Suc (length passes)]" "x < y"
      then have "y \<le> length passes" by auto
      with nowrap have "unat (mCurrentFence s0) + y < 2 ^ 64" by linarith
      from add_of_nat_less [OF this \<open>x < y\<close>]
      show "mCurrentFence s0 + of_nat x < mCurrentFence s0 + (of_nat y :: 64 word)" .
    qed (rule sorted_wrt_upt)
    then show ?thesis unfolding ir(2) sorted_wrt_map .
  qed
  have 5: "\<forall>j<3. Fence (mFrameResources s ! j) = 0 \<longleftrightarrow> j \<notin> set (executed (trace s))"
    using ir(1) slot_fence_zero_iff [OF nowrap] by (simp add: ir(3))
  from 1 2 ir(2) 4 5 show ?thesis by blast
qed

theorem fence_advances_by_one_witness:
  "initial ex_init \<and> unat (mCurrentFence ex_init) + length [7 :: nat, 7] < 2 ^ 64 \<and>
   (\<exists>s. run_frames (\<lambda>t. 0) [7, 7] ex_init = Some (Inr s) \<and>
      signalled (trace s) = [6, 7] \<and> mCurrentFence s = 7 \<and> executed (trace s) = [1, 2] \<and>
      Fence (mFrameResources s ! 0) = 0)"
proof -
  have nw: "unat (mCurrentFence ex_init) + length [7 :: nat, 7] < 2 ^ 64"
    by (simp add: ex_init_def ex_app_def)
  obtain s where run: "run_frames (\<lambda>t. 0) [7, 7] ex_init = Some (Inr s)"
    and ev: "mCurrentFence s = 7" "executed (trace s) = [1, 2]"
    by (simp add: eval_defs ex_init_def)
  note th = fence_advances_by_one [OF initial_ex_init run nw]
  from th have "signalled (trace s) = map (\<lambda>m. mCurrentFence ex_init + of_nat m) [1..<Suc (length [7 :: nat, 7])]"
    by blast
  then have sg: "signalled (trace s) = [6, 7]"
    by (simp add: ex_init_def ex_app_def upt_rec)
  from th have "\<forall>j<3. Fence (mFrameResources s ! j) = 0 \<longleftrightarrow> j \<notin> set (executed (trace s))"
    by blast
  then have "Fence (mFrameResources s ! 0) = 0" by (simp add: ev)
  with run sg ev nw initial_ex_init show ?thesis by blast
qed

lemma Update_cycle_cases:
  assumes wf: "well_formed s" and f: "Update_cycle gpu s = Some r"
  obtains t ws where "r = Inr (cycled t ws s)" "Suc (clock s) \<le> t"
    "next_fence s = 0 \<or> next_fence s \<le> gpu t"
    "ws = [] \<or> ws = [EvWait (next_fence s)]"
proof (cases "next_fence s \<noteq> 0 \<and> gpu (Suc (clock s)) < next_fence s")
  case True
  with f obtain t where t: "WaitForFence gpu (next_fence s) (Suc (clock s)) = Some t"
    "r = Inr (cycled t [EvWait (next_fence s)] s)"
    by (auto simp: Update_cycle_eq [OF wf] split: option.splits)
  from WaitForFence_Some [OF t(1)] have "Suc (clock s) \<le> t" "next_fence s \<le> gpu t" by simp_all
  with t show ?thesis by (intro that [of t "[EvWait (next_fence s)]"]) simp_all
next
  case False
  with f have r: "r = Inr (cycled (Suc (clock s)) [] s)"
    by (auto simp: Update_cycle_eq [OF wf])
  from False have "next_fence s = 0 \<or> next_fence s \<le> gpu (Suc (clock s))" by auto
  with r show ?thesis by (intro that [of "Suc (clock s)" "[]"]) simp_all
qed


subsection \<open>Ring bound\<close>



subsection \<open>The order of the steps of a frame\<close>

lemma not_reset_precedes_refresh:
  assumes "list_all (\<lambda>e. \<not> is_reset e) xs"
  shows "\<not> reset_precedes_refresh (xs @ EvCopyPass k # ys)"
proof -
  from assms have "takeWhile (\<lambda>e. \<not> is_reset e) (xs @ EvCopyPass k # ys) =
      xs @ EvCopyPass k # takeWhile (\<lambda>e. \<not> is_reset e) ys"
    by (induction xs) simp_all
  then show ?thesis by (simp add: reset_precedes_refresh_def)
qed

text \<open>
  C4. The order of the steps of a frame in the code: \<open>Update\<close> acquires the next frame
  resource (waiting for its fence if needed), then copies the constants of the dirty
  render items, then those of the dirty materials, then the pass constants; \<open>Draw\<close>
  resets the command allocator of that frame resource only after these copies, then
  records and executes the commands, presents, and signals the incremented fence. So
  the reset does not precede the refreshes of the frame: it follows all of them.
\<close>

theorem frame_step_order:
  fixes s :: "('a, 'p) App"
  assumes wf: "well_formed s" and f: "frame gpu pass s = Some (Inr s')"
  shows "\<exists>ws cmds. 
      frame_events s s' =
        ws @
        map (\<lambda>e. EvCopyObject (nat (next_index s)) (uint (ObjCBIndex e)))
          (dirty_items (mAllRitems s)) @
        map (\<lambda>mat. EvCopyMaterial (nat (next_index s)) (MatCBIndex mat))
          (dirty_mats (mMaterials s)) @
        [EvCopyPass (nat (next_index s)), EvResetAllocator (nat (next_index s)),
         EvExecute (nat (next_index s)) cmds, EvPresent, EvSignal (mCurrentFence s + 1)] \<and>
      (ws = [] \<or> ws = [EvWait (next_fence s)]) \<and>
      \<not> reset_precedes_refresh (frame_events s s')"
proof -
  let ?k = "nat (next_index s)"
  from frame_cases [OF wf f] obtain t ws where
    s': "s' = after_frame t ws pass s" and ws: "ws = [] \<or> ws = [EvWait (next_fence s)]"
    by (metis Inl_Inr_False sum.inject(2))
  have kl: "?k < length (mFrameResources s)" using next_index_range(3) [OF wf] by simp
  let ?os = "map (\<lambda>e. EvCopyObject ?k (uint (ObjCBIndex e))) (dirty_items (mAllRitems s))"
  let ?ms = "map (\<lambda>mat. EvCopyMaterial ?k (MatCBIndex mat)) (dirty_mats (mMaterials s))"
  let ?cmds = "CmdListAlloc (mFrameResources s' ! ?k)"
  let ?tl = "[EvResetAllocator ?k, EvExecute ?k ?cmds, EvPresent, EvSignal (mCurrentFence s + 1)]"
  have ev: "frame_events s s' = ws @ ?os @ ?ms @ EvCopyPass ?k # ?tl"
    unfolding frame_events_def s' after_frame_trace [OF kl] by simp
  have "list_all (\<lambda>e. \<not> is_reset e) (ws @ ?os @ ?ms)"
    using ws by (auto simp: list_all_iff)
  from not_reset_precedes_refresh [OF this, of ?k ?tl]
  have "\<not> reset_precedes_refresh (frame_events s s')" by (simp add: ev)
  with ev ws show ?thesis by auto
qed

theorem frame_step_order_witness:
  "well_formed (ex_app 3 5) \<and>
   (\<exists>s'. frame (\<lambda>t. 0) 7 (ex_app 3 5) = Some (Inr s') \<and>
      (\<exists>cmds. frame_events (ex_app 3 5) s' =
         [EvCopyObject 2 0, EvCopyMaterial 2 0, EvCopyPass 2, EvResetAllocator 2,
          EvExecute 2 cmds, EvPresent, EvSignal 6]))"
proof -
  obtain s' where f: "frame (\<lambda>t. 0) 7 (ex_app 3 5) = Some (Inr s')"
    and nw: "list_all (\<lambda>e. \<not> is_wait e) (frame_events (ex_app 3 5) s')"
    by (simp add: eval_defs frame_events_def)
  have a: "next_index (ex_app 3 5) = 2" "next_fence (ex_app 3 5) = 0"
    "dirty_items (mAllRitems (ex_app 3 5)) = [ex_item 3 0]"
    "dirty_mats (mMaterials (ex_app 3 5)) = [ex_mat 3]" "mCurrentFence (ex_app 3 5) = 5"
    by (simp_all add: next_index_def next_fence_def dirty_items_def dirty_mats_def ex_app_def
        ex_item_def ex_mat_def RenderItem_default_def gNumFrameResources_def smod_int_alt_def
        sgn_if FrameResource_new_def)
  have b: "uint (ObjCBIndex (ex_item 3 0)) = 0" "MatCBIndex (ex_mat 3) = 0"
    by (simp_all add: ex_item_def ex_mat_def RenderItem_default_def)
  from frame_step_order [OF well_formed_ex_app f] obtain ws cmds where
    ev: "frame_events (ex_app 3 5) s' =
        ws @
        map (\<lambda>e. EvCopyObject (nat (next_index (ex_app 3 5))) (uint (ObjCBIndex e)))
          (dirty_items (mAllRitems (ex_app 3 5))) @
        map (\<lambda>mat. EvCopyMaterial (nat (next_index (ex_app 3 5))) (MatCBIndex mat))
          (dirty_mats (mMaterials (ex_app 3 5))) @
        [EvCopyPass (nat (next_index (ex_app 3 5))), EvResetAllocator (nat (next_index (ex_app 3 5))),
         EvExecute (nat (next_index (ex_app 3 5))) cmds, EvPresent,
         EvSignal (mCurrentFence (ex_app 3 5) + 1)]"
    and ws: "ws = [] \<or> ws = [EvWait (next_fence (ex_app 3 5))]"
    by (elim exE conjE) (rule that; assumption)
  have w: "ws = []"
  proof (rule ccontr)
    assume "ws \<noteq> []"
    with ws have "ws = [EvWait 0]" by (simp add: a)
    with ev nw show False by simp
  qed
  have "frame_events (ex_app 3 5) s' =
         [EvCopyObject 2 0, EvCopyMaterial 2 0, EvCopyPass 2, EvResetAllocator 2,
          EvExecute 2 cmds, EvPresent, EvSignal 6]"
    unfolding ev w a by (simp add: b)
  with f well_formed_ex_app show ?thesis by blast
qed

text \<open>
  In the first frame of the small scene the constants of render item 0, of the
  material and of the pass are copied into frame resource 2 before its command
  allocator is reset.
\<close>

theorem reset_follows_refresh_example:
  "\<exists>s'. frame (\<lambda>t. 0) 7 (ex_app 3 5) = Some (Inr s') \<and>
     take 4 (frame_events (ex_app 3 5) s') =
       [EvCopyObject 2 0, EvCopyMaterial 2 0, EvCopyPass 2, EvResetAllocator 2] \<and>
     \<not> reset_precedes_refresh (frame_events (ex_app 3 5) s')"
  by (simp add: eval_defs frame_events_def reset_precedes_refresh_def)

subsection \<open>Convergence of the constants of a render item\<close>

lemma copies_append [simp]: "copies k c (xs @ ys) = copies k c xs + copies k c ys"
  by (simp add: copies_def)

lemma copies_other [simp]:
  "copies k c [] = 0"
  "copies k c (EvWait f # es) = copies k c es"
  "copies k c (EvCopyMaterial j m # es) = copies k c es"
  "copies k c (EvCopyPass j # es) = copies k c es"
  "copies k c (EvResetAllocator j # es) = copies k c es"
  "copies k c (EvExecute j cs # es) = copies k c es"
  "copies k c (EvPresent # es) = copies k c es"
  "copies k c (EvSignal f # es) = copies k c es"
  by (simp_all add: copies_def)

lemma copies_materials [simp]:
  "copies k c (map (\<lambda>mat. EvCopyMaterial j (g mat)) ms) = 0"
  by (induction ms) simp_all

lemma copies_objects_none:
  "\<forall>e \<in> set es. ObjCBIndex e \<noteq> c \<Longrightarrow>
     copies k c (map (\<lambda>e. EvCopyObject j (uint (ObjCBIndex e))) es) = 0"
  by (induction es) (auto simp: copies_def dest: word_uint_eqI)

lemma copies_objects_one:
  "copies k c (map (\<lambda>e. EvCopyObject j (uint (ObjCBIndex e))) [e]) =
     (if k = j \<and> ObjCBIndex e = c then 1 else 0)"
  by (auto simp: copies_def dest: word_uint_eqI)

lemma dirty_items_split:
  assumes "i < length es" "0 < RenderItem.NumFramesDirty (es ! i)"
  shows "dirty_items es = dirty_items (take i es) @ es ! i # dirty_items (drop (Suc i) es)"
proof -
  have "es = take i es @ es ! i # drop (Suc i) es" using assms(1) by (simp add: id_take_nth_drop)
  then have "dirty_items es = dirty_items (take i es @ es ! i # drop (Suc i) es)" by simp
  also have "\<dots> = dirty_items (take i es) @ es ! i # dirty_items (drop (Suc i) es)"
    using assms(2) by (simp add: dirty_items_def)
  finally show ?thesis .
qed

lemma set_dirty_items_take:
  "e \<in> set (dirty_items (take i es)) \<Longrightarrow> \<exists>j<i. j < length es \<and> e = es ! j"
  by (auto simp: dirty_items_def in_set_conv_nth)

lemma set_dirty_items_drop:
  "e \<in> set (dirty_items (drop (Suc i) es)) \<Longrightarrow> \<exists>j>i. j < length es \<and> e = es ! j"
proof -
  assume "e \<in> set (dirty_items (drop (Suc i) es))"
  then have "e \<in> set (drop (Suc i) es)" by (simp add: dirty_items_def)
  then obtain n where n: "n < length es - Suc i" "e = drop (Suc i) es ! n"
    by (auto simp: in_set_conv_nth)
  then have "Suc i + n < length es" "e = es ! (Suc i + n)" by simp_all
  then show ?thesis by (intro exI [of _ "Suc i + n"]) simp
qed

lemma foldl_write_item_last:
  assumes "\<forall>e' \<in> set ys. ObjCBIndex e' \<noteq> ObjCBIndex e"
    and "unat (ObjCBIndex e) < length buf"
  shows "foldl write_item buf (xs @ e # ys) ! unat (ObjCBIndex e) = Some (objConstants e)"
proof -
  let ?b = "foldl write_item buf xs"
  have l: "unat (ObjCBIndex e) < length ?b" using assms(2) by (simp add: length_foldl_write_item)
  from assms(1) have "\<forall>e' \<in> set ys. unat (ObjCBIndex e') \<noteq> unat (ObjCBIndex e)"
    by (simp add: word_unat_eq_iff)
  then have "foldl write_item (write_item ?b e) ys ! unat (ObjCBIndex e) =
      write_item ?b e ! unat (ObjCBIndex e)"
    by (rule foldl_write_item_other)
  also have "\<dots> = Some (objConstants e)" using l by (simp add: write_item_def)
  finally show ?thesis by simp
qed

text \<open>
  One frame and a dirty render item: its constants are in the cell of its index in the
  frame resource of the frame, unless a dirty render item later in the list has the
  same index.
\<close>

lemma after_frame_cell:
  assumes wf: "well_formed s" and i: "i < length (mAllRitems s)"
    and d: "0 < RenderItem.NumFramesDirty (mAllRitems s ! i)"
    and later: "\<forall>j<length (mAllRitems s). i < j \<longrightarrow>
       ObjCBIndex (mAllRitems s ! j) \<noteq> ObjCBIndex (mAllRitems s ! i)"
  shows "ObjectCB (mFrameResources (after_frame t ws pass s) ! nat (next_index s)) !
           unat (ObjCBIndex (mAllRitems s ! i)) = Some (objConstants (mAllRitems s ! i))"
proof -
  let ?es = "mAllRitems s" and ?k = "nat (next_index s)"
  have kl: "?k < length (mFrameResources s)" by (rule next_index_range(3) [OF wf])
  have "uint (ObjCBIndex (?es ! i)) < int (length ?es)"
    using well_formed_itemD [OF wf] i by simp
  then have c: "unat (ObjCBIndex (?es ! i)) < length (ObjectCB (mFrameResources s ! ?k))"
    unfolding well_formed_frD(1) [OF wf kl] by (rule uint_less_length)
  have ys: "\<forall>e' \<in> set (dirty_items (drop (Suc i) ?es)). ObjCBIndex e' \<noteq> ObjCBIndex (?es ! i)"
    using later by (auto dest!: set_dirty_items_drop)
  show ?thesis
    unfolding after_frame_current(2) [OF kl] dirty_items_split [OF i d]
    by (rule foldl_write_item_last [OF ys c])
qed

lemma after_frame_copies:
  assumes wf: "well_formed s" and i: "i < length (mAllRitems s)"
    and d: "0 < RenderItem.NumFramesDirty (mAllRitems s ! i)"
    and dist: "\<forall>j<length (mAllRitems s). j \<noteq> i \<longrightarrow>
       ObjCBIndex (mAllRitems s ! j) \<noteq> ObjCBIndex (mAllRitems s ! i)"
    and ws: "ws = [] \<or> ws = [EvWait f]"
  shows "\<exists>evs. trace (after_frame t ws pass s) = trace s @ evs \<and>
           (\<forall>k. copies k (ObjCBIndex (mAllRitems s ! i)) evs = (if k = nat (next_index s) then 1 else 0))"
proof -
  let ?es = "mAllRitems s" and ?k = "nat (next_index s)"
  let ?c = "ObjCBIndex (?es ! i)"
  let ?f = "\<lambda>e. EvCopyObject ?k (uint (ObjCBIndex e))"
  have kl: "?k < length (mFrameResources s)" by (rule next_index_range(3) [OF wf])
  have xs: "\<forall>e' \<in> set (dirty_items (take i ?es)). ObjCBIndex e' \<noteq> ?c"
    using dist by (auto dest!: set_dirty_items_take)
  have ys: "\<forall>e' \<in> set (dirty_items (drop (Suc i) ?es)). ObjCBIndex e' \<noteq> ?c"
    using dist by (auto dest!: set_dirty_items_drop)
  have "copies k ?c (map ?f (dirty_items ?es)) = (if k = ?k then 1 else 0)" for k
  proof -
    have "map ?f (dirty_items ?es) =
        map ?f (dirty_items (take i ?es)) @ map ?f [?es ! i] @ map ?f (dirty_items (drop (Suc i) ?es))"
      unfolding dirty_items_split [OF i d] by simp
    then have "copies k ?c (map ?f (dirty_items ?es)) =
        copies k ?c (map ?f (dirty_items (take i ?es))) + copies k ?c (map ?f [?es ! i]) +
        copies k ?c (map ?f (dirty_items (drop (Suc i) ?es)))"
      by (simp only: copies_append)
    then show ?thesis
      unfolding copies_objects_none [OF xs] copies_objects_none [OF ys] copies_objects_one
      by simp
  qed
  then show ?thesis
    unfolding after_frame_trace [OF kl] using ws by (intro exI conjI) auto
qed

lemma next_index_after_frame:
  assumes wf: "well_formed s"
  shows "nat (next_index (after_frame t ws pass s)) = Suc (nat (next_index s)) mod 3"
proof -
  have a: "next_index (after_frame t ws pass s) = (next_index s + 1) mod 3"
    using next_index_range(4) [OF well_formed_after_frame [OF wf]] by simp
  from next_index_range(1,2) [OF wf] show ?thesis unfolding a
    by (simp add: nat_mod_distrib nat_add_distrib)
qed

text \<open>
  Three frames after a render item with its own index was marked dirty, its constants
  are in its cell of all three frame resources, each copied there once.
\<close>

lemma three_frames_converge:
  assumes wf: "well_formed s" and run: "run_frames gpu [p1, p2, p3] s = Some (Inr s')"
    and i: "i < length (mAllRitems s)"
    and d: "RenderItem.NumFramesDirty (mAllRitems s ! i) = 3"
    and dist: "\<forall>j<length (mAllRitems s). j \<noteq> i \<longrightarrow>
       ObjCBIndex (mAllRitems s ! j) \<noteq> ObjCBIndex (mAllRitems s ! i)"
  shows "\<forall>k<3. ObjectCB (mFrameResources s' ! k) ! unat (ObjCBIndex (mAllRitems s ! i)) =
            Some (objConstants (mAllRitems s ! i)) \<and>
          copies k (ObjCBIndex (mAllRitems s ! i)) (drop (length (trace s)) (trace s')) = 1"
proof -
  let ?c = "ObjCBIndex (mAllRitems s ! i)" and ?v = "Some (objConstants (mAllRitems s ! i))"
  from run obtain s1 s2 where f1: "frame gpu p1 s = Some (Inr s1)"
    and f2: "frame gpu p2 s1 = Some (Inr s2)" and f3: "frame gpu p3 s2 = Some (Inr s')"
    by (auto split: option.splits sum.splits)
  from frame_cases [OF wf f1] obtain t1 ws1 where
    s1: "s1 = after_frame t1 ws1 p1 s" and ws1: "ws1 = [] \<or> ws1 = [EvWait (next_fence s)]"
    by (metis Inl_Inr_False sum.inject(2))
  have wf1: "well_formed s1" unfolding s1 by (rule well_formed_after_frame [OF wf])
  from frame_cases [OF wf1 f2] obtain t2 ws2 where
    s2: "s2 = after_frame t2 ws2 p2 s1" and ws2: "ws2 = [] \<or> ws2 = [EvWait (next_fence s1)]"
    by (metis Inl_Inr_False sum.inject(2))
  have wf2: "well_formed s2" unfolding s2 by (rule well_formed_after_frame [OF wf1])
  from frame_cases [OF wf2 f3] obtain t3 ws3 where
    s3: "s' = after_frame t3 ws3 p3 s2" and ws3: "ws3 = [] \<or> ws3 = [EvWait (next_fence s2)]"
    by (metis Inl_Inr_False sum.inject(2))
  define k1 where "k1 = nat (next_index s)"
  define k2 where "k2 = nat (next_index s1)"
  define k3 where "k3 = nat (next_index s2)"
  have k1: "k1 < 3" using next_index_range(1,2) [OF wf] by (simp add: k1_def)
  have k2: "k2 = Suc k1 mod 3" unfolding k2_def k1_def s1 by (rule next_index_after_frame [OF wf])
  have k3: "k3 = Suc k2 mod 3" unfolding k3_def k2_def s2 by (rule next_index_after_frame [OF wf1])
  have ne: "k1 \<noteq> k2" "k2 \<noteq> k3" "k1 \<noteq> k3" using k1 unfolding k3 k2 by presburger+
  have cover: "k = k1 \<or> k = k2 \<or> k = k3" if "k < 3" for k
    using that k1 unfolding k3 k2 by presburger
  have i1: "i < length (mAllRitems s1)" and i2: "i < length (mAllRitems s2)"
    using i by (simp_all add: s1 s2)
  have e1: "ObjCBIndex (mAllRitems s1 ! i) = ?c" "objConstants (mAllRitems s1 ! i) = objConstants (mAllRitems s ! i)"
    "RenderItem.NumFramesDirty (mAllRitems s1 ! i) = 2"
    using i d by (simp_all add: s1)
  have e2: "ObjCBIndex (mAllRitems s2 ! i) = ?c" "objConstants (mAllRitems s2 ! i) = objConstants (mAllRitems s ! i)"
    "RenderItem.NumFramesDirty (mAllRitems s2 ! i) = 1"
    using i d by (simp_all add: s1 s2)
  have d0: "0 < RenderItem.NumFramesDirty (mAllRitems s ! i)" using d by simp
  have d1: "0 < RenderItem.NumFramesDirty (mAllRitems s1 ! i)" using e1 by simp
  have d2: "0 < RenderItem.NumFramesDirty (mAllRitems s2 ! i)" using e2 by simp
  have dist1: "\<forall>j<length (mAllRitems s1). j \<noteq> i \<longrightarrow>
       ObjCBIndex (mAllRitems s1 ! j) \<noteq> ObjCBIndex (mAllRitems s1 ! i)"
    using dist i by (simp add: s1)
  have dist2: "\<forall>j<length (mAllRitems s2). j \<noteq> i \<longrightarrow>
       ObjCBIndex (mAllRitems s2 ! j) \<noteq> ObjCBIndex (mAllRitems s2 ! i)"
    using dist i by (simp add: s1 s2)
  have c1: "ObjectCB (mFrameResources s1 ! k1) ! unat ?c = ?v"
    unfolding s1 k1_def using dist by (intro after_frame_cell [OF wf i d0]) simp
  have c2: "ObjectCB (mFrameResources s2 ! k2) ! unat ?c = ?v"
    using after_frame_cell [OF wf1 i1 d1, of t2 ws2 p2] dist1 unfolding e1 s2 [symmetric] k2_def
    by simp
  have c3: "ObjectCB (mFrameResources s' ! k3) ! unat ?c = ?v"
    using after_frame_cell [OF wf2 i2 d2, of t3 ws3 p3] dist2 unfolding e2 s3 [symmetric] k3_def
    by simp
  have o2: "mFrameResources s2 ! k1 = mFrameResources s1 ! k1"
    unfolding s2 using ne(1) by (intro after_frame_other) (simp add: k2_def)
  have o3: "mFrameResources s' ! k1 = mFrameResources s2 ! k1"
    "mFrameResources s' ! k2 = mFrameResources s2 ! k2"
    unfolding s3 using ne by (intro after_frame_other; simp add: k3_def)+
  have cells: "ObjectCB (mFrameResources s' ! k) ! unat ?c = ?v" if "k < 3" for k
    using cover [OF that] c1 c2 c3 o2 o3 by auto
  from after_frame_copies [OF wf i d0 dist ws1, of t1 p1] obtain ev1 where
    t1: "trace s1 = trace s @ ev1" and n1: "\<forall>k. copies k ?c ev1 = (if k = k1 then 1 else 0)"
    unfolding s1 [symmetric] k1_def by blast
  from after_frame_copies [OF wf1 i1 d1 dist1 ws2, of t2 p2] obtain ev2 where
    t2: "trace s2 = trace s1 @ ev2" and n2: "\<forall>k. copies k ?c ev2 = (if k = k2 then 1 else 0)"
    unfolding s2 [symmetric] k2_def e1 by blast
  from after_frame_copies [OF wf2 i2 d2 dist2 ws3, of t3 p3] obtain ev3 where
    t3: "trace s' = trace s2 @ ev3" and n3: "\<forall>k. copies k ?c ev3 = (if k = k3 then 1 else 0)"
    unfolding s3 [symmetric] k3_def e2 by blast
  have tr: "drop (length (trace s)) (trace s') = ev1 @ ev2 @ ev3" by (simp add: t1 t2 t3)
  have "copies k ?c (drop (length (trace s)) (trace s')) = 1" if "k < 3" for k
    unfolding tr using cover [OF that] ne n1 n2 n3 by auto
  with cells show ?thesis by blast
qed

lemma frame_no_wait:
  assumes wf: "well_formed s" and nf: "next_fence s = 0"
  shows "frame gpu pass s = Some (Inr (after_frame (Suc (clock s)) [] pass s))"
  by (simp add: frame_eq [OF wf] nf)

text \<open>The first three frames after \<open>Initialize\<close> find fence value 0 and do not wait.\<close>

lemma initial_three_frames:
  assumes init: "initial s0"
  shows "\<exists>s. run_frames gpu [p1, p2, p3] s0 = Some (Inr s)"
proof -
  from init have wf: "well_formed s0" by (simp add: initial_def)
  have step: "\<exists>s'. run_frames gpu (ps @ [p]) s0 = Some (Inr s')"
    if run: "run_frames gpu ps s0 = Some (Inr s)" and n: "length ps < 3" for ps p s
  proof -
    note st = run_frames_state [OF wf run]
    have "nat (next_index s) < 3" using next_index_range(1,2) [OF st(1)] by simp
    with initial_run(1) [OF init run]
    have "next_fence s = slot_fence (mCurrentFence s0) (length ps) (Suc (length ps) mod 3)"
      by (simp add: next_fence_def initial_next_index [OF init run])
    also have "\<dots> = 0" using n by (simp add: slot_fence_next)
    finally have "next_fence s = 0" .
    from frame_no_wait [OF st(1) this] show ?thesis by (simp add: run_frames_snoc run)
  qed
  have 0: "run_frames gpu [] s0 = Some (Inr s0)" by simp
  from step [OF 0, of p1] obtain s1 where 1: "run_frames gpu [p1] s0 = Some (Inr s1)" by auto
  from step [OF 1, of p2] obtain s2 where 2: "run_frames gpu [p1, p2] s0 = Some (Inr s2)" by auto
  from step [OF 2, of p3] show ?thesis by auto
qed

subsection \<open>The scenes that Initialize builds\<close>

lemma upt_0_2: "[0..<2] = [0::nat, 1]"
  by (simp add: upt_rec)

lemma upt_0_3: "[0..<3] = [0::nat, 1, 2]"
  by (simp add: upt_rec)

lemma upt_0_4: "[0..<4] = [0::nat, 1, 2, 3]"
  by (simp add: upt_rec)

lemma upt_0_6: "[0..<6] = [0::nat, 1, 2, 3, 4, 5]"
  by (simp add: upt_rec)

lemma upt_0_8: "[0..<8] = [0::nat, 1, 2, 3, 4, 5, 6, 7]"
  by (simp add: upt_rec)

lemma upt_0_12: "[0..<12] = [0::nat, 1, 2, 3, 4, 5, 6, 7, 8, 9, 10, 11]"
  by (simp add: upt_rec)

lemma upt_0_26: "[0..<26] = [0::nat, 1, 2, 3, 4, 5, 6, 7, 8, 9, 10, 11, 12, 13, 14, 15, 16, 17, 18, 19, 20, 21, 22, 23, 24, 25]"
  by (simp add: upt_rec)

lemma upt_0_add: "[0..<n + k] = [0..<n] @ map (\<lambda>j. n + j) [0..<k]"
  by (induction k) simp_all

lemma subscript_present: "map_of (mMaterials s) k \<noteq> None \<Longrightarrow> subscript_mMaterials k s = s"
  by (auto simp: subscript_mMaterials_def split: option.splits)

lemma layers_below_mono: "layers_below n ls \<Longrightarrow> n \<le> m \<Longrightarrow> layers_below m ls"
  by (fastforce simp: layers_below_def list_all_iff)

lemma layers_below_update:
  "l < length ls \<Longrightarrow>
     layers_below m (ls[l := ls ! l @ xs]) = (layers_below m ls \<and> list_all (\<lambda>i. i < m) xs)"
  unfolding layers_below_def
  by (induction ls arbitrary: l) (auto split: nat.splits)

lemma buildingD:
  assumes "building ms l n s"
  shows "mMaterials s = ms" "length (mAllRitems s) = n"
    "map ObjCBIndex (mAllRitems s) = map word_of_nat [0..<n]"
    "list_all (item_ok ms) (mAllRitems s)" "length (mRitemLayer s) = l"
    "layers_below n (mRitemLayer s)" "mFrameResources s = []"
    "mCurrFrameResourceIndex s = 0" "trace s = []"
proof -
  from assms show 3: "map ObjCBIndex (mAllRitems s) = map word_of_nat [0..<n]"
    by (simp add: building_def)
  from arg_cong [OF 3, of length] show "length (mAllRitems s) = n" by simp
qed (use assms in \<open>simp_all add: building_def\<close>)

lemmas build_simps = subscript_present push_back_mAllRitems_def push_back_mRitemLayer_def
  item_ok_def RenderItem_default_def gNumFrameResources_def upt_0_add
  upt_0_2 upt_0_4 upt_0_6 upt_0_8 upt_0_12 upt_0_26 layers_below_update
  Opaque_def AlphaTested_def AlphaTestedTreeSprites_def Transparent_def

lemma BuildRenderItems_pyramids_step:
  assumes b: "building ms l n s" and m: "map_of ms ''bricks0'' = Some (Some mb)"
  shows "fst (BuildRenderItems_pyramids fl i (word_of_nat n, s)) = word_of_nat (n + 4)"
    and "building ms l (n + 4) (snd (BuildRenderItems_pyramids fl i (word_of_nat n, s)))"
    and "take n (mAllRitems (snd (BuildRenderItems_pyramids fl i (word_of_nat n, s)))) = mAllRitems s"
proof -
  note d = buildingD [OF b]
  have lb: "layers_below (n + 4) (mRitemLayer s)" by (rule layers_below_mono [OF d(6)]) simp
  show "fst (BuildRenderItems_pyramids fl i (word_of_nat n, s)) = word_of_nat (n + 4)"
    unfolding BuildRenderItems_pyramids_def Let_def prod.case using d m
    by (simp add: build_simps)
  show "building ms l (n + 4) (snd (BuildRenderItems_pyramids fl i (word_of_nat n, s)))"
    unfolding BuildRenderItems_pyramids_def Let_def prod.case building_def using d m lb
    by (simp add: build_simps)
  show "take n (mAllRitems (snd (BuildRenderItems_pyramids fl i (word_of_nat n, s)))) = mAllRitems s"
    unfolding BuildRenderItems_pyramids_def Let_def prod.case using d m
    by (simp add: build_simps)
qed

lemma BuildRenderItems_towers_step:
  assumes b: "building ms l n s" and m: "map_of ms ''bricks0'' = Some (Some mb)"
  shows "fst (BuildRenderItems_towers fl i (word_of_nat n, s)) = word_of_nat (n + 26)"
    and "building ms l (n + 26) (snd (BuildRenderItems_towers fl i (word_of_nat n, s)))"
    and "take n (mAllRitems (snd (BuildRenderItems_towers fl i (word_of_nat n, s)))) = mAllRitems s"
proof -
  note d = buildingD [OF b]
  have lb: "layers_below (n + 26) (mRitemLayer s)" by (rule layers_below_mono [OF d(6)]) simp
  show "fst (BuildRenderItems_towers fl i (word_of_nat n, s)) = word_of_nat (n + 26)"
    unfolding BuildRenderItems_towers_def Let_def prod.case using d m
    by (simp add: build_simps)
  show "building ms l (n + 26) (snd (BuildRenderItems_towers fl i (word_of_nat n, s)))"
    unfolding BuildRenderItems_towers_def Let_def prod.case building_def using d m lb
    by (simp add: build_simps)
  show "take n (mAllRitems (snd (BuildRenderItems_towers fl i (word_of_nat n, s)))) = mAllRitems s"
    unfolding BuildRenderItems_towers_def Let_def prod.case using d m
    by (simp add: build_simps)
qed

lemma BuildRenderItems_singles_building:
  assumes b: "building ms l 0 s"
    and m: "map_of ms ''stone0'' = Some (Some m1)" "map_of ms ''diamondMat'' = Some (Some m2)"
      "map_of ms ''diamondMatRed'' = Some (Some m3)" "map_of ms ''bricks0'' = Some (Some m4)"
      "map_of ms ''skullMat'' = Some (Some m5)" "map_of ms ''tile0'' = Some (Some m6)"
  shows "building ms l 12 (BuildRenderItems_singles fl s)"
proof -
  note d = buildingD [OF b]
  have lb: "layers_below 12 (mRitemLayer s)" by (rule layers_below_mono [OF d(6)]) simp
  show ?thesis
    unfolding BuildRenderItems_singles_def Let_def building_def using d m lb
    by (simp add: build_simps)
qed

lemma loop_building:
  assumes step: "\<And>i n s. building ms l n s \<Longrightarrow>
      fst (body i (word_of_nat n, s)) = word_of_nat (n + k) \<and>
      building ms l (n + k) (snd (body i (word_of_nat n, s))) \<and>
      take n (mAllRitems (snd (body i (word_of_nat n, s)))) = mAllRitems s"
    and b: "building ms l n s"
  shows "fst (foldl (\<lambda>x i. body i x) (word_of_nat n, s) js) = word_of_nat (n + k * length js) \<and>
    building ms l (n + k * length js) (snd (foldl (\<lambda>x i. body i x) (word_of_nat n, s) js)) \<and>
    take n (mAllRitems (snd (foldl (\<lambda>x i. body i x) (word_of_nat n, s) js))) = mAllRitems s"
  using b
proof (induction js arbitrary: n s)
  case Nil
  then show ?case by (simp add: buildingD(2))
next
  case (Cons j js)
  from step [OF Cons.prems, of j] obtain s1 where
    1: "body j (word_of_nat n, s) = (word_of_nat (n + k), s1)" and b1: "building ms l (n + k) s1"
    and t1: "take n (mAllRitems s1) = mAllRitems s"
    by (metis prod.collapse)
  let ?r = "snd (foldl (\<lambda>x i. body i x) (word_of_nat (n + k), s1) js)"
  from Cons.IH [OF b1] have r: "take (n + k) (mAllRitems ?r) = mAllRitems s1" by simp
  have "take n (mAllRitems ?r) = take n (take (n + k) (mAllRitems ?r))" by (simp add: min_def)
  also have "\<dots> = mAllRitems s" by (simp only: r t1)
  finally show ?case using Cons.IH [OF b1] by (simp add: 1 add.assoc)
qed

lemma BuildRenderItems_building:
  assumes b: "building ms 1 0 s"
    and m: "map_of ms ''stone0'' = Some (Some m1)" "map_of ms ''diamondMat'' = Some (Some m2)"
      "map_of ms ''diamondMatRed'' = Some (Some m3)" "map_of ms ''bricks0'' = Some (Some m4)"
      "map_of ms ''skullMat'' = Some (Some m5)" "map_of ms ''tile0'' = Some (Some m6)"
  shows "building ms 1 96 (BuildRenderItems fl s)"
proof -
  let ?s0 = "BuildRenderItems_singles fl s"
  let ?x1 = "foldl (\<lambda>x i. BuildRenderItems_pyramids fl i x) (12, ?s0) [0..<8]"
  let ?x2 = "foldl (\<lambda>x i. BuildRenderItems_towers fl i x) (44, snd ?x1) [0..<2]"
  have b0: "building ms 1 12 ?s0" by (rule BuildRenderItems_singles_building [OF b m])
  have "building ms 1 (12 + 4 * length [0..<8]) 
      (snd (foldl (\<lambda>x i. BuildRenderItems_pyramids fl i x) (word_of_nat 12, ?s0) [0..<8]))"
    using BuildRenderItems_pyramids_step [OF _ m(4)] b0
    by (intro conjunct1 [OF conjunct2 [OF loop_building]]) auto
  then have b1: "building ms 1 44 (snd ?x1)" by simp
  have "building ms 1 (44 + 26 * length [0..<2]) 
      (snd (foldl (\<lambda>x i. BuildRenderItems_towers fl i x) (word_of_nat 44, snd ?x1) [0..<2]))"
    using BuildRenderItems_towers_step [OF _ m(4)] b1
    by (intro conjunct1 [OF conjunct2 [OF loop_building]]) auto
  then have b2: "building ms 1 96 (snd ?x2)" by simp
  note d = buildingD [OF b2]
  have eq: "BuildRenderItems fl s =
      (snd ?x2)\<lparr>mRitemLayer := [mRitemLayer (snd ?x2) ! 0 @ [0..<length (mAllRitems (snd ?x2))]]\<rparr>"
    unfolding BuildRenderItems_def Let_def by (simp add: case_prod_beta)
  from d(5) obtain l0 where l0: "mRitemLayer (snd ?x2) = [l0]"
    by (cases "mRitemLayer (snd ?x2)") auto
  show ?thesis unfolding eq building_def using d l0
    by (auto simp: layers_below_def list_all_iff)
qed

lemma BuildFrameResources_eq:
  "BuildFrameResources s =
     s\<lparr>mFrameResources := mFrameResources s @
        replicate 3 (FrameResource_new 1 (unat (word_of_nat (length (mAllRitems s)) :: 32 word))
                   (unat (word_of_nat (length (mMaterials s)) :: 32 word)))\<rparr>"
  by (simp add: BuildFrameResources_def gNumFrameResources_def upt_0_3 numeral_3_eq_3)

text \<open>
  A scene with its frame resources is in the state from which the frames start.
\<close>

lemma BuildFrameResources_initial:
  fixes s :: "('a, 'p) App"
  assumes ms: "materials_ok m0 (mMaterials s)"
    and ok: "list_all (item_ok (mMaterials s)) (mAllRitems s)"
    and idx: "list_all (\<lambda>e. unat (ObjCBIndex e) < length (mAllRitems s)) (mAllRitems s)"
    and lay: "layers_below (length (mAllRitems s)) (mRitemLayer s)"
    and new: "mFrameResources s = []" "mCurrFrameResourceIndex s = 0" "trace s = []"
    and small: "length (mAllRitems s) < 2 ^ 32" "length (mMaterials s) < 2 ^ 32"
  shows "initial ((BuildFrameResources s)\<lparr>mCurrentFence := c0\<rparr>)"
    and "uniform ((BuildFrameResources s)\<lparr>mCurrentFence := c0\<rparr>)"
proof -
  let ?t = "(BuildFrameResources s)\<lparr>mCurrentFence := c0\<rparr>"
  have u: "unat (word_of_nat (length (mAllRitems s)) :: 32 word) = length (mAllRitems s)"
    "unat (word_of_nat (length (mMaterials s)) :: 32 word) = length (mMaterials s)"
    using small by (simp_all add: unat_of_nat)
  have t: "mAllRitems ?t = mAllRitems s" "mMaterials ?t = mMaterials s"
    "mRitemLayer ?t = mRitemLayer s" "mCurrFrameResourceIndex ?t = 0" "trace ?t = []"
    "mFrameResources ?t =
       replicate 3 (FrameResource_new 1 (length (mAllRitems s)) (length (mMaterials s)))"
    using new by (simp_all add: BuildFrameResources_eq u)
  have items: "uint (ObjCBIndex e) < int (length (mAllRitems s)) \<and> Geo e \<noteq> None \<and>
        (case Mat e of None \<Rightarrow> False
         | Some n \<Rightarrow> (case map_of (mMaterials s) n of Some (Some m) \<Rightarrow> True | _ \<Rightarrow> False))"
    if "e \<in> set (mAllRitems s)" for e
  proof -
    from ok idx that have "item_ok (mMaterials s) e" "unat (ObjCBIndex e) < length (mAllRitems s)"
      by (simp_all add: list_all_iff)
    then have io: "item_ok (mMaterials s) e"
      and "int (unat (ObjCBIndex e)) < int (length (mAllRitems s))"
      by (simp_all only: of_nat_less_iff)
    then have "uint (ObjCBIndex e) < int (length (mAllRitems s))" by (simp only: uint_nat)
    with io show ?thesis by (simp add: item_ok_def)
  qed
  have mats: "case snd x of None \<Rightarrow> False
        | Some m \<Rightarrow> 0 \<le> MatCBIndex m \<and> MatCBIndex m < int (length (mMaterials s))"
    if "x \<in> set (mMaterials s)" for x
    using ms that by (auto simp: materials_ok_def list_all_iff split: option.splits)
  have layers: "\<forall>l \<in> set (mRitemLayer s). \<forall>i \<in> set l. i < length (mAllRitems s)"
    using lay by (simp add: layers_below_def list_all_iff)
  have "well_formed ?t"
    unfolding well_formed_def t using items mats layers
    by (simp add: gNumFrameResources_def FrameResource_new_def)
  then show "initial ?t" unfolding initial_def t
    by (simp add: FrameResource_new_def list_all_iff)
  have "list_all (\<lambda>e. RenderItem.NumFramesDirty e = gNumFrameResources) (mAllRitems s)"
    using ok by (simp add: list_all_iff item_ok_def)
  moreover have "list_all (\<lambda>x. map_option NumFramesDirty (snd x) = Some (NumFramesDirty m0))
      (mMaterials s)"
    using ms by (auto simp: materials_ok_def list_all_iff split: option.splits)
  ultimately show "uniform ?t" unfolding uniform_def t
    by (cases "mAllRitems s"; cases "mMaterials s") (auto simp: list_all_iff)
qed

lemma building_indices:
  assumes b: "building ms l n s" and n: "n < 2 ^ 32"
  shows "list_all (\<lambda>e. unat (ObjCBIndex e) < length (mAllRitems s)) (mAllRitems s)"
    and "distinct (map ObjCBIndex (mAllRitems s))"
    and "\<forall>i<n. ObjCBIndex (mAllRitems s ! i) = word_of_nat i"
proof -
  note d = buildingD [OF b]
  show 3: "\<forall>i<n. ObjCBIndex (mAllRitems s ! i) = word_of_nat i"
  proof (intro allI impI)
    fix i assume i: "i < n"
    from arg_cong [OF d(3), of "\<lambda>xs. xs ! i"] i d(2) show "ObjCBIndex (mAllRitems s ! i) = word_of_nat i"
      by simp
  qed
  have u: "unat (word_of_nat i :: 32 word) = i" if "i < n" for i
    using that n by (simp add: unat_of_nat)
  show "list_all (\<lambda>e. unat (ObjCBIndex e) < length (mAllRitems s)) (mAllRitems s)"
    unfolding list_all_length d(2) using 3 u by simp
  have "inj_on (word_of_nat :: nat \<Rightarrow> 32 word) {0..<n}"
    by (rule inj_onI) (metis atLeastLessThan_iff u)
  then show "distinct (map ObjCBIndex (mAllRitems s))"
    unfolding d(3) by (simp add: distinct_map)
qed

lemma BuildMaterials_new:
  fixes m0 :: "'a Material" and fl l
  defines "s \<equiv> (BuildMaterials m0 fl (LitColumnsApp_new l) :: ('a, 'p) App)"
  shows "building (mMaterials s) l 0 s" "materials_ok m0 (mMaterials s)"
    "length (mMaterials s) = 6"
    "\<exists>m. map_of (mMaterials s) ''stone0'' = Some (Some m)"
    "\<exists>m. map_of (mMaterials s) ''diamondMat'' = Some (Some m)"
    "\<exists>m. map_of (mMaterials s) ''diamondMatRed'' = Some (Some m)"
    "\<exists>m. map_of (mMaterials s) ''bricks0'' = Some (Some m)"
    "\<exists>m. map_of (mMaterials s) ''skullMat'' = Some (Some m)"
    "\<exists>m. map_of (mMaterials s) ''tile0'' = Some (Some m)"
  unfolding s_def
  by (simp_all add: BuildMaterials_def LitColumnsApp_new_def Let_def building_def
      materials_ok_def layers_below_def list_all_iff)

text \<open>The state after \<open>Initialize\<close> of Assignment 1.\<close>

lemma Initialize_state:
  fixes m0 :: "'a::{zero,one} Material" and fl c0
  defines "s \<equiv> (Initialize m0 fl c0 :: ('a, 'p) App)"
  shows "initial s" "uniform s" "length (mAllRitems s) = 96" "length (mMaterials s) = 6"
    "distinct (map ObjCBIndex (mAllRitems s))"
    "\<forall>i<96. ObjCBIndex (mAllRitems s ! i) = word_of_nat i"
    "list_all (\<lambda>e. RenderItem.NumFramesDirty e = gNumFrameResources) (mAllRitems s)"
    "mCurrentFence s = c0" "materials_ok m0 (mMaterials s)"
proof -
  define s0 :: "('a, 'p) App" where "s0 = BuildMaterials m0 fl (LitColumnsApp_new 1)"
  define s1 where "s1 = BuildRenderItems fl s0"
  note bm = BuildMaterials_new [of m0 fl 1, where ?'p = 'p, folded s0_def]
  from bm(4-9) obtain m1 m2 m3 m4 m5 m6 where
    m: "map_of (mMaterials s0) ''stone0'' = Some (Some m1)"
      "map_of (mMaterials s0) ''diamondMat'' = Some (Some m2)"
      "map_of (mMaterials s0) ''diamondMatRed'' = Some (Some m3)"
      "map_of (mMaterials s0) ''bricks0'' = Some (Some m4)"
      "map_of (mMaterials s0) ''skullMat'' = Some (Some m5)"
      "map_of (mMaterials s0) ''tile0'' = Some (Some m6)"
    by blast
  have b: "building (mMaterials s0) 1 96 s1"
    unfolding s1_def by (rule BuildRenderItems_building [OF bm(1) m])
  note d = buildingD [OF b]
  note ix = building_indices [OF b]
  have s: "s = (BuildFrameResources s1)\<lparr>mCurrentFence := c0\<rparr>"
    by (simp add: s_def Initialize_def s1_def s0_def)
  have mo: "materials_ok m0 (mMaterials s1)" using bm(2) by (simp add: d(1))
  have ok: "list_all (item_ok (mMaterials s1)) (mAllRitems s1)" using d(4) by (simp add: d(1))
  have lay: "layers_below (length (mAllRitems s1)) (mRitemLayer s1)" using d(6) by (simp add: d(2))
  have small: "length (mAllRitems s1) < 2 ^ 32" "length (mMaterials s1) < 2 ^ 32"
    by (simp_all add: d(1,2) bm(3))
  have idx: "list_all (\<lambda>e. unat (ObjCBIndex e) < length (mAllRitems s1)) (mAllRitems s1)"
    by (rule ix(1)) simp
  note fin = BuildFrameResources_initial [OF mo ok idx lay d(7,8,9) small, of c0, folded s]
  have t: "mAllRitems s = mAllRitems s1" "mMaterials s = mMaterials s1"
    by (simp_all add: s BuildFrameResources_eq)
  show "initial s" "uniform s" by (rule fin)+
  show "length (mAllRitems s) = 96" "length (mMaterials s) = 6" by (simp_all add: t d(1,2) bm(3))
  show "distinct (map ObjCBIndex (mAllRitems s))" unfolding t by (rule ix(2)) simp
  show "\<forall>i<96. ObjCBIndex (mAllRitems s ! i) = word_of_nat i" unfolding t by (rule ix(3)) simp
  show "list_all (\<lambda>e. RenderItem.NumFramesDirty e = gNumFrameResources) (mAllRitems s)"
    unfolding t using d(4) by (simp add: list_all_iff item_ok_def)
  show "mCurrentFence s = c0" by (simp add: s)
  show "materials_ok m0 (mMaterials s)" using mo by (simp add: t)
qed

lemma layers_below_nth:
  "layers_below m ls \<Longrightarrow> l < length ls \<Longrightarrow> list_all (\<lambda>i. i < m) (ls ! l)"
  by (simp add: layers_below_def list_all_length)

lemma layers_below_list_update:
  "layers_below m ls \<Longrightarrow> list_all (\<lambda>i. i < m) xs \<Longrightarrow> layers_below m (ls[l := xs])"
  unfolding layers_below_def
  by (induction ls arbitrary: l) (auto split: nat.splits)

lemma BuildRenderItems_Lab5_pyramids_step:
  assumes b: "building ms l n s" and m: "map_of ms ''stone0'' = Some (Some mb)" and l: "0 < l"
  shows "fst (BuildRenderItems_Lab5_pyramids fl i (word_of_nat n, s)) = word_of_nat (n + 4)"
    and "building ms l (n + 4) (snd (BuildRenderItems_Lab5_pyramids fl i (word_of_nat n, s)))"
    and "take n (mAllRitems (snd (BuildRenderItems_Lab5_pyramids fl i (word_of_nat n, s)))) =
           mAllRitems s"
proof -
  note d = buildingD [OF b]
  have lb: "layers_below (n + 4) (mRitemLayer s)" by (rule layers_below_mono [OF d(6)]) simp
  show "fst (BuildRenderItems_Lab5_pyramids fl i (word_of_nat n, s)) = word_of_nat (n + 4)"
    unfolding BuildRenderItems_Lab5_pyramids_def Let_def prod.case using d m
    by (simp add: build_simps)
  show "building ms l (n + 4) (snd (BuildRenderItems_Lab5_pyramids fl i (word_of_nat n, s)))"
    unfolding BuildRenderItems_Lab5_pyramids_def Let_def prod.case building_def using d m lb l
    by (simp add: build_simps)
  show "take n (mAllRitems (snd (BuildRenderItems_Lab5_pyramids fl i (word_of_nat n, s)))) =
           mAllRitems s"
    unfolding BuildRenderItems_Lab5_pyramids_def Let_def prod.case using d m
    by (simp add: build_simps)
qed

lemma BuildRenderItems_Lab5_towers_step:
  assumes b: "building ms l n s" and m: "map_of ms ''stone0'' = Some (Some mb)" and l: "0 < l"
  shows "fst (BuildRenderItems_Lab5_towers fl i (word_of_nat n, s)) = word_of_nat (n + 26)"
    and "building ms l (n + 26) (snd (BuildRenderItems_Lab5_towers fl i (word_of_nat n, s)))"
    and "take n (mAllRitems (snd (BuildRenderItems_Lab5_towers fl i (word_of_nat n, s)))) =
           mAllRitems s"
proof -
  note d = buildingD [OF b]
  have lb: "layers_below (n + 26) (mRitemLayer s)" by (rule layers_below_mono [OF d(6)]) simp
  show "fst (BuildRenderItems_Lab5_towers fl i (word_of_nat n, s)) = word_of_nat (n + 26)"
    unfolding BuildRenderItems_Lab5_towers_def Let_def prod.case using d m
    by (simp add: build_simps)
  show "building ms l (n + 26) (snd (BuildRenderItems_Lab5_towers fl i (word_of_nat n, s)))"
    unfolding BuildRenderItems_Lab5_towers_def Let_def prod.case building_def using d m lb l
    by (simp add: build_simps)
  show "take n (mAllRitems (snd (BuildRenderItems_Lab5_towers fl i (word_of_nat n, s)))) =
           mAllRitems s"
    unfolding BuildRenderItems_Lab5_towers_def Let_def prod.case using d m
    by (simp add: build_simps)
qed

lemma BuildRenderItems_Lab5_border1_step:
  assumes b: "building ms l n s" and m: "map_of ms ''stone0'' = Some (Some mb)" and l: "0 < l"
  shows "fst (BuildRenderItems_Lab5_border1 fl i (word_of_nat n, s)) = word_of_nat (n + 2)"
    and "building ms l (n + 2) (snd (BuildRenderItems_Lab5_border1 fl i (word_of_nat n, s)))"
    and "take n (mAllRitems (snd (BuildRenderItems_Lab5_border1 fl i (word_of_nat n, s)))) =
           mAllRitems s"
proof -
  note d = buildingD [OF b]
  have lb: "layers_below (n + 2) (mRitemLayer s)" by (rule layers_below_mono [OF d(6)]) simp
  show "fst (BuildRenderItems_Lab5_border1 fl i (word_of_nat n, s)) = word_of_nat (n + 2)"
    unfolding BuildRenderItems_Lab5_border1_def Let_def prod.case using d m
    by (simp add: build_simps)
  show "building ms l (n + 2) (snd (BuildRenderItems_Lab5_border1 fl i (word_of_nat n, s)))"
    unfolding BuildRenderItems_Lab5_border1_def Let_def prod.case building_def using d m lb l
    by (simp add: build_simps)
  show "take n (mAllRitems (snd (BuildRenderItems_Lab5_border1 fl i (word_of_nat n, s)))) =
           mAllRitems s"
    unfolding BuildRenderItems_Lab5_border1_def Let_def prod.case using d m
    by (simp add: build_simps)
qed

lemma BuildRenderItems_Lab5_border2_step:
  assumes b: "building ms l n s" and m: "map_of ms ''stone0'' = Some (Some mb)" and l: "0 < l"
  shows "fst (BuildRenderItems_Lab5_border2 fl i (word_of_nat n, s)) = word_of_nat (n + 2)"
    and "building ms l (n + 2) (snd (BuildRenderItems_Lab5_border2 fl i (word_of_nat n, s)))"
    and "take n (mAllRitems (snd (BuildRenderItems_Lab5_border2 fl i (word_of_nat n, s)))) =
           mAllRitems s"
proof -
  note d = buildingD [OF b]
  have lb: "layers_below (n + 2) (mRitemLayer s)" by (rule layers_below_mono [OF d(6)]) simp
  show "fst (BuildRenderItems_Lab5_border2 fl i (word_of_nat n, s)) = word_of_nat (n + 2)"
    unfolding BuildRenderItems_Lab5_border2_def Let_def prod.case using d m
    by (simp add: build_simps)
  show "building ms l (n + 2) (snd (BuildRenderItems_Lab5_border2 fl i (word_of_nat n, s)))"
    unfolding BuildRenderItems_Lab5_border2_def Let_def prod.case building_def using d m lb l
    by (simp add: build_simps)
  show "take n (mAllRitems (snd (BuildRenderItems_Lab5_border2 fl i (word_of_nat n, s)))) =
           mAllRitems s"
    unfolding BuildRenderItems_Lab5_border2_def Let_def prod.case using d m
    by (simp add: build_simps)
qed

lemma BuildRenderItems_Lab5_singles_building:
  assumes b: "building ms l 0 s" and l: "1 < l"
    and m: "map_of ms ''bricks0'' = Some (Some m1)" "map_of ms ''tile0'' = Some (Some m2)"
      "map_of ms ''grassMat'' = Some (Some m3)" "map_of ms ''stone0'' = Some (Some m4)"
  shows "building ms l 12 (BuildRenderItems_Lab5_singles fl s)"
    and "World (mAllRitems (BuildRenderItems_Lab5_singles fl s) ! 3) =
           WorldOf fl ''centerCylinderRitem'' 0"
    and "TexTransform (mAllRitems (BuildRenderItems_Lab5_singles fl s) ! 3) =
           TexTransformOf fl ''centerCylinderRitem'' 0"
proof -
  note d = buildingD [OF b]
  have lb: "layers_below 12 (mRitemLayer s)" by (rule layers_below_mono [OF d(6)]) simp
  have ln: "list_all (\<lambda>i. i < 12) (mRitemLayer s ! 0)" "list_all (\<lambda>i. i < 12) (mRitemLayer s ! 1)"
    using l d(5) by (simp_all add: layers_below_nth [OF lb])
  show "building ms l 12 (BuildRenderItems_Lab5_singles fl s)"
    unfolding BuildRenderItems_Lab5_singles_def Let_def building_def using d m lb l ln
    by (simp add: build_simps layers_below_list_update)
  show "World (mAllRitems (BuildRenderItems_Lab5_singles fl s) ! 3) =
           WorldOf fl ''centerCylinderRitem'' 0"
    "TexTransform (mAllRitems (BuildRenderItems_Lab5_singles fl s) ! 3) =
           TexTransformOf fl ''centerCylinderRitem'' 0"
    unfolding BuildRenderItems_Lab5_singles_def Let_def using d m
    by (simp_all add: build_simps)
qed

lemma BuildRenderItems_Lab5_cell_step:
  assumes b: "building ms l n s" and m: "map_of ms ''stone0'' = Some (Some mb)" and l: "0 < l"
  shows "\<exists>n' s'. BuildRenderItems_Lab5_cell fl rnd row col (word_of_nat n, c, s) =
            (word_of_nat n', c + 2, s') \<and>
          n \<le> n' \<and> n' \<le> n + 2 \<and> building ms l n' s' \<and> take n (mAllRitems s') = mAllRitems s"
proof -
  note bd = buildingD [OF b]
  have lb: "layers_below (n + 1) (mRitemLayer s)" "layers_below (n + 2) (mRitemLayer s)"
    by (rule layers_below_mono [OF bd(6)]; simp)+
  consider (a) "rnd c smod 5 > 1" "rnd (c + 1) smod 5 > 1"
    | (b) "rnd c smod 5 > 1" "\<not> rnd (c + 1) smod 5 > 1"
    | (c) "\<not> rnd c smod 5 > 1" "rnd (c + 1) smod 5 > 1"
    | (d) "\<not> rnd c smod 5 > 1" "\<not> rnd (c + 1) smod 5 > 1"
    by blast
  then show ?thesis
  proof cases
    case a
    show ?thesis
      apply (rule exI [of _ "n + 2"])
      unfolding BuildRenderItems_Lab5_cell_def Let_def prod.case building_def using bd m lb l a
      apply (simp add: build_simps)
      done
  next
    case b
    show ?thesis
      apply (rule exI [of _ "n + 1"])
      unfolding BuildRenderItems_Lab5_cell_def Let_def prod.case building_def using bd m lb l b
      apply (simp add: build_simps)
      done
  next
    case c
    show ?thesis
      apply (rule exI [of _ "n + 1"])
      unfolding BuildRenderItems_Lab5_cell_def Let_def prod.case building_def using bd m lb l c
      apply (simp add: build_simps)
      done
  next
    case d
    show ?thesis
      apply (rule exI [of _ "n"])
      unfolding BuildRenderItems_Lab5_cell_def Let_def prod.case using b bd d
      apply simp
      done
  qed
qed

lemma loop_grows:
  assumes step: "\<And>i n c s. building ms l n s \<Longrightarrow>
      \<exists>n' s'. body i (word_of_nat n, c, s) = (word_of_nat n', c + q, s') \<and>
        n \<le> n' \<and> n' \<le> n + k \<and> building ms l n' s' \<and> take n (mAllRitems s') = mAllRitems s"
    and b: "building ms l n s"
  shows "\<exists>n' s'. foldl (\<lambda>x i. body i x) (word_of_nat n, c, s) js =
            (word_of_nat n', c + q * length js, s') \<and>
          n \<le> n' \<and> n' \<le> n + k * length js \<and> building ms l n' s' \<and>
          take n (mAllRitems s') = mAllRitems s"
  using b
proof (induction js arbitrary: n c s)
  case Nil
  then show ?case by (auto simp: buildingD(2))
next
  case (Cons j js)
  from step [OF Cons.prems, of j c] obtain n1 s1 where
    1: "body j (word_of_nat n, c, s) = (word_of_nat n1, c + q, s1)" and n1: "n \<le> n1" "n1 \<le> n + k"
    and b1: "building ms l n1 s1" and t1: "take n (mAllRitems s1) = mAllRitems s"
    by blast
  from Cons.IH [OF b1, of "c + q"] obtain n2 s2 where
    2: "foldl (\<lambda>x i. body i x) (word_of_nat n1, c + q, s1) js =
          (word_of_nat n2, c + q + q * length js, s2)"
    and n2: "n1 \<le> n2" "n2 \<le> n1 + k * length js"
    and b2: "building ms l n2 s2" and t2: "take n1 (mAllRitems s2) = mAllRitems s1"
    by blast
  have "take n (mAllRitems s2) = take n (take n1 (mAllRitems s2))" using n1 by (simp add: min_def)
  also have "\<dots> = mAllRitems s" by (simp only: t2 t1)
  finally have t: "take n (mAllRitems s2) = mAllRitems s" .
  have "n \<le> n2" "n2 \<le> n + k * length (j # js)" using n1 n2 by (simp_all add: algebra_simps)
  with 1 2 b2 t show ?case by (auto simp: algebra_simps)
qed

text \<open>
  The render items of Lab 5: between 120 and 192 render items with their position as
  index, then the tree sprites with index 3.
\<close>

lemma BuildRenderItems_Lab5_built:
  fixes s :: "('a::{zero,one}, 'p) App"
  assumes b: "building ms 4 0 s"
    and m: "map_of ms ''bricks0'' = Some (Some m1)" "map_of ms ''tile0'' = Some (Some m2)"
      "map_of ms ''grassMat'' = Some (Some m3)" "map_of ms ''stone0'' = Some (Some m4)"
      "map_of ms ''treeSprites'' = Some (Some m5)"
  shows "\<exists>n (t :: ('a, 'p) App) e. building ms 4 n t \<and> 120 \<le> n \<and> n \<le> 192 \<and>
      BuildRenderItems_Lab5 fl rnd s =
        t\<lparr>mRitemLayer := (mRitemLayer t)[2 := mRitemLayer t ! 2 @ [n]],
          mAllRitems := mAllRitems t @ [e]\<rparr> \<and>
      e = RenderItem_default\<lparr>World := Identity4x4, ObjCBIndex := 3, Mat := Some ''treeSprites'',
             Geo := Some ''treeSpritesGeo'', PrimitiveType := POINTLIST,
             DrawArgs := Some ''points''\<rparr> \<and>
      World (mAllRitems t ! 3) = WorldOf fl ''centerCylinderRitem'' 0 \<and>
      TexTransform (mAllRitems t ! 3) = TexTransformOf fl ''centerCylinderRitem'' 0"
proof -
  let ?s0 = "BuildRenderItems_Lab5_singles fl s"
  let ?x1 = "foldl (\<lambda>x i. BuildRenderItems_Lab5_pyramids fl i x) (12, ?s0) [0..<8]"
  let ?x2 = "foldl (\<lambda>x i. BuildRenderItems_Lab5_towers fl i x) (44, snd ?x1) [0..<2]"
  let ?x3 = "foldl (\<lambda>x i. BuildRenderItems_Lab5_border1 fl i x) (96, snd ?x2) [0..<6]"
  let ?x4 = "foldl (\<lambda>x i. BuildRenderItems_Lab5_border2 fl i x) ?x3 [0..<6]"
  let ?row = "\<lambda>row x. foldl (\<lambda>x col. BuildRenderItems_Lab5_cell fl rnd row col x) x [0..<6]"
  let ?x5 = "foldl (\<lambda>x row. ?row row x) (fst ?x4, 0, snd ?x4) [0..<6]"
  note sg = BuildRenderItems_Lab5_singles_building [OF b _ m(1-4), of fl]
  have b0: "building ms 4 12 ?s0" by (rule sg(1)) simp
  have l1: "building ms 4 (12 + 4 * length [0..<8])
      (snd (foldl (\<lambda>x i. BuildRenderItems_Lab5_pyramids fl i x) (word_of_nat 12, ?s0) [0..<8])) \<and>
    take 12 (mAllRitems (snd (foldl (\<lambda>x i. BuildRenderItems_Lab5_pyramids fl i x)
      (word_of_nat 12, ?s0) [0..<8]))) = mAllRitems ?s0"
    using BuildRenderItems_Lab5_pyramids_step [OF _ m(4) zero_less_numeral] b0
    by (intro conjunct2 [OF loop_building]) auto
  then have b1: "building ms 4 44 (snd ?x1)" and t1: "take 12 (mAllRitems (snd ?x1)) = mAllRitems ?s0"
    by simp_all
  have l2: "building ms 4 (44 + 26 * length [0..<2])
      (snd (foldl (\<lambda>x i. BuildRenderItems_Lab5_towers fl i x) (word_of_nat 44, snd ?x1) [0..<2])) \<and>
    take 44 (mAllRitems (snd (foldl (\<lambda>x i. BuildRenderItems_Lab5_towers fl i x)
      (word_of_nat 44, snd ?x1) [0..<2]))) = mAllRitems (snd ?x1)"
    using BuildRenderItems_Lab5_towers_step [OF _ m(4) zero_less_numeral] b1
    by (intro conjunct2 [OF loop_building]) auto
  then have b2: "building ms 4 96 (snd ?x2)" and t2: "take 44 (mAllRitems (snd ?x2)) = mAllRitems (snd ?x1)"
    by simp_all
  have l3: "fst (foldl (\<lambda>x i. BuildRenderItems_Lab5_border1 fl i x) (word_of_nat 96, snd ?x2) [0..<6])
      = word_of_nat (96 + 2 * length [0..<6]) \<and>
    building ms 4 (96 + 2 * length [0..<6])
      (snd (foldl (\<lambda>x i. BuildRenderItems_Lab5_border1 fl i x) (word_of_nat 96, snd ?x2) [0..<6])) \<and>
    take 96 (mAllRitems (snd (foldl (\<lambda>x i. BuildRenderItems_Lab5_border1 fl i x)
      (word_of_nat 96, snd ?x2) [0..<6]))) = mAllRitems (snd ?x2)"
    using BuildRenderItems_Lab5_border1_step [OF _ m(4) zero_less_numeral] b2
    by (intro loop_building) auto
  then have f3: "fst ?x3 = 108" and b3: "building ms 4 108 (snd ?x3)"
    and t3: "take 96 (mAllRitems (snd ?x3)) = mAllRitems (snd ?x2)"
    by simp_all
  have l4: "fst (foldl (\<lambda>x i. BuildRenderItems_Lab5_border2 fl i x) (word_of_nat 108, snd ?x3) [0..<6])
      = word_of_nat (108 + 2 * length [0..<6]) \<and>
    building ms 4 (108 + 2 * length [0..<6])
      (snd (foldl (\<lambda>x i. BuildRenderItems_Lab5_border2 fl i x) (word_of_nat 108, snd ?x3) [0..<6])) \<and>
    take 108 (mAllRitems (snd (foldl (\<lambda>x i. BuildRenderItems_Lab5_border2 fl i x)
      (word_of_nat 108, snd ?x3) [0..<6]))) = mAllRitems (snd ?x3)"
    using BuildRenderItems_Lab5_border2_step [OF _ m(4) zero_less_numeral] b3
    by (intro loop_building) auto
  moreover have "?x3 = (word_of_nat 108, snd ?x3)" using f3 by (simp add: prod_eq_iff)
  then have "?x4 = foldl (\<lambda>x i. BuildRenderItems_Lab5_border2 fl i x)
      (word_of_nat 108, snd ?x3) [0..<6]"
    by (rule arg_cong [of _ _ "\<lambda>x. foldl (\<lambda>x i. BuildRenderItems_Lab5_border2 fl i x) x [0..<6]"])
  ultimately have f4: "fst ?x4 = 120" and b4: "building ms 4 120 (snd ?x4)"
    and t4: "take 108 (mAllRitems (snd ?x4)) = mAllRitems (snd ?x3)"
    by simp_all
  have row: "\<exists>n' s'. ?row row (word_of_nat n, c, s) = (word_of_nat n', c + 12, s') \<and>
        n \<le> n' \<and> n' \<le> n + 12 \<and> building ms 4 n' s' \<and> take n (mAllRitems s') = mAllRitems s"
    if "building ms 4 n s" for row n c and s :: "('a, 'p) App"
    using loop_grows [of ms 4 "\<lambda>col. BuildRenderItems_Lab5_cell fl rnd row col" 2 2 n s c "[0..<6]",
        OF BuildRenderItems_Lab5_cell_step [OF _ m(4) zero_less_numeral] that]
    by simp
  from loop_grows [of ms 4 ?row 12 12 120 "snd ?x4" 0 "[0..<6]", OF row b4]
  obtain n t where x5: "foldl (\<lambda>x row. ?row row x) (120, 0, snd ?x4) [0..<6] = (word_of_nat n, 72, t)"
    and n: "120 \<le> n" "n \<le> 192" and b5: "building ms 4 n t"
    and t5: "take 120 (mAllRitems t) = mAllRitems (snd ?x4)"
    by auto
  note d = buildingD [OF b5]
  have eq: "BuildRenderItems_Lab5 fl rnd s =
      t\<lparr>mRitemLayer := (mRitemLayer t)[2 := mRitemLayer t ! 2 @ [n]],
        mAllRitems := mAllRitems t @
          [RenderItem_default\<lparr>World := Identity4x4, ObjCBIndex := 3, Mat := Some ''treeSprites'',
             Geo := Some ''treeSpritesGeo'', PrimitiveType := POINTLIST,
             DrawArgs := Some ''points''\<rparr>]\<rparr>"
    unfolding BuildRenderItems_Lab5_def Let_def using d(1,2) m(5)
    by (simp add: case_prod_beta f4 x5 subscript_present push_back_mAllRitems_def
        push_back_mRitemLayer_def AlphaTestedTreeSprites_def)
  have "mAllRitems t ! 3 = take 120 (mAllRitems t) ! 3" by simp
  also have "\<dots> = take 108 (mAllRitems (snd ?x4)) ! 3" by (simp add: t5)
  also have "\<dots> = take 96 (mAllRitems (snd ?x3)) ! 3" by (simp add: t4)
  also have "\<dots> = take 44 (mAllRitems (snd ?x2)) ! 3" by (simp add: t3)
  also have "\<dots> = take 12 (mAllRitems (snd ?x1)) ! 3" by (simp add: t2)
  also have "\<dots> = mAllRitems ?s0 ! 3" by (simp add: t1)
  finally have i3: "mAllRitems t ! 3 = mAllRitems ?s0 ! 3" .
  from b5 n eq sg(2,3) i3 show ?thesis by (intro exI conjI) (assumption | simp only:)+
qed

lemma BuildMaterials_Lab5_new:
  fixes m0 :: "'a Material" and fl l
  defines "s \<equiv> (BuildMaterials_Lab5 m0 fl (LitColumnsApp_new l) :: ('a, 'p) App)"
  shows "building (mMaterials s) l 0 s" "materials_ok m0 (mMaterials s)"
    "length (mMaterials s) = 5"
    "\<exists>m. map_of (mMaterials s) ''bricks0'' = Some (Some m)"
    "\<exists>m. map_of (mMaterials s) ''tile0'' = Some (Some m)"
    "\<exists>m. map_of (mMaterials s) ''grassMat'' = Some (Some m)"
    "\<exists>m. map_of (mMaterials s) ''stone0'' = Some (Some m)"
    "\<exists>m. map_of (mMaterials s) ''treeSprites'' = Some (Some m)"
  unfolding s_def
  by (simp_all add: BuildMaterials_Lab5_def LitColumnsApp_new_def Let_def building_def
      materials_ok_def layers_below_def list_all_iff)

text \<open>
  The state after \<open>Initialize\<close> of Lab 5. Whatever \<open>rand()\<close> returns, the render item at
  position 3 (\<open>centerCylinderRitem\<close>) and the last one (\<open>treeSpritesRitem\<close>) both have
  the index 3.
\<close>

lemma Initialize_Lab5_state:
  fixes m0 :: "'a::{zero,one} Material" and fl rnd c0
  defines "s \<equiv> (Initialize_Lab5 m0 fl rnd c0 :: ('a, 'p) App)"
  shows "initial s" "uniform s"
    "121 \<le> length (mAllRitems s)" "length (mAllRitems s) \<le> 193" "length (mMaterials s) = 5"
    "list_all (\<lambda>e. RenderItem.NumFramesDirty e = gNumFrameResources) (mAllRitems s)"
    "ObjCBIndex (mAllRitems s ! 3) = 3"
    "World (mAllRitems s ! 3) = WorldOf fl ''centerCylinderRitem'' 0"
    "TexTransform (mAllRitems s ! 3) = TexTransformOf fl ''centerCylinderRitem'' 0"
    "ObjCBIndex (last (mAllRitems s)) = 3"
    "World (last (mAllRitems s)) = Identity4x4"
    "TexTransform (last (mAllRitems s)) = Identity4x4"
    "mCurrentFence s = c0" "materials_ok m0 (mMaterials s)"
proof -
  define s0 :: "('a, 'p) App" where "s0 = BuildMaterials_Lab5 m0 fl (LitColumnsApp_new 4)"
  define s1 where "s1 = BuildRenderItems_Lab5 fl rnd s0"
  define ms where "ms = mMaterials s0"
  note bm = BuildMaterials_Lab5_new [of m0 fl 4, where ?'p = 'p, folded s0_def, folded ms_def]
  from bm(4-8) obtain m1 m2 m3 m4 m5 where
    m: "map_of ms ''bricks0'' = Some (Some m1)" "map_of ms ''tile0'' = Some (Some m2)"
      "map_of ms ''grassMat'' = Some (Some m3)" "map_of ms ''stone0'' = Some (Some m4)"
      "map_of ms ''treeSprites'' = Some (Some m5)"
    by blast
  from BuildRenderItems_Lab5_built [OF bm(1) m, of fl rnd] obtain n t e where
    b: "building ms 4 n t" and n: "120 \<le> n" "n \<le> 192"
    and s1: "s1 = t\<lparr>mRitemLayer := (mRitemLayer t)[2 := mRitemLayer t ! 2 @ [n]],
          mAllRitems := mAllRitems t @ [e]\<rparr>"
    and e: "e = RenderItem_default\<lparr>World := Identity4x4, ObjCBIndex := 3,
             Mat := Some ''treeSprites'', Geo := Some ''treeSpritesGeo'',
             PrimitiveType := POINTLIST, DrawArgs := Some ''points''\<rparr>"
    and c3: "World (mAllRitems t ! 3) = WorldOf fl ''centerCylinderRitem'' 0"
      "TexTransform (mAllRitems t ! 3) = TexTransformOf fl ''centerCylinderRitem'' 0"
    unfolding s1_def by blast
  note d = buildingD [OF b]
  have n32: "n < 2 ^ 32" using n by simp
  note ix = building_indices [OF b n32]
  have p: "mAllRitems s1 = mAllRitems t @ [e]" "mMaterials s1 = ms"
    "mRitemLayer s1 = (mRitemLayer t)[2 := mRitemLayer t ! 2 @ [n]]"
    "mFrameResources s1 = []" "mCurrFrameResourceIndex s1 = 0" "trace s1 = []"
    by (simp_all add: s1 d)
  have eo: "item_ok ms e" "ObjCBIndex e = 3" "World e = Identity4x4" "TexTransform e = Identity4x4"
    by (simp_all add: e item_ok_def RenderItem_default_def m)
  have s: "s = (BuildFrameResources s1)\<lparr>mCurrentFence := c0\<rparr>"
    by (simp add: s_def Initialize_Lab5_def s1_def s0_def)
  have mo: "materials_ok m0 (mMaterials s1)" using bm(2) by (simp add: p)
  have ok: "list_all (item_ok (mMaterials s1)) (mAllRitems s1)" using d(4) eo(1) by (simp add: p)
  have "list_all (\<lambda>e. unat (ObjCBIndex e) < Suc n) (mAllRitems t)"
    using ix(1) by (auto simp: list_all_iff d(2))
  then have idx: "list_all (\<lambda>e. unat (ObjCBIndex e) < length (mAllRitems s1)) (mAllRitems s1)"
    using n by (simp add: p d(2) eo(2))
  have "layers_below (Suc n) (mRitemLayer t)" by (rule layers_below_mono [OF d(6)]) simp
  moreover from this have "list_all (\<lambda>i. i < Suc n) (mRitemLayer t ! 2)"
    by (rule layers_below_nth) (simp add: d(5))
  ultimately have lay: "layers_below (length (mAllRitems s1)) (mRitemLayer s1)"
    unfolding p by (intro layers_below_list_update) (simp_all add: d(2))
  have small: "length (mAllRitems s1) < 2 ^ 32" "length (mMaterials s1) < 2 ^ 32"
    using n by (simp_all add: p d(2) bm(3))
  note fin = BuildFrameResources_initial [OF mo ok idx lay p(4,5,6) small, of c0, folded s]
  have t: "mAllRitems s = mAllRitems t @ [e]" "mMaterials s = ms"
    by (simp_all add: s BuildFrameResources_eq p)
  show "initial s" "uniform s" by (rule fin)+
  show "121 \<le> length (mAllRitems s)" "length (mAllRitems s) \<le> 193" "length (mMaterials s) = 5"
    using n by (simp_all add: t d(2) bm(3))
  show "list_all (\<lambda>e. RenderItem.NumFramesDirty e = gNumFrameResources) (mAllRitems s)"
    unfolding t using d(4) eo(1) by (simp add: list_all_iff item_ok_def)
  have 3: "mAllRitems s ! 3 = mAllRitems t ! 3" using n by (simp add: t nth_append d(2))
  from ix(3) n have "ObjCBIndex (mAllRitems t ! 3) = word_of_nat 3" by simp
  then show "ObjCBIndex (mAllRitems s ! 3) = 3" by (simp add: 3)
  show "World (mAllRitems s ! 3) = WorldOf fl ''centerCylinderRitem'' 0"
    "TexTransform (mAllRitems s ! 3) = TexTransformOf fl ''centerCylinderRitem'' 0"
    by (simp_all add: 3 c3)
  show "ObjCBIndex (last (mAllRitems s)) = 3" "World (last (mAllRitems s)) = Identity4x4"
    "TexTransform (last (mAllRitems s)) = Identity4x4"
    by (simp_all add: t eo)
  show "mCurrentFence s = c0" by (simp add: s)
  show "materials_ok m0 (mMaterials s)" using mo by (simp add: t p)
qed

subsection \<open>No redundant writes in the states that the applications reach\<close>

lemma dec_mat_funpow_counter:
  "map_option NumFramesDirty (snd ((dec_mat ^^ n) x)) =
     map_option (\<lambda>d. if 0 \<le> d then max 0 (d - int n) else d) (map_option NumFramesDirty (snd x))"
proof (cases "snd x")
  case None
  have "dec_mat x = x" by (cases x) (use None in \<open>simp add: dec_mat_def\<close>)
  then have "(dec_mat ^^ n) x = x" by (induction n) simp_all
  then show ?thesis by (simp add: None)
next
  case (Some m)
  from dec_mat_funpow [OF Some, of n] show ?thesis by (auto simp: Some)
qed

lemma count_list_objects_material:
  "count_list (map (\<lambda>e. EvCopyObject k (f e)) es) (EvCopyMaterial j c) = 0"
  by (induction es) simp_all

lemma uniform_run:
  assumes u: "uniform s" and wf: "well_formed s" and run: "run_frames gpu passes s = Some (Inr s')"
  shows "uniform s'"
proof -
  note st = run_frames_state [OF wf run]
  let ?n = "length passes"
  have i: "list_all (\<lambda>e. RenderItem.NumFramesDirty e = RenderItem.NumFramesDirty (hd (mAllRitems s')))
       (mAllRitems s')"
  proof (cases "mAllRitems s")
    case Nil
    then show ?thesis by (simp add: st(2))
  next
    case (Cons e es)
    with u have "\<forall>x \<in> set (e # es). RenderItem.NumFramesDirty x = RenderItem.NumFramesDirty e"
      by (simp add: uniform_def list_all_iff)
    then show ?thesis unfolding st(2) Cons by (simp add: list_all_iff dec_item_funpow)
  qed
  have m: "list_all (\<lambda>x. map_option NumFramesDirty (snd x) =
                   map_option NumFramesDirty (snd (hd (mMaterials s')))) (mMaterials s')"
  proof (cases "mMaterials s")
    case Nil
    then show ?thesis by (simp add: st(3))
  next
    case (Cons e es)
    with u have "\<forall>x \<in> set (e # es). map_option NumFramesDirty (snd x) = map_option NumFramesDirty (snd e)"
      by (simp add: uniform_def list_all_iff)
    then show ?thesis unfolding st(3) Cons by (simp add: list_all_iff dec_mat_funpow_counter)
  qed
  from i m show ?thesis by (simp add: uniform_def)
qed

lemma uniform_clean_items:
  assumes u: "uniform s" and i: "i < length (mAllRitems s)"
    and c: "RenderItem.NumFramesDirty (mAllRitems s ! i) = 0"
  shows "dirty_items (mAllRitems s) = []"
proof -
  from u have a: "\<forall>e \<in> set (mAllRitems s).
      RenderItem.NumFramesDirty e = RenderItem.NumFramesDirty (hd (mAllRitems s))"
    by (simp add: uniform_def list_all_iff)
  with i c have "RenderItem.NumFramesDirty (hd (mAllRitems s)) = 0" by (metis nth_mem)
  with a show ?thesis by (simp add: dirty_items_def filter_empty_conv)
qed

lemma uniform_clean_mats:
  assumes u: "uniform s" and i: "i < length (mMaterials s)"
    and c: "snd (mMaterials s ! i) = Some m" "NumFramesDirty m = 0"
  shows "dirty_mats (mMaterials s) = []"
proof -
  from u have a: "\<forall>x \<in> set (mMaterials s).
      map_option NumFramesDirty (snd x) = map_option NumFramesDirty (snd (hd (mMaterials s)))"
    by (simp add: uniform_def list_all_iff)
  with i c have "map_option NumFramesDirty (snd (hd (mMaterials s))) = Some 0"
    by (metis nth_mem option.simps(9))
  with a have "\<forall>x \<in> set (mMaterials s). map_option NumFramesDirty (snd x) = Some 0" by simp
  then have "\<forall>x \<in> set (mMaterials s). NumFramesDirty (the (snd x)) = 0" by fastforce
  then show ?thesis by (simp add: dirty_mats_def filter_empty_conv)
qed

text \<open>
  C7. In every state that the two applications reach, that is after any number of
  frames from \<open>Initialize\<close> of Assignment 1 or of Lab 5, the refresh pass of the next
  frame copies exactly the dirty render items and the dirty materials, each once and
  in the order of the lists, and the pass constants. For an entity whose counter is 0
  the loop body does nothing, in whatever state it runs; the pass leaves the entity
  as it is, copies nothing into its cell of the buffer of the current frame resource,
  and leaves that cell as it is.
\<close>

theorem no_copy_for_clean_entities:
  fixes s0 :: "('a::{zero,one}, 'p) App"
  assumes s0: "s0 = Initialize m0 fl c0 \<or> s0 = Initialize_Lab5 m0 fl rnd c0"
    and run: "run_frames gpu passes s0 = Some (Inr s)"
    and cyc: "Update_cycle gpu s = Some (Inr s1)"
    and k: "k = nat (mCurrFrameResourceIndex s1)"
  shows "mCurrFrameResource s1 = Some k \<and>
    Update_refresh pass s1 = Inr (refreshed k pass s1) \<and>
    trace (refreshed k pass s1) = trace s1 @
      map (\<lambda>e. EvCopyObject k (uint (ObjCBIndex e)))
        (filter (\<lambda>e. 0 < RenderItem.NumFramesDirty e) (mAllRitems s1)) @
      map (\<lambda>m. EvCopyMaterial k (MatCBIndex m))
        (filter (\<lambda>m. 0 < NumFramesDirty m) (map (the \<circ> snd) (mMaterials s1))) @
      [EvCopyPass k] \<and>
    (\<forall>i < length (mAllRitems s1). RenderItem.NumFramesDirty (mAllRitems s1 ! i) = 0 \<longrightarrow>
       (\<forall>t :: ('a, 'p) App. RenderItem.NumFramesDirty (mAllRitems t ! i) = 0 \<longrightarrow>
            UpdateObjectCBs_body k i t = Inr t) \<and>
       mAllRitems (refreshed k pass s1) ! i = mAllRitems s1 ! i \<and>
       copies k (ObjCBIndex (mAllRitems s1 ! i))
         (drop (length (trace s1)) (trace (refreshed k pass s1))) = 0 \<and>
       ObjectCB (mFrameResources (refreshed k pass s1) ! k) ! unat (ObjCBIndex (mAllRitems s1 ! i))
         = ObjectCB (mFrameResources s1 ! k) ! unat (ObjCBIndex (mAllRitems s1 ! i))) \<and>
    (\<forall>i < length (mMaterials s1). \<forall>m. snd (mMaterials s1 ! i) = Some m \<and> NumFramesDirty m = 0 \<longrightarrow>
       (\<forall>t :: ('a, 'p) App. snd (mMaterials t ! i) = Some m \<longrightarrow>
            UpdateMaterialCBs_body k i t = Inr t) \<and>
       mMaterials (refreshed k pass s1) ! i = mMaterials s1 ! i \<and>
       count_list (drop (length (trace s1)) (trace (refreshed k pass s1)))
         (EvCopyMaterial k (MatCBIndex m)) = 0 \<and>
       MaterialCB (mFrameResources (refreshed k pass s1) ! k) ! nat (MatCBIndex m)
         = MaterialCB (mFrameResources s1 ! k) ! nat (MatCBIndex m))"
proof -
  from s0 have init: "initial s0" and u0: "uniform s0"
    using Initialize_state(1,2) [of m0 fl c0, where ?'p = 'p]
      Initialize_Lab5_state(1,2) [of m0 fl rnd c0, where ?'p = 'p]
    by auto
  from init have wf0: "well_formed s0" by (simp add: initial_def)
  note st = run_frames_state [OF wf0 run]
  have u: "uniform s" by (rule uniform_run [OF u0 wf0 run])
  from Update_cycle_cases [OF st(1) cyc] obtain t ws where s1: "s1 = cycled t ws s" by blast
  have wf1: "well_formed s1" unfolding s1 by (rule well_formed_cycled [OF st(1)])
  have u1: "uniform s1" using u by (simp add: uniform_def s1)
  have k': "k = nat (next_index s)" by (simp add: k s1)
  have cur: "mCurrFrameResource s1 = Some k" by (simp add: s1 k')
  have kl: "k < length (mFrameResources s1)"
    using next_index_range(3) [OF st(1)] by (simp add: s1 k')
  note g = Update_refresh_clean [OF wf1 cur kl, of pass]
  have tr: "drop (length (trace s1)) (trace (refreshed k pass s1)) =
      map (\<lambda>e. EvCopyObject k (uint (ObjCBIndex e))) (dirty_items (mAllRitems s1)) @
      map (\<lambda>m. EvCopyMaterial k (MatCBIndex m)) (dirty_mats (mMaterials s1)) @ [EvCopyPass k]"
    by (simp add: refreshed_def)
  have items: "(\<forall>t :: ('a, 'p) App. RenderItem.NumFramesDirty (mAllRitems t ! i) = 0 \<longrightarrow>
            UpdateObjectCBs_body k i t = Inr t) \<and>
       mAllRitems (refreshed k pass s1) ! i = mAllRitems s1 ! i \<and>
       copies k (ObjCBIndex (mAllRitems s1 ! i))
         (drop (length (trace s1)) (trace (refreshed k pass s1))) = 0 \<and>
       ObjectCB (mFrameResources (refreshed k pass s1) ! k) ! unat (ObjCBIndex (mAllRitems s1 ! i))
         = ObjectCB (mFrameResources s1 ! k) ! unat (ObjCBIndex (mAllRitems s1 ! i))"
    if i: "i < length (mAllRitems s1)" and c: "RenderItem.NumFramesDirty (mAllRitems s1 ! i) = 0"
    for i
  proof -
    have e: "dirty_items (mAllRitems s1) = []" by (rule uniform_clean_items [OF u1 i c])
    have "copies k (ObjCBIndex (mAllRitems s1 ! i))
         (drop (length (trace s1)) (trace (refreshed k pass s1))) = 0"
      unfolding tr e by simp
    moreover have "ObjectCB (mFrameResources (refreshed k pass s1) ! k) = ObjectCB (mFrameResources s1 ! k)"
      using kl by (simp add: refreshed_frame_resources e)
    moreover from g i c have "(\<forall>t :: ('a, 'p) App. RenderItem.NumFramesDirty (mAllRitems t ! i) = 0 \<longrightarrow>
            UpdateObjectCBs_body k i t = Inr t) \<and>
       mAllRitems (refreshed k pass s1) ! i = mAllRitems s1 ! i" by blast
    ultimately show ?thesis by simp
  qed
  have mats: "(\<forall>t :: ('a, 'p) App. snd (mMaterials t ! i) = Some m \<longrightarrow>
            UpdateMaterialCBs_body k i t = Inr t) \<and>
       mMaterials (refreshed k pass s1) ! i = mMaterials s1 ! i \<and>
       count_list (drop (length (trace s1)) (trace (refreshed k pass s1)))
         (EvCopyMaterial k (MatCBIndex m)) = 0 \<and>
       MaterialCB (mFrameResources (refreshed k pass s1) ! k) ! nat (MatCBIndex m)
         = MaterialCB (mFrameResources s1 ! k) ! nat (MatCBIndex m)"
    if i: "i < length (mMaterials s1)" and c: "snd (mMaterials s1 ! i) = Some m \<and> NumFramesDirty m = 0"
    for i m
  proof -
    from c have c': "snd (mMaterials s1 ! i) = Some m" "NumFramesDirty m = 0" by simp_all
    have e: "dirty_mats (mMaterials s1) = []" by (rule uniform_clean_mats [OF u1 i c'])
    have "count_list (drop (length (trace s1)) (trace (refreshed k pass s1)))
         (EvCopyMaterial k (MatCBIndex m)) = 0"
      unfolding tr e by (simp add: count_list_objects_material)
    moreover have "MaterialCB (mFrameResources (refreshed k pass s1) ! k) = MaterialCB (mFrameResources s1 ! k)"
      using kl by (simp add: refreshed_frame_resources e)
    moreover from g i c have "(\<forall>t :: ('a, 'p) App. snd (mMaterials t ! i) = Some m \<longrightarrow>
            UpdateMaterialCBs_body k i t = Inr t) \<and>
       mMaterials (refreshed k pass s1) ! i = mMaterials s1 ! i" by blast
    ultimately show ?thesis by simp
  qed
  from g have "Update_refresh pass s1 = Inr (refreshed k pass s1)" 
    "trace (refreshed k pass s1) = trace s1 @
      map (\<lambda>e. EvCopyObject k (uint (ObjCBIndex e)))
        (filter (\<lambda>e. 0 < RenderItem.NumFramesDirty e) (mAllRitems s1)) @
      map (\<lambda>m. EvCopyMaterial k (MatCBIndex m))
        (filter (\<lambda>m. 0 < NumFramesDirty m) (map (the \<circ> snd) (mMaterials s1))) @
      [EvCopyPass k]"
    by blast+
  with cur items mats show ?thesis by blast
qed

theorem no_copy_for_clean_entities_witness:
  "\<exists>(s :: (int, nat) App) s1 m.
     run_frames (\<lambda>t. - 1) [7, 7, 7] (Initialize (ex_mat 3) ex_floats 5) = Some (Inr s) \<and>
     Update_cycle (\<lambda>t. - 1) s = Some (Inr s1) \<and>
     0 < length (mAllRitems s1) \<and> RenderItem.NumFramesDirty (mAllRitems s1 ! 0) = 0 \<and>
     0 < length (mMaterials s1) \<and> snd (mMaterials s1 ! 0) = Some m \<and> NumFramesDirty m = 0 \<and>
     Update_refresh 7 s1 = Inr (refreshed (nat (mCurrFrameResourceIndex s1)) 7 s1) \<and>
     copies (nat (mCurrFrameResourceIndex s1)) (ObjCBIndex (mAllRitems s1 ! 0))
       (drop (length (trace s1)) (trace (refreshed (nat (mCurrFrameResourceIndex s1)) 7 s1))) = 0 \<and>
     ObjectCB (mFrameResources (refreshed (nat (mCurrFrameResourceIndex s1)) 7 s1) !
         nat (mCurrFrameResourceIndex s1)) ! unat (ObjCBIndex (mAllRitems s1 ! 0)) =
       ObjectCB (mFrameResources s1 ! nat (mCurrFrameResourceIndex s1)) !
         unat (ObjCBIndex (mAllRitems s1 ! 0)) \<and>
     MaterialCB (mFrameResources (refreshed (nat (mCurrFrameResourceIndex s1)) 7 s1) !
         nat (mCurrFrameResourceIndex s1)) ! nat (MatCBIndex m) =
       MaterialCB (mFrameResources s1 ! nat (mCurrFrameResourceIndex s1)) ! nat (MatCBIndex m)"
proof -
  let ?s0 = "Initialize (ex_mat 3) ex_floats 5 :: (int, nat) App"
  let ?gpu = "\<lambda>t::nat. - 1 :: 64 word"
  note ini = Initialize_state [of "ex_mat 3" ex_floats 5, where ?'p = nat]
  from ini(1) have wf0: "well_formed ?s0" by (simp add: initial_def)
  from initial_three_frames [OF ini(1), of ?gpu 7 7 7] obtain s where
    run: "run_frames ?gpu [7, 7, 7] ?s0 = Some (Inr s)" by blast
  note st = run_frames_state [OF wf0 run]
  define s1 where "s1 = cycled (Suc (clock s)) [] s"
  have cyc: "Update_cycle ?gpu s = Some (Inr s1)"
    by (simp add: Update_cycle_eq [OF st(1)] s1_def)
  have l: "0 < length (mAllRitems s1)" "0 < length (mMaterials s1)"
    by (simp_all add: s1_def st(2,3) ini(3,4))
  from ini(7) have "RenderItem.NumFramesDirty (mAllRitems ?s0 ! 0) = 3"
    by (simp add: list_all_length ini(3) gNumFrameResources_def)
  then have c: "RenderItem.NumFramesDirty (mAllRitems s1 ! 0) = 0"
    by (simp add: s1_def st(2) ini(3) dec_item_funpow)
  have "0 < length (mMaterials ?s0)" by (simp add: ini(4))
  with ini(9) have "case snd (mMaterials ?s0 ! 0) of None \<Rightarrow> False
      | Some m \<Rightarrow> 0 \<le> MatCBIndex m \<and> MatCBIndex m < int (length (mMaterials ?s0)) \<and>
          NumFramesDirty m = NumFramesDirty (ex_mat 3)"
    unfolding materials_ok_def list_all_length by blast
  then have "\<exists>m. snd (mMaterials ?s0 ! 0) = Some m \<and> NumFramesDirty m = 3"
    by (cases "snd (mMaterials ?s0 ! 0)") (simp_all add: ex_mat_def)
  then obtain m0 where m0: "snd (mMaterials ?s0 ! 0) = Some m0" "NumFramesDirty m0 = 3" by blast
  from dec_mat_funpow [OF m0(1), of 3] obtain m where
    m: "(dec_mat ^^ 3) (mMaterials ?s0 ! 0) = (fst (mMaterials ?s0 ! 0), Some m)"
      "NumFramesDirty m = 0"
    by (auto simp: m0(2))
  have "mMaterials s1 ! 0 = (dec_mat ^^ 3) (mMaterials ?s0 ! 0)"
    by (simp add: s1_def st(3) ini(4) numeral_3_eq_3)
  then have cm: "snd (mMaterials s1 ! 0) = Some m" by (simp only: m(1) snd_conv)
  note th = no_copy_for_clean_entities [OF disjI1 [OF refl] run cyc refl, where pass = 7]
  from th have "Update_refresh 7 s1 = Inr (refreshed (nat (mCurrFrameResourceIndex s1)) 7 s1)"
    by blast
  moreover from th l(1) c have
    "copies (nat (mCurrFrameResourceIndex s1)) (ObjCBIndex (mAllRitems s1 ! 0))
       (drop (length (trace s1)) (trace (refreshed (nat (mCurrFrameResourceIndex s1)) 7 s1))) = 0"
    "ObjectCB (mFrameResources (refreshed (nat (mCurrFrameResourceIndex s1)) 7 s1) !
         nat (mCurrFrameResourceIndex s1)) ! unat (ObjCBIndex (mAllRitems s1 ! 0)) =
       ObjectCB (mFrameResources s1 ! nat (mCurrFrameResourceIndex s1)) !
         unat (ObjCBIndex (mAllRitems s1 ! 0))"
    by blast+
  moreover from th l(2) cm m(2) have
    "MaterialCB (mFrameResources (refreshed (nat (mCurrFrameResourceIndex s1)) 7 s1) !
         nat (mCurrFrameResourceIndex s1)) ! nat (MatCBIndex m) =
       MaterialCB (mFrameResources s1 ! nat (mCurrFrameResourceIndex s1)) ! nat (MatCBIndex m)"
    by blast
  ultimately show ?thesis using run cyc l c cm m(2) by blast
qed

subsection \<open>The indices of the copies\<close>

lemma after_frame_copy_in_range:
  assumes wf: "well_formed s" and ws: "ws = [] \<or> ws = [EvWait f]"
  shows "\<exists>evs. trace (after_frame t ws pass s) = trace s @ evs \<and>
    list_all (copy_in_range (length (mAllRitems s)) (length (mMaterials s))) evs"
proof -
  let ?k = "nat (next_index s)"
  let ?P = "copy_in_range (length (mAllRitems s)) (length (mMaterials s))"
  have kl: "?k < length (mFrameResources s)" by (rule next_index_range(3) [OF wf])
  have k3: "int ?k < gNumFrameResources"
    using next_index_range(1,2) [OF wf] by (simp add: gNumFrameResources_def)
  have o: "list_all ?P (map (\<lambda>e. EvCopyObject ?k (uint (ObjCBIndex e))) (dirty_items (mAllRitems s)))"
    using well_formed_itemD [OF wf] k3 by (auto simp: list_all_iff dirty_items_def)
  have m: "list_all ?P (map (\<lambda>mat. EvCopyMaterial ?k (MatCBIndex mat)) (dirty_mats (mMaterials s)))"
    unfolding list_all_iff
  proof
    fix ev assume "ev \<in> set (map (\<lambda>mat. EvCopyMaterial ?k (MatCBIndex mat)) (dirty_mats (mMaterials s)))"
    then obtain x where x: "x \<in> set (mMaterials s)" "ev = EvCopyMaterial ?k (MatCBIndex (the (snd x)))"
      by (auto simp: dirty_mats_def)
    from well_formed_matD [OF wf x(1)] show "?P ev" using k3 by (auto simp: x(2))
  qed
  have w: "list_all ?P ws" using ws by auto
  show ?thesis unfolding after_frame_trace [OF kl] using o m w k3 by simp
qed

lemma run_frames_copy_in_range:
  assumes wf: "well_formed s" and run: "run_frames gpu passes s = Some (Inr s')"
  shows "\<exists>evs. trace s' = trace s @ evs \<and>
    list_all (copy_in_range (length (mAllRitems s)) (length (mMaterials s))) evs"
  using run
proof (induction passes arbitrary: s' rule: rev_induct)
  case Nil
  then show ?case by simp
next
  case (snoc p ps)
  from snoc.prems obtain s1 where r1: "run_frames gpu ps s = Some (Inr s1)"
    and f: "frame gpu p s1 = Some (Inr s')"
    by (auto simp: run_frames_snoc split: option.splits sum.splits)
  note st = run_frames_state [OF wf r1]
  from snoc.IH [OF r1] obtain evs where e1: "trace s1 = trace s @ evs"
    "list_all (copy_in_range (length (mAllRitems s)) (length (mMaterials s))) evs" by blast
  from frame_cases [OF st(1) f] obtain t ws where
    s': "s' = after_frame t ws p s1" and ws: "ws = [] \<or> ws = [EvWait (next_fence s1)]"
    by (metis Inl_Inr_False sum.inject(2))
  from after_frame_copy_in_range [OF st(1) ws, of t p] obtain evs' where
    e2: "trace s' = trace s1 @ evs'"
    "list_all (copy_in_range (length (mAllRitems s1)) (length (mMaterials s1))) evs'"
    unfolding s' by blast
  have "length (mAllRitems s1) = length (mAllRitems s)" "length (mMaterials s1) = length (mMaterials s)"
    by (simp_all add: st(2,3))
  with e1 e2 show ?case by (intro exI [of _ "evs @ evs'"]) simp
qed

text \<open>
  C6. \<open>CopyData\<close> fails exactly when the index is not within the buffer. In the states
  after \<open>Initialize\<close> of Assignment 1 and of Lab 5 every frame resource has an object
  buffer of as many elements as there are render items, a material buffer of as many
  elements as there are materials and a pass buffer of one element; every
  \<open>ObjCBIndex\<close> is below the number of render items and every \<open>MatCBIndex\<close> is
  within the number of materials. So no run of frames from there ends in an error,
  and every copy that a run makes has its index in range.
\<close>

theorem copy_indices_in_range:
  fixes s0 :: "('a::{zero,one}, 'p) App"
  assumes s0: "s0 = Initialize m0 fl c0 \<or> s0 = Initialize_Lab5 m0 fl rnd c0"
  shows "(\<forall>i (d :: 'a ObjectConstants) buf.
        (CopyData i d buf = Inl PreconditionViolation) = (\<not> (0 \<le> i \<and> i < int (length buf)))) \<and>
    list_all (\<lambda>fr. length (ObjectCB fr) = length (mAllRitems s0) \<and>
                 length (MaterialCB fr) = length (mMaterials s0) \<and> length (PassCB fr) = 1)
      (mFrameResources s0) \<and>
    int (length (mFrameResources s0)) = gNumFrameResources \<and>
    list_all (\<lambda>e. 0 \<le> uint (ObjCBIndex e) \<and> uint (ObjCBIndex e) < int (length (mAllRitems s0)))
      (mAllRitems s0) \<and>
    list_all (\<lambda>x. case snd x of None \<Rightarrow> False
                | Some m \<Rightarrow> 0 \<le> MatCBIndex m \<and> MatCBIndex m < int (length (mMaterials s0)))
      (mMaterials s0) \<and>
    (\<forall>gpu passes err. run_frames gpu passes s0 \<noteq> Some (Inl err)) \<and>
    (\<forall>gpu passes s. run_frames gpu passes s0 = Some (Inr s) \<longrightarrow>
       list_all (copy_in_range (length (mAllRitems s0)) (length (mMaterials s0))) (trace s))"
proof -
  from s0 have init: "initial s0"
    using Initialize_state(1) [of m0 fl c0, where ?'p = 'p]
      Initialize_Lab5_state(1) [of m0 fl rnd c0, where ?'p = 'p]
    by auto
  then have wf: "well_formed s0" and tr: "trace s0 = []" by (simp_all add: initial_def)
  have 1: "(CopyData i d buf = Inl PreconditionViolation) = (\<not> (0 \<le> i \<and> i < int (length buf)))"
    for i and d :: "'a ObjectConstants" and buf
    by (simp add: CopyData_def)
  from wf have 2: "list_all (\<lambda>fr. length (ObjectCB fr) = length (mAllRitems s0) \<and>
                 length (MaterialCB fr) = length (mMaterials s0) \<and> length (PassCB fr) = 1)
      (mFrameResources s0)"
    and 3: "int (length (mFrameResources s0)) = gNumFrameResources"
    and 4: "list_all (\<lambda>e. 0 \<le> uint (ObjCBIndex e) \<and> uint (ObjCBIndex e) < int (length (mAllRitems s0)))
      (mAllRitems s0)"
    and 5: "list_all (\<lambda>x. case snd x of None \<Rightarrow> False
                | Some m \<Rightarrow> 0 \<le> MatCBIndex m \<and> MatCBIndex m < int (length (mMaterials s0)))
      (mMaterials s0)"
    unfolding well_formed_def list_all_iff by blast+
  have 6: "run_frames gpu passes s0 \<noteq> Some (Inl err)" for gpu passes err
    by (rule run_frames_no_error [OF wf])
  have 7: "list_all (copy_in_range (length (mAllRitems s0)) (length (mMaterials s0))) (trace s)"
    if "run_frames gpu passes s0 = Some (Inr s)" for gpu passes s
    using run_frames_copy_in_range [OF wf that] by (auto simp: tr)
  from 1 2 3 4 5 6 7 show ?thesis by blast
qed

theorem copy_indices_in_range_witness:
  "\<exists>s :: (int, nat) App.
     run_frames (\<lambda>t. 0) [7] (Initialize_Lab5 (ex_mat 3) ex_floats (\<lambda>n. 2) 5) = Some (Inr s) \<and>
     list_all (copy_in_range (length (mAllRitems (Initialize_Lab5 (ex_mat 3) ex_floats (\<lambda>n. 2) 5 :: (int, nat) App)))
                 (length (mMaterials (Initialize_Lab5 (ex_mat 3) ex_floats (\<lambda>n. 2) 5 :: (int, nat) App))))
       (trace s) \<and>
     trace s \<noteq> []"
proof -
  let ?s0 = "Initialize_Lab5 (ex_mat 3) ex_floats (\<lambda>n. 2) 5 :: (int, nat) App"
  note ini = Initialize_Lab5_state [of "ex_mat 3" ex_floats "\<lambda>n. 2" 5, where ?'p = nat]
  from ini(1) have wf: "well_formed ?s0" and i0: "mCurrFrameResourceIndex ?s0 = 0"
    and f0: "list_all (\<lambda>fr. Fence fr = 0) (mFrameResources ?s0)"
    by (simp_all add: initial_def)
  have "nat (next_index ?s0) < length (mFrameResources ?s0)" by (rule next_index_range(3) [OF wf])
  with f0 have nf: "next_fence ?s0 = 0" by (simp add: next_fence_def list_all_length)
  from frame_no_wait [OF wf nf, of "\<lambda>t. 0" 7] obtain s where
    run: "run_frames (\<lambda>t. 0) [7] ?s0 = Some (Inr s)"
    and s: "s = after_frame (Suc (clock ?s0)) [] 7 ?s0"
    by simp
  from copy_indices_in_range [of ?s0 "ex_mat 3" ex_floats 5 "\<lambda>n. 2", OF disjI2 [OF refl]] run
  have "list_all (copy_in_range (length (mAllRitems ?s0)) (length (mMaterials ?s0))) (trace s)"
    by blast
  moreover have "trace s \<noteq> []"
    unfolding s after_frame_trace [OF next_index_range(3) [OF wf]] by simp
  ultimately show ?thesis using run by blast
qed

subsection \<open>The first frames of a new scene\<close>

text \<open>
  C9. A render item is made with \<open>NumFramesDirty = gNumFrameResources\<close>, and so are
  the 96 render items of the scene that \<open>Initialize\<close> of Assignment 1 builds, without
  any further marking. The first three frames return, whatever the device does; they
  copy the constants of every render item exactly once into its cell of each of the
  three frame resources, and after them its counter is 0.
\<close>

theorem render_items_start_dirty:
  fixes m0 :: "'a::{zero,one} Material" and gpu :: "nat \<Rightarrow> 64 word" and p1 p2 p3 :: 'p
  shows "RenderItem.NumFramesDirty (RenderItem_default :: 'a RenderItem) = gNumFrameResources \<and>
    list_all (\<lambda>e. RenderItem.NumFramesDirty e = gNumFrameResources)
      (mAllRitems (Initialize m0 fl c0 :: ('a, 'p) App)) \<and>
    (\<exists>s. run_frames gpu [p1, p2, p3] (Initialize m0 fl c0) = Some (Inr s) \<and>
       (\<forall>i < length (mAllRitems (Initialize m0 fl c0 :: ('a, 'p) App)).
          RenderItem.NumFramesDirty (mAllRitems s ! i) = 0 \<and>
          (\<forall>k<3. copies k (ObjCBIndex (mAllRitems (Initialize m0 fl c0 :: ('a, 'p) App) ! i))
                    (trace s) = 1 \<and>
                 ObjectCB (mFrameResources s ! k) !
                     unat (ObjCBIndex (mAllRitems (Initialize m0 fl c0 :: ('a, 'p) App) ! i)) =
                   Some (objConstants (mAllRitems (Initialize m0 fl c0 :: ('a, 'p) App) ! i)))))"
proof -
  let ?s0 = "Initialize m0 fl c0 :: ('a, 'p) App"
  note ini = Initialize_state [of m0 fl c0, where ?'p = 'p]
  from ini(1) have wf: "well_formed ?s0" and tr: "trace ?s0 = []" by (simp_all add: initial_def)
  from initial_three_frames [OF ini(1), of gpu p1 p2 p3] obtain s where
    run: "run_frames gpu [p1, p2, p3] ?s0 = Some (Inr s)" by blast
  note st = run_frames_state [OF wf run]
  have "RenderItem.NumFramesDirty (mAllRitems s ! i) = 0 \<and>
          (\<forall>k<3. copies k (ObjCBIndex (mAllRitems ?s0 ! i)) (trace s) = 1 \<and>
                 ObjectCB (mFrameResources s ! k) ! unat (ObjCBIndex (mAllRitems ?s0 ! i)) =
                   Some (objConstants (mAllRitems ?s0 ! i)))"
    if i: "i < length (mAllRitems ?s0)" for i
  proof -
    from ini(7) i have d: "RenderItem.NumFramesDirty (mAllRitems ?s0 ! i) = 3"
      by (simp add: list_all_length gNumFrameResources_def)
    have dist: "\<forall>j<length (mAllRitems ?s0). j \<noteq> i \<longrightarrow>
        ObjCBIndex (mAllRitems ?s0 ! j) \<noteq> ObjCBIndex (mAllRitems ?s0 ! i)"
      using ini(5) i by (simp add: distinct_conv_nth)
    from three_frames_converge [OF wf run i d dist]
    have "\<forall>k<3. ObjectCB (mFrameResources s ! k) ! unat (ObjCBIndex (mAllRitems ?s0 ! i)) =
            Some (objConstants (mAllRitems ?s0 ! i)) \<and>
          copies k (ObjCBIndex (mAllRitems ?s0 ! i)) (trace s) = 1"
      by (simp add: tr)
    moreover have "RenderItem.NumFramesDirty (mAllRitems s ! i) = 0"
      using i d by (simp add: st(2) dec_item_funpow)
    ultimately show ?thesis by blast
  qed
  moreover have "RenderItem.NumFramesDirty (RenderItem_default :: 'a RenderItem) = gNumFrameResources"
    by (simp add: RenderItem_default_def)
  ultimately show ?thesis using ini(7) run by blast
qed

theorem render_items_start_dirty_witness:
  "\<exists>s :: (int, nat) App.
     run_frames (\<lambda>t. 0) [7, 7, 7] (Initialize (ex_mat 3) ex_floats 5) = Some (Inr s) \<and>
     0 < length (mAllRitems (Initialize (ex_mat 3) ex_floats 5 :: (int, nat) App)) \<and>
     RenderItem.NumFramesDirty (mAllRitems s ! 0) = 0 \<and>
     copies 2 (ObjCBIndex (mAllRitems (Initialize (ex_mat 3) ex_floats 5 :: (int, nat) App) ! 0))
       (trace s) = 1 \<and>
     ObjectCB (mFrameResources s ! 2) !
         unat (ObjCBIndex (mAllRitems (Initialize (ex_mat 3) ex_floats 5 :: (int, nat) App) ! 0)) =
       Some (objConstants (mAllRitems (Initialize (ex_mat 3) ex_floats 5 :: (int, nat) App) ! 0))"
proof -
  let ?s0 = "Initialize (ex_mat 3) ex_floats 5 :: (int, nat) App"
  have l: "0 < length (mAllRitems ?s0)"
    by (simp add: Initialize_state(3) [of "ex_mat 3" ex_floats 5, where ?'p = nat])
  from render_items_start_dirty [of "ex_mat 3" ex_floats 5 "\<lambda>t. 0" "7::nat" 7 7]
  obtain s where run: "run_frames (\<lambda>t. 0) [7, 7, 7] ?s0 = Some (Inr s)"
    and a: "\<forall>i < length (mAllRitems ?s0).
          RenderItem.NumFramesDirty (mAllRitems s ! i) = 0 \<and>
          (\<forall>k<3. copies k (ObjCBIndex (mAllRitems ?s0 ! i)) (trace s) = 1 \<and>
                 ObjectCB (mFrameResources s ! k) ! unat (ObjCBIndex (mAllRitems ?s0 ! i)) =
                   Some (objConstants (mAllRitems ?s0 ! i)))"
    by blast
  from a l have "RenderItem.NumFramesDirty (mAllRitems s ! 0) = 0"
    "copies 2 (ObjCBIndex (mAllRitems ?s0 ! 0)) (trace s) = 1"
    "ObjectCB (mFrameResources s ! 2) ! unat (ObjCBIndex (mAllRitems ?s0 ! 0)) =
       Some (objConstants (mAllRitems ?s0 ! 0))"
    by simp_all
  with run l show ?thesis by blast
qed

subsection \<open>Render items that share an index\<close>

lemma XMMatrixTranspose_Identity4x4 [simp]:
  "XMMatrixTranspose Identity4x4 = Identity4x4"
  by (simp add: Identity4x4_def)

lemma XMMatrixTranspose_twice [simp]:
  "XMMatrixTranspose (XMMatrixTranspose a) = a"
  by (induction a rule: XMMatrixTranspose.induct) simp

lemma XMMatrixTranspose_eq_Identity4x4 [simp]:
  "XMMatrixTranspose a = Identity4x4 \<longleftrightarrow> a = Identity4x4"
  by (metis XMMatrixTranspose_Identity4x4 XMMatrixTranspose_twice)

text \<open>
  Three frames after a render item was marked dirty, each frame resource holds its
  constants in the cell of its index, provided that no later render item has the same
  index: the refresh loop goes through the render items in order, and the last write
  to a cell stays.
\<close>

lemma three_frames_last_writer:
  assumes wf: "well_formed s" and run: "run_frames gpu [p1, p2, p3] s = Some (Inr s')"
    and i: "i < length (mAllRitems s)"
    and d: "RenderItem.NumFramesDirty (mAllRitems s ! i) = 3"
    and later: "\<forall>j<length (mAllRitems s). i < j \<longrightarrow>
       ObjCBIndex (mAllRitems s ! j) \<noteq> ObjCBIndex (mAllRitems s ! i)"
  shows "\<forall>k<3. ObjectCB (mFrameResources s' ! k) ! unat (ObjCBIndex (mAllRitems s ! i)) =
            Some (objConstants (mAllRitems s ! i))"
proof -
  let ?c = "ObjCBIndex (mAllRitems s ! i)" and ?v = "Some (objConstants (mAllRitems s ! i))"
  from run obtain s1 s2 where f1: "frame gpu p1 s = Some (Inr s1)"
    and f2: "frame gpu p2 s1 = Some (Inr s2)" and f3: "frame gpu p3 s2 = Some (Inr s')"
    by (auto split: option.splits sum.splits)
  from frame_cases [OF wf f1] obtain t1 ws1 where
    s1: "s1 = after_frame t1 ws1 p1 s"
    by (metis Inl_Inr_False sum.inject(2))
  have wf1: "well_formed s1" unfolding s1 by (rule well_formed_after_frame [OF wf])
  from frame_cases [OF wf1 f2] obtain t2 ws2 where
    s2: "s2 = after_frame t2 ws2 p2 s1"
    by (metis Inl_Inr_False sum.inject(2))
  have wf2: "well_formed s2" unfolding s2 by (rule well_formed_after_frame [OF wf1])
  from frame_cases [OF wf2 f3] obtain t3 ws3 where
    s3: "s' = after_frame t3 ws3 p3 s2"
    by (metis Inl_Inr_False sum.inject(2))
  define k1 where "k1 = nat (next_index s)"
  define k2 where "k2 = nat (next_index s1)"
  define k3 where "k3 = nat (next_index s2)"
  have k1: "k1 < 3" using next_index_range(1,2) [OF wf] by (simp add: k1_def)
  have k2: "k2 = Suc k1 mod 3" unfolding k2_def k1_def s1 by (rule next_index_after_frame [OF wf])
  have k3: "k3 = Suc k2 mod 3" unfolding k3_def k2_def s2 by (rule next_index_after_frame [OF wf1])
  have ne: "k1 \<noteq> k2" "k2 \<noteq> k3" "k1 \<noteq> k3" using k1 unfolding k3 k2 by presburger+
  have cover: "k = k1 \<or> k = k2 \<or> k = k3" if "k < 3" for k
    using that k1 unfolding k3 k2 by presburger
  have i1: "i < length (mAllRitems s1)" and i2: "i < length (mAllRitems s2)"
    using i by (simp_all add: s1 s2)
  have e1: "ObjCBIndex (mAllRitems s1 ! i) = ?c" "objConstants (mAllRitems s1 ! i) = objConstants (mAllRitems s ! i)"
    "RenderItem.NumFramesDirty (mAllRitems s1 ! i) = 2"
    using i d by (simp_all add: s1)
  have e2: "ObjCBIndex (mAllRitems s2 ! i) = ?c" "objConstants (mAllRitems s2 ! i) = objConstants (mAllRitems s ! i)"
    "RenderItem.NumFramesDirty (mAllRitems s2 ! i) = 1"
    using i d by (simp_all add: s1 s2)
  have d0: "0 < RenderItem.NumFramesDirty (mAllRitems s ! i)" using d by simp
  have d1: "0 < RenderItem.NumFramesDirty (mAllRitems s1 ! i)" using e1 by simp
  have d2: "0 < RenderItem.NumFramesDirty (mAllRitems s2 ! i)" using e2 by simp
  have later1: "\<forall>j<length (mAllRitems s1). i < j \<longrightarrow>
       ObjCBIndex (mAllRitems s1 ! j) \<noteq> ObjCBIndex (mAllRitems s1 ! i)"
    using later i by (simp add: s1)
  have later2: "\<forall>j<length (mAllRitems s2). i < j \<longrightarrow>
       ObjCBIndex (mAllRitems s2 ! j) \<noteq> ObjCBIndex (mAllRitems s2 ! i)"
    using later i by (simp add: s1 s2)
  have c1: "ObjectCB (mFrameResources s1 ! k1) ! unat ?c = ?v"
    unfolding s1 k1_def by (rule after_frame_cell [OF wf i d0 later])
  have c2: "ObjectCB (mFrameResources s2 ! k2) ! unat ?c = ?v"
    using after_frame_cell [OF wf1 i1 d1 later1, of t2 ws2 p2] unfolding e1 s2 [symmetric] k2_def
    by simp
  have c3: "ObjectCB (mFrameResources s' ! k3) ! unat ?c = ?v"
    using after_frame_cell [OF wf2 i2 d2 later2, of t3 ws3 p3] unfolding e2 s3 [symmetric] k3_def
    by simp
  have o2: "mFrameResources s2 ! k1 = mFrameResources s1 ! k1"
    unfolding s2 using ne(1) by (intro after_frame_other) (simp add: k2_def)
  have o3: "mFrameResources s' ! k1 = mFrameResources s2 ! k1"
    "mFrameResources s' ! k2 = mFrameResources s2 ! k2"
    unfolding s3 using ne by (intro after_frame_other; simp add: k3_def)+
  have "ObjectCB (mFrameResources s' ! k) ! unat ?c = ?v" if "k < 3" for k
    using cover [OF that] c1 c2 c3 o2 o3 by auto
  then show ?thesis by blast
qed

text \<open>
  C1. In the scene of Lab 5 the render items \<open>centerCylinderRitem\<close> (at position 3 of
  \<open>mAllRitems\<close>) and \<open>treeSpritesRitem\<close> (the last one) both have \<open>ObjCBIndex = 3\<close>.
  Both are made dirty, and the first three frames return and bring the counter of
  \<open>centerCylinderRitem\<close> to 0 without any change of its data; but cell 3 of the object
  buffer of each of the three frame resources then holds the constants of
  \<open>treeSpritesRitem\<close>, the identity matrices, written after those of
  \<open>centerCylinderRitem\<close> in every refresh. The cell holds the constants of
  \<open>centerCylinderRitem\<close> only if its \<open>World\<close> and \<open>TexTransform\<close> are the identity.
\<close>

theorem shared_index_cell_holds_other_constants:
  fixes s0 :: "('a::{zero,one}, 'p) App"
  assumes s0: "s0 = Initialize_Lab5 m0 fl rnd c0"
  shows "\<exists>s. run_frames gpu [p1, p2, p3] s0 = Some (Inr s) \<and>
    3 < length (mAllRitems s0) \<and>
    ObjCBIndex (mAllRitems s0 ! 3) = 3 \<and>
    World (mAllRitems s0 ! 3) = WorldOf fl ''centerCylinderRitem'' 0 \<and>
    TexTransform (mAllRitems s0 ! 3) = TexTransformOf fl ''centerCylinderRitem'' 0 \<and>
    RenderItem.NumFramesDirty (mAllRitems s0 ! 3) = gNumFrameResources \<and>
    ObjCBIndex (last (mAllRitems s0)) = 3 \<and>
    RenderItem.NumFramesDirty (mAllRitems s ! 3) = 0 \<and>
    objConstants (mAllRitems s ! 3) = objConstants (mAllRitems s0 ! 3) \<and>
    (\<forall>k<3. ObjectCB (mFrameResources s ! k) ! 3 = Some (objConstants (last (mAllRitems s0))) \<and>
           ObjectCB (mFrameResources s ! k) ! 3 = Some (ObjectConstants Identity4x4 Identity4x4) \<and>
           ((ObjectCB (mFrameResources s ! k) ! 3 = Some (objConstants (mAllRitems s0 ! 3))) =
            (WorldOf fl ''centerCylinderRitem'' 0 = Identity4x4 \<and>
             TexTransformOf fl ''centerCylinderRitem'' 0 = Identity4x4)))"
proof -
  note ini = Initialize_Lab5_state [of m0 fl rnd c0, where ?'p = 'p, folded s0]
  let ?es = "mAllRitems s0"
  let ?n = "length ?es - 1"
  from ini(1) have wf: "well_formed s0" by (simp add: initial_def)
  from initial_three_frames [OF ini(1), of gpu p1 p2 p3] obtain s where
    run: "run_frames gpu [p1, p2, p3] s0 = Some (Inr s)" by blast
  note st = run_frames_state [OF wf run]
  have l: "3 < length ?es" and n: "?n < length ?es" using ini(3) by simp_all
  have la: "last ?es = ?es ! ?n" using l by (intro last_conv_nth) auto
  have d3: "RenderItem.NumFramesDirty (?es ! 3) = 3"
    using ini(6) l by (simp add: list_all_length gNumFrameResources_def)
  have dn: "RenderItem.NumFramesDirty (?es ! ?n) = 3"
    using ini(6) n by (simp add: list_all_length gNumFrameResources_def)
  have later: "\<forall>j<length ?es. ?n < j \<longrightarrow> ObjCBIndex (?es ! j) \<noteq> ObjCBIndex (?es ! ?n)"
    by auto
  have u: "unat (ObjCBIndex (?es ! ?n)) = 3" using ini(10) by (simp add: la)
  have tree: "objConstants (last ?es) = ObjectConstants Identity4x4 Identity4x4"
    by (simp add: objConstants_def ini(11,12))
  have cyl: "(objConstants (?es ! 3) = ObjectConstants Identity4x4 Identity4x4) =
      (WorldOf fl ''centerCylinderRitem'' 0 = Identity4x4 \<and>
       TexTransformOf fl ''centerCylinderRitem'' 0 = Identity4x4)"
    by (simp add: objConstants_def ini(8,9))
  from three_frames_last_writer [OF wf run n dn later]
  have cells: "\<forall>k<3. ObjectCB (mFrameResources s ! k) ! 3 = Some (objConstants (last ?es))"
    unfolding u la by simp
  have c0: "RenderItem.NumFramesDirty (mAllRitems s ! 3) = 0"
    using l d3 by (simp add: st(2) dec_item_funpow)
  have same: "objConstants (mAllRitems s ! 3) = objConstants (?es ! 3)"
    using l by (simp add: st(2))
  have d3': "RenderItem.NumFramesDirty (?es ! 3) = gNumFrameResources"
    using d3 by (simp add: gNumFrameResources_def)
  have "ObjectCB (mFrameResources s ! k) ! 3 = Some (objConstants (last ?es)) \<and>
        ObjectCB (mFrameResources s ! k) ! 3 = Some (ObjectConstants Identity4x4 Identity4x4) \<and>
        ((ObjectCB (mFrameResources s ! k) ! 3 = Some (objConstants (?es ! 3))) =
         (WorldOf fl ''centerCylinderRitem'' 0 = Identity4x4 \<and>
          TexTransformOf fl ''centerCylinderRitem'' 0 = Identity4x4))"
    if "k < 3" for k
    using cells that tree cyl by auto
  with run l ini(7) ini(8) ini(9) ini(10) d3' c0 same show ?thesis
    by blast
qed

theorem shared_index_cell_holds_other_constants_witness:
  "\<exists>s :: (int, nat) App.
     run_frames (\<lambda>t. 0) [7, 7, 7] (Initialize_Lab5 (ex_mat 3) ex_floats (\<lambda>n. 2) 5) = Some (Inr s) \<and>
     RenderItem.NumFramesDirty (mAllRitems s ! 3) = 0 \<and>
     objConstants (mAllRitems s ! 3) =
       ObjectConstants
         (XMFLOAT4X4 (XMFLOAT4 50 0 0 0) (XMFLOAT4 0 1 0 50) (XMFLOAT4 0 0 2 0) (XMFLOAT4 0 0 0 1))
         Identity4x4 \<and>
     ObjectCB (mFrameResources s ! 0) ! 3 = Some (ObjectConstants Identity4x4 Identity4x4) \<and>
     ObjectCB (mFrameResources s ! 1) ! 3 = Some (ObjectConstants Identity4x4 Identity4x4) \<and>
     ObjectCB (mFrameResources s ! 2) ! 3 = Some (ObjectConstants Identity4x4 Identity4x4) \<and>
     ObjectCB (mFrameResources s ! 0) ! 3 \<noteq> Some (objConstants (mAllRitems s ! 3))"
proof -
  let ?s0 = "Initialize_Lab5 (ex_mat 3) ex_floats (\<lambda>n. 2) 5 :: (int, nat) App"
  from shared_index_cell_holds_other_constants [of ?s0 "ex_mat 3" ex_floats "\<lambda>n. 2" 5 "\<lambda>t. 0" 7 7 7, OF refl]
  obtain s where run: "run_frames (\<lambda>t. 0) [7, 7, 7] ?s0 = Some (Inr s)"
    and w: "World (mAllRitems ?s0 ! 3) = WorldOf ex_floats ''centerCylinderRitem'' 0"
    and x: "TexTransform (mAllRitems ?s0 ! 3) = TexTransformOf ex_floats ''centerCylinderRitem'' 0"
    and c: "RenderItem.NumFramesDirty (mAllRitems s ! 3) = 0"
    and e: "objConstants (mAllRitems s ! 3) = objConstants (mAllRitems ?s0 ! 3)"
    and cells: "\<forall>k<3. ObjectCB (mFrameResources s ! k) ! 3 = Some (ObjectConstants Identity4x4 Identity4x4)"
    by blast
  have "objConstants (mAllRitems ?s0 ! 3) =
       ObjectConstants
         (XMFLOAT4X4 (XMFLOAT4 50 0 0 0) (XMFLOAT4 0 1 0 50) (XMFLOAT4 0 0 2 0) (XMFLOAT4 0 0 0 1))
         Identity4x4"
    unfolding objConstants_def w x by (simp add: ex_floats_def)
  with e have v: "objConstants (mAllRitems s ! 3) =
       ObjectConstants
         (XMFLOAT4X4 (XMFLOAT4 50 0 0 0) (XMFLOAT4 0 1 0 50) (XMFLOAT4 0 0 2 0) (XMFLOAT4 0 0 0 1))
         Identity4x4"
    by simp
  have "ObjectCB (mFrameResources s ! 0) ! 3 \<noteq> Some (objConstants (mAllRitems s ! 3))"
    using cells unfolding v by (simp add: Identity4x4_def)
  with run c v cells show ?thesis by auto
qed

end
